theory Spec2Isabelle
  imports Main
begin

section \<open>The nREPL client of src/nrepl/index.ts\<close>

text \<open>
  A shallow embedding of the three classes of \<^verbatim>\<open>src/nrepl/index.ts\<close>:
  \<^verbatim>\<open>NReplClient\<close>, \<^verbatim>\<open>NReplSession\<close> and \<^verbatim>\<open>NReplEvaluation\<close>.
  Objects live in an explicit store (a map from references to records); every method
  takes the world and returns the new one. Calls to the collaborators outside the file
  (user callbacks, the output window, the logger, the debugger decorations) are
  recorded in a list of effects, in the order the code makes them; a collaborator is
  taken to return normally. A promise is the list of the calls made to its
  \<^verbatim>\<open>resolve\<close> and \<^verbatim>\<open>reject\<close> functions: JavaScript honours
  the first and ignores the rest.
\<close>

subsection \<open>Numbers and strings\<close>

text \<open>
  \<^verbatim>\<open>_nextId\<close> is a JavaScript number, a double. On the integers from 0 to
  \<open>2 ^ 53\<close> the addition of one is exact; at \<open>2 ^ 53\<close> the sum rounds back to
  \<open>2 ^ 53\<close>. A counter that starts at 0 and is only ever incremented never leaves
  that range.
\<close>

definition MAX_EXACT :: nat where
  "MAX_EXACT = 2 ^ 53"

definition js_increment :: "nat \<Rightarrow> nat" where
  "js_increment n = (if n < MAX_EXACT then n + 1 else n)"

definition digit_char :: "nat \<Rightarrow> char" where
  "digit_char d = ''0123456789'' ! d"

text \<open>
  \<^verbatim>\<open>n + ''\<close> for an integral double below \<open>10 ^ 21\<close>: the decimal digits,
  without a sign or leading zeros.
\<close>

fun toString :: "nat \<Rightarrow> string" where
  "toString n =
     (if n < 10 then [digit_char n] else toString (n div 10) @ [digit_char (n mod 10)])"

declare toString.simps [simp del]

text \<open>\<^verbatim>\<open>Array.prototype.indexOf\<close>: the first index of an element, or -1.\<close>

fun indexOf :: "'a list \<Rightarrow> 'a \<Rightarrow> int" where
  "indexOf [] x = -1"
| "indexOf (y # ys) x =
     (if y = x then 0 else (let i = indexOf ys x in if i = -1 then -1 else i + 1))"

text \<open>\<^verbatim>\<open>xs.splice(idx, 1)\<close> for an index in range.\<close>

definition splice1 :: "'a list \<Rightarrow> int \<Rightarrow> 'a list" where
  "splice1 xs idx = take (nat idx) xs @ drop (Suc (nat idx)) xs"

text \<open>Truthiness of an optional string: \<^verbatim>\<open>undefined\<close> and \<^verbatim>\<open>''\<close> are falsy.\<close>

definition truthy :: "string option \<Rightarrow> bool" where
  "truthy v = (case v of None \<Rightarrow> False | Some s \<Rightarrow> s \<noteq> [])"

text \<open>String conversion of an optional string inside a concatenation.\<close>

definition str_of :: "string option \<Rightarrow> string" where
  "str_of v = (case v of None \<Rightarrow> ''undefined'' | Some s \<Rightarrow> s)"

text \<open>The key under which \<^verbatim>\<open>obj[k]\<close> stores a value when \<open>k\<close> may be undefined.\<close>

definition prop_key :: "string option \<Rightarrow> string" where
  "prop_key k = str_of k"

text \<open>
  The capability table, the table of handlers of a session and the table of sessions
  of the client are plain objects, and the code reads them with \<^verbatim>\<open>obj[k]\<close>: a key
  the object does not have is looked up in \<^verbatim>\<open>Object.prototype\<close>. These are the
  names found there; each of them holds a function, except \<^verbatim>\<open>__proto__\<close>, which
  gives the prototype object itself.
\<close>

definition Object_prototype :: "string list" where
  "Object_prototype =
     [''constructor'', ''__defineGetter__'', ''__defineSetter__'', ''hasOwnProperty'',
      ''__lookupGetter__'', ''__lookupSetter__'', ''isPrototypeOf'', ''propertyIsEnumerable'',
      ''toString'', ''valueOf'', ''__proto__'', ''toLocaleString'']"

definition inherited :: "string \<Rightarrow> bool" where
  "inherited k = (k \<in> set Object_prototype)"

text \<open>
  Called with a message as in \<^verbatim>\<open>handlers[id](msg)\<close>, three of them throw:
  \<^verbatim>\<open>__proto__\<close> is not a function, and \<^verbatim>\<open>__defineGetter__\<close> and
  \<^verbatim>\<open>__defineSetter__\<close> expect a function as their second argument. The others
  return, and change nothing.
\<close>

definition inherited_throws :: "string \<Rightarrow> bool" where
  "inherited_throws k = (k \<in> set [''__proto__'', ''__defineGetter__'', ''__defineSetter__''])"

subsection \<open>Messages\<close>

text \<open>
  A decoded response. The code reads it as \<^verbatim>\<open>any\<close>; the model gives each key the
  code reads the type the protocol gives it (a string, a list of status tags, a list of
  causes, the table of operations of a describe response, whose values are
  dictionaries and so truthy: only its keys are kept). \<open>None\<close> is an absent key.
\<close>

type_synonym ref = nat

text \<open>The identity of a function object handed in by a caller.\<close>

type_synonym fn = nat

datatype error = TypeError string

record cause =
  cause_class :: "string option"
  cause_message :: "string option"
  cause_stacktrace :: "string list option"

record message =
  msg_id :: "string option"
  msg_session :: "string option"
  msg_status :: "string list option"
  msg_op :: "string option"
  msg_out :: "string option"
  msg_err :: "string option"
  msg_ns :: "string option"
  msg_ex :: "string option"
  msg_causes :: "cause list option"
  msg_value :: "string option"
  msg_debug_value :: "string option"
  msg_pprint_out :: "string option"
  msg_repl_type :: "string option"
  msg_new_session :: "string option"
  msg_ops :: "string list option"
  msg_reloading :: "string list option"
  msg_error :: "string option"
  msg_error_ns :: "string option"

definition no_message :: message where
  "no_message = \<lparr> msg_id = None, msg_session = None, msg_status = None, msg_op = None,
     msg_out = None, msg_err = None, msg_ns = None, msg_ex = None, msg_causes = None,
     msg_value = None, msg_debug_value = None, msg_pprint_out = None, msg_repl_type = None,
     msg_new_session = None, msg_ops = None, msg_reloading = None, msg_error = None,
     msg_error_ns = None \<rparr>"

text \<open>A request, as written to the encoder.\<close>

datatype arg = AUndefined | ABool bool | ANum int | AStr string | AStrs "string list"
  | AObj "(string \<times> arg) list"

record request =
  req_op :: string
  req_id :: "string option"
  req_session :: "string option"
  req_args :: "(string \<times> arg) list"

definition arg_of :: "string option \<Rightarrow> arg" where
  "arg_of v = (case v of None \<Rightarrow> AUndefined | Some s \<Rightarrow> AStr s)"

text \<open>
  \<^verbatim>\<open>hasStatus(res, status)\<close>: \<^verbatim>\<open>res.status && res.status.indexOf(status) > -1\<close>.
  Without a status the JavaScript value is \<^verbatim>\<open>undefined\<close>, which every caller reads
  as false.
\<close>

definition hasStatus :: "message \<Rightarrow> string \<Rightarrow> bool" where
  "hasStatus res status =
     (case msg_status res of None \<Rightarrow> False | Some tags \<Rightarrow> indexOf tags status > -1)"

text \<open>
  \<^verbatim>\<open>xs.join(',')\<close>, the string an array of strings turns into when \<^verbatim>\<open>==\<close>
  compares it with a string.
\<close>

fun join_comma :: "string list \<Rightarrow> string" where
  "join_comma [] = []"
| "join_comma [x] = x"
| "join_comma (x # y # ys) = x @ '','' @ join_comma (y # ys)"

text \<open>\<^verbatim>\<open>msg.status && msg.status == tag\<close>, with JavaScript's loose equality.\<close>

definition status_loosely_equals :: "message \<Rightarrow> string \<Rightarrow> bool" where
  "status_loosely_equals m tag =
     (case msg_status m of None \<Rightarrow> False | Some tags \<Rightarrow> join_comma tags = tag)"

subsection \<open>Objects\<close>

record refresh_result =
  res_reloaded :: "string list"
  res_status :: "string option"
  res_error :: "string option"
  res_errorNs :: "string option"
  res_err :: "string option"

text \<open>Values a promise is resolved or rejected with, and the stack trace of an evaluation.\<close>

datatype jsvalue = Undefined | Str string | Msg message | SessionObj ref | ClientObj
  | EmptyObj | CauseTrace "string list option" | Refreshed refresh_result | Thrown error

definition js_of :: "string option \<Rightarrow> jsvalue" where
  "js_of v = (case v of None \<Rightarrow> Undefined | Some s \<Rightarrow> Str s)"

fun js_truthy :: "jsvalue \<Rightarrow> bool" where
  "js_truthy Undefined = False"
| "js_truthy (Str s) = (s \<noteq> [])"
| "js_truthy v = True"

text \<open>String conversion of a rejection reason inside a concatenation.\<close>

fun js_string :: "jsvalue \<Rightarrow> string" where
  "js_string Undefined = ''undefined''"
| "js_string (Str s) = s"
| "js_string (Thrown (TypeError t)) = ''TypeError: '' @ t"
| "js_string v = ''[object Object]''"

datatype settle = Resolve jsvalue | Reject jsvalue

text \<open>
  The callbacks the code itself chains on a promise: the \<^verbatim>\<open>then\<close>/\<^verbatim>\<open>catch\<close>
  pair of \<^verbatim>\<open>onMessage\<close> on the stack trace fetch, and the \<^verbatim>\<open>catch\<close> of the
  two interrupts.
\<close>

datatype reaction = StacktraceFetched ref | InterruptEvaluationFailed | InterruptFailed string

record promise =
  calls :: "settle list"
  reaction :: "reaction option"

record pretty =
  pretty_value :: string
  pretty_error :: "string option"

text \<open>
  \<^verbatim>\<open>PrettyPrintingOptions\<close>, with the collaborator \<^verbatim>\<open>prettyPrint\<close> applied to
  them.
\<close>

record pprint_options =
  pp_enabled :: bool
  pp_printEngine :: string
  prettyPrint :: "string \<Rightarrow> pretty"

record refresh_closure =
  rc_reloaded :: "string list"
  rc_error :: "string option"
  rc_errorNs :: "string option"
  rc_status :: "string option"
  rc_err :: string

text \<open>
  The closures stored in \<^verbatim>\<open>messageHandlers\<close>, each with what it captures:
  \<^verbatim>\<open>resultHandler(resolve, reject)\<close> of a promise; the handler that resolves with the
  message; the handler of \<^verbatim>\<open>clone\<close>; the handler of \<^verbatim>\<open>_refresh\<close> with its
  local variables; the handler of \<^verbatim>\<open>eval\<close> and \<^verbatim>\<open>loadFile\<close> (the evaluation,
  its promise, whether the decorations are refreshed, the printing options).
\<close>

datatype handler = ResultHandler ref | ResolveHandler ref | CloneHandler ref
  | RefreshHandler ref refresh_closure | EvalHandler ref ref bool pprint_options

record session =
  sessionId :: "string option"
  runningIds :: "string list"
  onCloseHandlers :: "fn list"
  messageHandlers :: "string \<rightharpoonup> handler"
  replType :: "string option"

record evaluation =
  ev_id :: "string option"
  ev_session :: ref
  ev_stderr :: "fn option"
  ev_stdout :: "fn option"
  ev_stdin :: "fn option"
  ev_promise :: ref
  ev_ns :: "string option"
  ev_msgValue :: "string option"
  ev_pprintOut :: "string option"
  ev_outPut :: "string option"
  ev_errorOutput :: "string option"
  ev_exception :: "string option"
  ev_stacktrace :: jsvalue
  ev_msgs :: "message list"
  ev_interrupted :: bool
  ev_finished :: bool
  ev_running :: bool
  ev_resolve :: "ref option"
  ev_reject :: "ref option"

datatype direction = ClientToServer | ServerToClient | ClientToServerNotSupported

datatype logged = LogRequest request | LogMessage message

datatype effect =
    Log logged direction
  | CallStdout fn string
  | CallStderr fn string
  | CallStdin fn ref
  | PromptForInput ref
  | OutputAppend string
  | OutputAppendLine string
  | RenderDecorations
  | DebugOnMessage message
  | Analytics
  | CloseHandlerOfClient fn
  | CloseHandlerOfSession fn ref
  | ConsoleError error
  | UnhandledRejection string
  | DisconnectLater

record client =
  cl_nextId :: nat
  cl_session :: "ref option"
  cl_describe :: "message option"
  cl_sessions :: "(string \<times> ref) list"
  cl_ns :: string
  cl_closeHandlers :: "fn list"
  cl_written :: "request list"

text \<open>
  The world: the one connection (a client owns exactly one transport), the stores of
  sessions, evaluations and promises with the next free reference, the two static
  \<^verbatim>\<open>Instances\<close> arrays, the effects so far, the three identifiers and the promise of
  \<^verbatim>\<open>NReplClient.create\<close>, and the constant \<^verbatim>\<open>debug.DEBUG_QUIT_VALUE\<close>, whose
  module is not part of the sources.
\<close>

record world =
  the_client :: client
  session_store :: "ref \<rightharpoonup> session"
  evaluation_store :: "ref \<rightharpoonup> evaluation"
  promise_store :: "ref \<rightharpoonup> promise"
  next_ref :: ref
  Session_Instances :: "ref list"
  Evaluation_Instances :: "ref list"
  effects :: "effect list"
  nsId :: string
  cloneId :: string
  describeId :: string
  create_promise :: ref
  DEBUG_QUIT_VALUE :: string

subsection \<open>The store\<close>

datatype 'a outcome = Returned 'a world | Threw error world

definition no_session :: session where
  "no_session = \<lparr> sessionId = None, runningIds = [], onCloseHandlers = [],
     messageHandlers = Map.empty, replType = None \<rparr>"

text \<open>The object behind a reference (a reference the code holds is never dangling).\<close>

definition session_of :: "world \<Rightarrow> ref \<Rightarrow> session" where
  "session_of w s = (case session_store w s of None \<Rightarrow> no_session | Some x \<Rightarrow> x)"

definition update_session :: "ref \<Rightarrow> (session \<Rightarrow> session) \<Rightarrow> world \<Rightarrow> world" where
  "update_session s f w =
     (case session_store w s of
        None \<Rightarrow> w
      | Some x \<Rightarrow> w\<lparr>session_store := (session_store w)(s \<mapsto> f x)\<rparr>)"

definition update_evaluation :: "ref \<Rightarrow> (evaluation \<Rightarrow> evaluation) \<Rightarrow> world \<Rightarrow> world" where
  "update_evaluation e f w =
     (case evaluation_store w e of
        None \<Rightarrow> w
      | Some x \<Rightarrow> w\<lparr>evaluation_store := (evaluation_store w)(e \<mapsto> f x)\<rparr>)"

definition update_client :: "(client \<Rightarrow> client) \<Rightarrow> world \<Rightarrow> world" where
  "update_client f w = w\<lparr>the_client := f (the_client w)\<rparr>"

definition emit :: "effect \<Rightarrow> world \<Rightarrow> world" where
  "emit x w = w\<lparr>effects := effects w @ [x]\<rparr>"

definition log :: "logged \<Rightarrow> direction \<Rightarrow> world \<Rightarrow> world" where
  "log x d w = emit (Log x d) w"

text \<open>\<^verbatim>\<open>new Promise(...)\<close>: a fresh promise, no call made to it yet.\<close>

definition new_promise :: "world \<Rightarrow> ref \<times> world" where
  "new_promise w =
     (next_ref w,
      w\<lparr>promise_store := (promise_store w)(next_ref w \<mapsto> \<lparr>calls = [], reaction = None\<rparr>),
        next_ref := Suc (next_ref w)\<rparr>)"

text \<open>A call of the \<^verbatim>\<open>resolve\<close> or \<^verbatim>\<open>reject\<close> function of a promise.\<close>

definition call_settle :: "ref \<Rightarrow> settle \<Rightarrow> world \<Rightarrow> world" where
  "call_settle p s w =
     (case promise_store w p of
        None \<Rightarrow> w
      | Some pr \<Rightarrow> w\<lparr>promise_store := (promise_store w)(p \<mapsto> pr\<lparr>calls := calls pr @ [s]\<rparr>)\<rparr>)"

text \<open>The state of a promise: the first call made to it.\<close>

definition settled :: "world \<Rightarrow> ref \<Rightarrow> settle option" where
  "settled w p =
     (case promise_store w p of
        None \<Rightarrow> None
      | Some pr \<Rightarrow> (case calls pr of [] \<Rightarrow> None | s # rest \<Rightarrow> Some s))"

definition calls_of :: "world \<Rightarrow> ref \<Rightarrow> settle list" where
  "calls_of w p = (case promise_store w p of None \<Rightarrow> [] | Some pr \<Rightarrow> calls pr)"

subsection \<open>NReplEvaluation: resolving and rejecting\<close>

definition doResolve :: "ref \<Rightarrow> jsvalue \<Rightarrow> world \<Rightarrow> world" where
  "doResolve e reason w =
     (case evaluation_store w e of
        None \<Rightarrow> w
      | Some ev \<Rightarrow>
          update_evaluation e (\<lambda>x. x\<lparr>ev_running := False, ev_finished := True\<rparr>)
            (case ev_resolve ev of
               None \<Rightarrow> w
             | Some p \<Rightarrow> if \<not> ev_finished ev then call_settle p (Resolve reason) w else w))"

definition doReject :: "ref \<Rightarrow> jsvalue \<Rightarrow> world \<Rightarrow> world" where
  "doReject e reason w =
     (case evaluation_store w e of
        None \<Rightarrow> w
      | Some ev \<Rightarrow>
          update_evaluation e (\<lambda>x. x\<lparr>ev_running := False, ev_finished := True\<rparr>)
            (case ev_reject ev of
               None \<Rightarrow> w
             | Some p \<Rightarrow> if \<not> ev_finished ev then call_settle p (Reject reason) w else w))"

definition exception_of :: "world \<Rightarrow> ref \<Rightarrow> string option" where
  "exception_of w e = (case evaluation_store w e of None \<Rightarrow> None | Some ev \<Rightarrow> ev_exception ev)"

subsection \<open>Promises with chained callbacks\<close>

text \<open>
  The callbacks the code chains: after the stack trace fetch, \<^verbatim>\<open>then\<close> stores the
  stack trace and rejects the evaluation with its exception, \<^verbatim>\<open>catch\<close> only rejects;
  the \<^verbatim>\<open>catch\<close> of an interrupt throws a new error, which nothing handles. A callback
  is run when the promise is settled; JavaScript runs it as a microtask, after the
  current handler has returned.
\<close>

fun react :: "reaction \<Rightarrow> settle \<Rightarrow> world \<Rightarrow> world" where
  "react (StacktraceFetched e) (Resolve v) w =
     (let w1 = update_evaluation e (\<lambda>x. x\<lparr>ev_stacktrace := v\<rparr>) w
      in doReject e (js_of (exception_of w1 e)) w1)"
| "react (StacktraceFetched e) (Reject r) w = doReject e (js_of (exception_of w e)) w"
| "react InterruptEvaluationFailed (Resolve v) w = w"
| "react InterruptEvaluationFailed (Reject r) w =
     emit (UnhandledRejection (''Couldn't interrupt evaluation: '' @ js_string r)) w"
| "react (InterruptFailed i) (Resolve v) w = w"
| "react (InterruptFailed i) (Reject r) w =
     emit (UnhandledRejection (''Couldn't interrupt '' @ i @ '': '' @ js_string r)) w"

definition settle_promise :: "ref \<Rightarrow> settle \<Rightarrow> world \<Rightarrow> world" where
  "settle_promise p s w =
     (case promise_store w p of
        None \<Rightarrow> w
      | Some pr \<Rightarrow>
          (let w1 = call_settle p s w
           in if calls pr = []
              then (case reaction pr of None \<Rightarrow> w1 | Some r \<Rightarrow> react r s w1)
              else w1))"

text \<open>\<^verbatim>\<open>promise.then(...).catch(...)\<close> or \<^verbatim>\<open>promise.catch(...)\<close>.\<close>

definition chain :: "ref \<Rightarrow> reaction \<Rightarrow> world \<Rightarrow> world" where
  "chain p r w =
     (case promise_store w p of
        None \<Rightarrow> w
      | Some pr \<Rightarrow>
          (case calls pr of
             [] \<Rightarrow> w\<lparr>promise_store := (promise_store w)(p \<mapsto> pr\<lparr>reaction := Some r\<rparr>)\<rparr>
           | s # rest \<Rightarrow> react r s w))"

text \<open>
  \<^verbatim>\<open>resultHandler(resolve, reject)\<close>: an \<^verbatim>\<open>unknown-op\<close> status rejects, anything
  else resolves with the response; the handler is done either way.
\<close>

definition resultHandler :: "ref \<Rightarrow> message \<Rightarrow> world \<Rightarrow> bool \<times> world" where
  "resultHandler p res w =
     (if hasStatus res ''unknown-op''
      then (True, settle_promise p
              (Reject (Str (''The server does not recognize or cannot perform the '' @ [CHR 0x27]
                 @ str_of (msg_op res) @ [CHR 0x27] @ '' operation''))) w)
      else (True, settle_promise p (Resolve (Msg res)) w))"

subsection \<open>NReplClient\<close>

text \<open>\<^verbatim>\<open>get nextId() { return ++this._nextId + ''; }\<close>\<close>

definition nextId :: "world \<Rightarrow> string \<times> world" where
  "nextId w =
     (let n = js_increment (cl_nextId (the_client w))
      in (toString n, update_client (\<lambda>c. c\<lparr>cl_nextId := n\<rparr>) w))"

text \<open>
  The body shared by \<^verbatim>\<open>addOnCloseHandler\<close> and by \<^verbatim>\<open>removeOnCloseHandler\<close> of both
  classes, on the array of handlers.
\<close>

definition add_handler :: "fn list \<Rightarrow> fn \<Rightarrow> fn list" where
  "add_handler hs f = (if indexOf hs f = -1 then hs @ [f] else hs)"

definition remove_handler :: "fn list \<Rightarrow> fn \<Rightarrow> fn list" where
  "remove_handler hs f = (let idx = indexOf hs f in if idx \<noteq> -1 then splice1 hs idx else hs)"

definition client_addOnCloseHandler :: "fn \<Rightarrow> world \<Rightarrow> world" where
  "client_addOnCloseHandler f w =
     update_client (\<lambda>c. c\<lparr>cl_closeHandlers := add_handler (cl_closeHandlers c) f\<rparr>) w"

definition client_removeOnCloseHandler :: "fn \<Rightarrow> world \<Rightarrow> world" where
  "client_removeOnCloseHandler f w =
     update_client (\<lambda>c. c\<lparr>cl_closeHandlers := remove_handler (cl_closeHandlers c) f\<rparr>) w"

definition encoder_write :: "request \<Rightarrow> world \<Rightarrow> world" where
  "encoder_write data w = update_client (\<lambda>c. c\<lparr>cl_written := cl_written c @ [data]\<rparr>) w"

text \<open>\<^verbatim>\<open>NReplClient.write\<close>.\<close>

definition client_write :: "request \<Rightarrow> world \<Rightarrow> world" where
  "client_write data w = log (LogRequest data) ClientToServer (encoder_write data w)"

subsection \<open>NReplSession\<close>

text \<open>\<^verbatim>\<open>obj[k] = v\<close> and \<^verbatim>\<open>delete obj[k]\<close> on an object whose keys are kept in
  the order of their insertion.\<close>

fun assign :: "string \<Rightarrow> 'v \<Rightarrow> (string \<times> 'v) list \<Rightarrow> (string \<times> 'v) list" where
  "assign k v [] = [(k, v)]"
| "assign k v ((k', v') # kvs) = (if k' = k then (k, v) # kvs else (k', v') # assign k v kvs)"

definition delete_key :: "string \<Rightarrow> (string \<times> 'v) list \<Rightarrow> (string \<times> 'v) list" where
  "delete_key k kvs = filter (\<lambda>kv. fst kv \<noteq> k) kvs"

text \<open>
  \<^verbatim>\<open>for (const k in obj)\<close> on an object with no enumerable inherited property: the keys
  that are array indices (the decimal numeral, without leading zeros, of a number below
  \<open>2 ^ 32 - 1\<close>) come first, in ascending order, then the other keys in the order of their
  insertion.
\<close>

definition digit_value :: "char \<Rightarrow> nat" where
  "digit_value c = nat (indexOf ''0123456789'' c)"

definition of_decimal :: "string \<Rightarrow> nat" where
  "of_decimal cs = foldl (\<lambda>n c. 10 * n + digit_value c) 0 cs"

definition is_array_index :: "string \<Rightarrow> bool" where
  "is_array_index k = (k \<noteq> [] \<and> toString (of_decimal k) = k \<and> of_decimal k < 2 ^ 32 - 1)"

definition for_in :: "(string \<times> 'v) list \<Rightarrow> (string \<times> 'v) list" where
  "for_in kvs =
     sort_key (\<lambda>kv. of_decimal (fst kv)) (filter (\<lambda>kv. is_array_index (fst kv)) kvs)
     @ filter (\<lambda>kv. \<not> is_array_index (fst kv)) kvs"

text \<open>The constructor: the session enters the table of the client and the static array.\<close>

definition new_session :: "string option \<Rightarrow> world \<Rightarrow> ref \<times> world" where
  "new_session sid w =
     (let s = next_ref w;
          w1 = w\<lparr>session_store := (session_store w)(s \<mapsto> no_session\<lparr>sessionId := sid\<rparr>),
                 next_ref := Suc s\<rparr>;
          w2 = update_client (\<lambda>c. c\<lparr>cl_sessions := assign (prop_key sid) s (cl_sessions c)\<rparr>) w1
      in (s, w2\<lparr>Session_Instances := Session_Instances w2 @ [s]\<rparr>))"

definition addOnCloseHandler :: "ref \<Rightarrow> fn \<Rightarrow> world \<Rightarrow> world" where
  "addOnCloseHandler s f w =
     update_session s (\<lambda>x. x\<lparr>onCloseHandlers := add_handler (onCloseHandlers x) f\<rparr>) w"

definition removeOnCloseHandler :: "ref \<Rightarrow> fn \<Rightarrow> world \<Rightarrow> world" where
  "removeOnCloseHandler s f w =
     update_session s (\<lambda>x. x\<lparr>onCloseHandlers := remove_handler (onCloseHandlers x) f\<rparr>) w"

definition addRunningID :: "ref \<Rightarrow> string option \<Rightarrow> world \<Rightarrow> world" where
  "addRunningID s i w =
     (case i of
        None \<Rightarrow> w
      | Some x \<Rightarrow>
          if x \<noteq> [] \<and> x \<notin> set (runningIds (session_of w s))
          then update_session s (\<lambda>y. y\<lparr>runningIds := runningIds y @ [x]\<rparr>) w
          else w)"

text \<open>
  \<^verbatim>\<open>return this.client.describe && !!this.client.describe.ops[op]\<close>. Without a stored
  describe result the value is \<^verbatim>\<open>undefined\<close> (\<open>None\<close>); with one that has no table of
  operations, reading a property of \<^verbatim>\<open>undefined\<close> throws. The table is a plain
  object whose keys are the operations, each with a truthy value: \<^verbatim>\<open>ops[op]\<close> is
  truthy for its keys and for the names every object inherits.
\<close>

definition supports :: "world \<Rightarrow> string \<Rightarrow> error + bool option" where
  "supports w op =
     (case cl_describe (the_client w) of
        None \<Rightarrow> Inr None
      | Some d \<Rightarrow>
          (case msg_ops d of
             None \<Rightarrow> Inl (TypeError ''Cannot read properties of undefined'')
           | Some ops \<Rightarrow> Inr (Some (op \<in> set ops \<or> inherited op))))"

definition set_handler :: "ref \<Rightarrow> string option \<Rightarrow> handler \<Rightarrow> world \<Rightarrow> world" where
  "set_handler s i h w =
     update_session s (\<lambda>x. x\<lparr>messageHandlers := (messageHandlers x)(prop_key i \<mapsto> h)\<rparr>) w"

definition delete_handler :: "ref \<Rightarrow> string option \<Rightarrow> world \<Rightarrow> world" where
  "delete_handler s i w =
     update_session s (\<lambda>x. x\<lparr>messageHandlers := (messageHandlers x)(prop_key i := None)\<rparr>) w"

definition not_supported :: "request \<Rightarrow> world \<Rightarrow> world" where
  "not_supported msg w = log (LogRequest msg) ClientToServerNotSupported w"

text \<open>
  The body of a promise executor that asks \<^verbatim>\<open>this.supports(op)\<close>: the promise
  constructor turns an exception of its executor into a rejection.
\<close>

definition if_supports :: "string \<Rightarrow> ref \<Rightarrow> (world \<Rightarrow> world) \<Rightarrow> (world \<Rightarrow> world) \<Rightarrow> world \<Rightarrow> world"
  where
  "if_supports op p yes no w =
     (case supports w op of
        Inl e \<Rightarrow> settle_promise p (Reject (Thrown e)) w
      | Inr b \<Rightarrow> if b = Some True then yes w else no w)"

text \<open>
  The two branches most operations share: register the handler and write the message,
  or log the message as not supported and resolve with \<^verbatim>\<open>undefined\<close>.
\<close>

definition send_or_skip :: "ref \<Rightarrow> request \<Rightarrow> handler \<Rightarrow> ref \<Rightarrow> world \<Rightarrow> world" where
  "send_or_skip s msg h p w =
     if_supports (req_op msg) p
       (\<lambda>w1. client_write msg (set_handler s (req_id msg) h w1))
       (\<lambda>w1. settle_promise p (Resolve Undefined) (not_supported msg w1)) w"

definition the_request :: "string \<Rightarrow> string option \<Rightarrow> ref \<Rightarrow> (string \<times> arg) list \<Rightarrow> world \<Rightarrow> request"
  where
  "the_request op i s args w =
     \<lparr> req_op = op, req_id = i, req_session = sessionId (session_of w s), req_args = args \<rparr>"

text \<open>
  \<^verbatim>\<open>close\<close>: the exception of \<^verbatim>\<open>supports\<close> is caught and printed; the
  \<^verbatim>\<open>finally\<close> block runs in every case.
\<close>

definition close :: "ref \<Rightarrow> world \<Rightarrow> world" where
  "close s w =
     (let msg = the_request ''close'' None s [] w;
          w1 = (case supports w ''close'' of
                  Inl e \<Rightarrow> emit (ConsoleError e) w
                | Inr b \<Rightarrow> if b = Some True then client_write msg w else not_supported msg w);
          w2 = update_session s (\<lambda>x. x\<lparr>runningIds := []\<rparr>) w1;
          w3 = update_client
                 (\<lambda>c. c\<lparr>cl_sessions := delete_key (prop_key (sessionId (session_of w2 s)))
                          (cl_sessions c)\<rparr>) w2;
          idx = indexOf (Session_Instances w3) s;
          w4 = (if idx > -1 then w3\<lparr>Session_Instances := splice1 (Session_Instances w3) idx\<rparr>
                else w3)
      in w4\<lparr>effects := effects w4
           @ map (\<lambda>f. CloseHandlerOfSession f s) (onCloseHandlers (session_of w4 s))\<rparr>)"

text \<open>\<^verbatim>\<open>NReplClient.close\<close>: every session of the table is closed, then the socket is
  destroyed after a second.\<close>

definition client_close :: "world \<Rightarrow> world" where
  "client_close w =
     emit DisconnectLater (fold (\<lambda>kv. close (snd kv)) (for_in (cl_sessions (the_client w))) w)"

text \<open>
  The listener of the \<^verbatim>\<open>close\<close> event of the socket: the handlers of the client,
  then those of every session of the table.
\<close>

definition socket_closed :: "world \<Rightarrow> world" where
  "socket_closed w =
     w\<lparr>effects := effects w
        @ map CloseHandlerOfClient (cl_closeHandlers (the_client w))
        @ concat (map (\<lambda>kv. map (\<lambda>f. CloseHandlerOfSession f (snd kv))
                                (onCloseHandlers (session_of w (snd kv))))
                      (for_in (cl_sessions (the_client w))))\<rparr>"

definition clone :: "ref \<Rightarrow> world \<Rightarrow> ref \<times> world" where
  "clone s w =
     (let (p, w1) = new_promise w;
          (i, w2) = nextId w1;
          w3 = set_handler s (Some i) (CloneHandler p) w2;
          msg = the_request ''clone'' (Some i) s [] w3
      in (p, if_supports ''clone'' p (client_write msg)
               (\<lambda>w4. settle_promise p (Resolve Undefined) (not_supported msg w4)) w3))"

definition defaultMessageHandler :: "ref \<Rightarrow> message \<Rightarrow> world \<Rightarrow> world" where
  "defaultMessageHandler s msgData w =
     (let w1 = (if truthy (msg_repl_type msgData)
                then update_session s (\<lambda>x. x\<lparr>replType := msg_repl_type msgData\<rparr>) w
                else w);
          w2 = (if \<not> status_loosely_equals msgData ''done''
                then addRunningID s (msg_id msgData) w1
                else w1)
      in if (truthy (msg_out msgData) \<or> truthy (msg_err msgData))
            \<and> truthy (replType (session_of w2 s))
         then (if truthy (msg_out msgData) then emit (OutputAppend (str_of (msg_out msgData))) w2
               else if truthy (msg_err msgData)
               then emit (OutputAppendLine (str_of (msg_err msgData))) w2
               else w2)
         else w2)"

text \<open>
  The operations that build a message with a fresh identifier, ask \<^verbatim>\<open>supports\<close> and
  either register a handler and write, or log and resolve with \<^verbatim>\<open>undefined\<close>.
\<close>

definition gated_request ::
  "ref \<Rightarrow> string \<Rightarrow> (string \<times> arg) list \<Rightarrow> (ref \<Rightarrow> handler) \<Rightarrow> world \<Rightarrow> ref \<times> world" where
  "gated_request s op args h w =
     (let (p, w1) = new_promise w;
          (i, w2) = nextId w1
      in (p, send_or_skip s (the_request op (Some i) s args w2) (h p) p w2))"

text \<open>\<^verbatim>\<open>describe\<close> and \<^verbatim>\<open>outSubscribe\<close> do not ask \<^verbatim>\<open>supports\<close>.\<close>

definition ungated_request ::
  "ref \<Rightarrow> string \<Rightarrow> (string \<times> arg) list \<Rightarrow> world \<Rightarrow> ref \<times> world" where
  "ungated_request s op args w =
     (let (p, w1) = new_promise w;
          (i, w2) = nextId w1;
          w3 = set_handler s (Some i) (ResultHandler p) w2
      in (p, client_write (the_request op (Some i) s args w3) w3))"

definition arg_of_bool :: "bool option \<Rightarrow> arg" where
  "arg_of_bool v = (case v of None \<Rightarrow> AUndefined | Some b \<Rightarrow> ABool b)"

definition describe :: "ref \<Rightarrow> bool option \<Rightarrow> world \<Rightarrow> ref \<times> world" where
  "describe s verbose w = ungated_request s ''describe'' [(''verbose'', arg_of_bool verbose)] w"

definition outSubscribe :: "ref \<Rightarrow> bool option \<Rightarrow> world \<Rightarrow> ref \<times> world" where
  "outSubscribe s verbose w =
     ungated_request s ''out-subscribe'' [(''verbose'', arg_of_bool verbose)] w"

definition listSessions :: "ref \<Rightarrow> world \<Rightarrow> ref \<times> world" where
  "listSessions s w = gated_request s ''ls-sessions'' [] ResultHandler w"

definition stacktrace :: "ref \<Rightarrow> world \<Rightarrow> ref \<times> world" where
  "stacktrace s w = gated_request s ''stacktrace'' [] ResultHandler w"

definition interrupt :: "ref \<Rightarrow> string option \<Rightarrow> world \<Rightarrow> ref \<times> world" where
  "interrupt s interruptId w =
     (let index = (case interruptId of
                     None \<Rightarrow> -1
                   | Some x \<Rightarrow> indexOf (runningIds (session_of w s)) x);
          w1 = (if index > -1
                then update_session s (\<lambda>x. x\<lparr>runningIds := splice1 (runningIds x) index\<rparr>) w
                else w);
          (i, w2) = nextId w1;
          (p, w3) = new_promise w2;
          msg = the_request ''interrupt'' (Some i) s [(''interrupt-id'', arg_of interruptId)] w3
      in (p, if_supports ''interrupt'' p
               (\<lambda>w4. client_write msg (set_handler s (Some i) (ResultHandler p) w4))
               (\<lambda>w4. settle_promise p
                        (Reject (Str ''interrupt not supported by the nREPL server''))
                        (not_supported msg w4)) w3))"

text \<open>\<^verbatim>\<open>stdin\<close> and \<^verbatim>\<open>initDebugger\<close> return nothing and are not wrapped in a
  promise: an exception of \<^verbatim>\<open>supports\<close> leaves them.\<close>

definition stdin :: "ref \<Rightarrow> string \<Rightarrow> world \<Rightarrow> unit outcome" where
  "stdin s message w =
     (let msg = the_request ''stdin'' None s [(''stdin'', AStr message)] w
      in case supports w ''stdin'' of
           Inl e \<Rightarrow> Threw e w
         | Inr b \<Rightarrow> Returned () (if b = Some True then client_write msg w else not_supported msg w))"

definition initDebugger :: "ref \<Rightarrow> world \<Rightarrow> unit outcome" where
  "initDebugger s w =
     (let (i, w1) = nextId w;
          msg = the_request ''init-debugger'' (Some i) s [] w1
      in case supports w1 ''init-debugger'' of
           Inl e \<Rightarrow> Threw e w1
         | Inr b \<Rightarrow>
             Returned () (if b = Some True then client_write msg w1 else not_supported msg w1))"

definition complete :: "ref \<Rightarrow> string \<Rightarrow> string \<Rightarrow> string option \<Rightarrow> bool \<Rightarrow> world \<Rightarrow> ref \<times> world"
  where
  "complete s ns symbol ctx enableJSCompletions w =
     gated_request s ''complete''
       ([(''ns'', AStr ns), (''symbol'', AStr symbol), (''context'', arg_of ctx)]
        @ (if enableJSCompletions then [(''enhanced-cljs-completion?'', AStr ''t'')] else []))
       ResultHandler w"

definition info :: "ref \<Rightarrow> string \<Rightarrow> string \<Rightarrow> world \<Rightarrow> ref \<times> world" where
  "info s ns symbol w =
     gated_request s ''info''
       [(''ns'', AStr ns),
        (''symbol'', AStr (case symbol of [] \<Rightarrow> [] | c # cs \<Rightarrow> if c = CHR 0x27 then cs else c # cs))]
       ResultHandler w"

definition classpath :: "ref \<Rightarrow> world \<Rightarrow> ref \<times> world" where
  "classpath s w = gated_request s ''classpath'' [] ResultHandler w"

definition testVarQuery :: "ref \<Rightarrow> arg \<Rightarrow> world \<Rightarrow> ref \<times> world" where
  "testVarQuery s query w = gated_request s ''test-var-query'' [(''var-query'', query)] ResultHandler w"

text \<open>\<^verbatim>\<open>test\<close> takes \<^verbatim>\<open>util.escapeStringRegexp\<close>, which is not part of the sources,
  as a parameter.\<close>

definition test :: "(string \<Rightarrow> string) \<Rightarrow> ref \<Rightarrow> string \<Rightarrow> string \<Rightarrow> world \<Rightarrow> ref \<times> world" where
  "test escapeStringRegexp s ns t w =
     testVarQuery s
       (AObj [(''ns-query'', AObj [(''exactly'', AStrs [ns])]),
              (''search'', AStr (escapeStringRegexp t)), (''test?'', ABool True)]) w"

definition testStacktrace :: "ref \<Rightarrow> string \<Rightarrow> string \<Rightarrow> int \<Rightarrow> world \<Rightarrow> ref \<times> world" where
  "testStacktrace s ns t index w =
     gated_request s ''test-stacktrace''
       [(''ns'', AStr ns), (''var'', AStr t), (''index'', ANum index)] ResolveHandler w"

definition testNs :: "ref \<Rightarrow> string \<Rightarrow> world \<Rightarrow> ref \<times> world" where
  "testNs s ns w = testVarQuery s (AObj [(''ns-query'', AObj [(''exactly'', AStrs [ns])])]) w"

definition testAll :: "ref \<Rightarrow> world \<Rightarrow> ref \<times> world" where
  "testAll s w = testVarQuery s (AObj [(''test?'', ABool True)]) w"

definition retest :: "ref \<Rightarrow> world \<Rightarrow> ref \<times> world" where
  "retest s w = gated_request s ''retest'' [] ResultHandler w"

definition loadAll :: "ref \<Rightarrow> world \<Rightarrow> ref \<times> world" where
  "loadAll s w = gated_request s ''ns-load-all'' [] ResultHandler w"

definition listNamespaces :: "ref \<Rightarrow> string list \<Rightarrow> world \<Rightarrow> ref \<times> world" where
  "listNamespaces s regexps w =
     gated_request s ''ns-list'' [(''filter-regexps'', AStrs regexps)] ResultHandler w"

definition nsPath :: "ref \<Rightarrow> string \<Rightarrow> world \<Rightarrow> ref \<times> world" where
  "nsPath s ns w = gated_request s ''ns-path'' [(''ns'', AStr ns)] ResultHandler w"

definition new_refresh_closure :: refresh_closure where
  "new_refresh_closure =
     \<lparr> rc_reloaded = [], rc_error = None, rc_errorNs = None, rc_status = None, rc_err = [] \<rparr>"

definition refresh_with :: "ref \<Rightarrow> string \<Rightarrow> (string \<times> arg) list \<Rightarrow> world \<Rightarrow> ref \<times> world" where
  "refresh_with s cmd opts w =
     gated_request s cmd opts (\<lambda>p. RefreshHandler p new_refresh_closure) w"

definition refresh :: "ref \<Rightarrow> (string \<times> arg) list \<Rightarrow> world \<Rightarrow> ref \<times> world" where
  "refresh s opts w = refresh_with s ''refresh'' opts w"

definition refreshAll :: "ref \<Rightarrow> (string \<times> arg) list \<Rightarrow> world \<Rightarrow> ref \<times> world" where
  "refreshAll s opts w = refresh_with s ''refresh-all'' opts w"

definition formatCode :: "ref \<Rightarrow> string \<Rightarrow> string option \<Rightarrow> world \<Rightarrow> ref \<times> world" where
  "formatCode s code options w =
     gated_request s ''format-code'' [(''code'', AStr code), (''options'', arg_of options)]
       ResultHandler w"

definition interruptAll :: "ref \<Rightarrow> world \<Rightarrow> nat \<times> world" where
  "interruptAll s w =
     (let ids = runningIds (session_of w s)
      in if length ids > 0
         then (length ids,
               fold (\<lambda>i w1. let (p, w2) = interrupt s (Some i) w1 in chain p (InterruptFailed i) w2)
                 ids (update_session s (\<lambda>x. x\<lparr>runningIds := []\<rparr>) w))
         else (0, w))"

text \<open>\<^verbatim>\<open>sendDebugInput\<close> takes the identifier of its message from its caller.\<close>

definition sendDebugInput :: "ref \<Rightarrow> arg \<Rightarrow> string option \<Rightarrow> string option \<Rightarrow> world \<Rightarrow> ref \<times> world"
  where
  "sendDebugInput s input debugResponseId debugResponseKey w =
     (let (p, w1) = new_promise w
      in (p, send_or_skip s
               (the_request ''debug-input'' debugResponseId s
                  [(''input'', input), (''key'', arg_of debugResponseKey)] w1)
               (ResultHandler p) p w1))"

definition listDebugInstrumentedDefs :: "ref \<Rightarrow> world \<Rightarrow> ref \<times> world" where
  "listDebugInstrumentedDefs s w = gated_request s ''debug-instrumented-defs'' [] ResultHandler w"

definition clojureDocsRefreshCache :: "ref \<Rightarrow> world \<Rightarrow> ref \<times> world" where
  "clojureDocsRefreshCache s w = gated_request s ''clojuredocs-refresh-cache'' [] ResolveHandler w"

text \<open>\<^verbatim>\<open>clojureDocsLookup\<close> resolves with \<^verbatim>\<open>undefined\<close> without logging.\<close>

definition clojureDocsLookup :: "ref \<Rightarrow> string \<Rightarrow> string \<Rightarrow> world \<Rightarrow> ref \<times> world" where
  "clojureDocsLookup s ns symbol w =
     (let (p, w1) = new_promise w;
          (i, w2) = nextId w1;
          msg = the_request ''clojuredocs-lookup'' (Some i) s
                  [(''ns'', AStr ns), (''sym'', AStr symbol)] w2
      in (p, if_supports ''clojuredocs-lookup'' p
               (\<lambda>w3. client_write msg (set_handler s (Some i) (ResolveHandler p) w3))
               (settle_promise p (Resolve Undefined)) w2))"

subsection \<open>NReplEvaluation\<close>

definition no_evaluation :: evaluation where
  "no_evaluation = \<lparr> ev_id = None, ev_session = 0, ev_stderr = None, ev_stdout = None,
     ev_stdin = None, ev_promise = 0, ev_ns = None, ev_msgValue = None, ev_pprintOut = None,
     ev_outPut = None, ev_errorOutput = None, ev_exception = None, ev_stacktrace = Undefined,
     ev_msgs = [], ev_interrupted = False, ev_finished = False, ev_running = False,
     ev_resolve = None, ev_reject = None \<rparr>"

definition evaluation_of :: "world \<Rightarrow> ref \<Rightarrow> evaluation" where
  "evaluation_of w e = (case evaluation_store w e of None \<Rightarrow> no_evaluation | Some x \<Rightarrow> x)"

text \<open>\<^verbatim>\<open>add\<close> and \<^verbatim>\<open>remove\<close>, on the static array of the class.\<close>

definition add :: "ref \<Rightarrow> world \<Rightarrow> world" where
  "add e w =
     (if e \<notin> set (Evaluation_Instances w)
      then w\<lparr>Evaluation_Instances := Evaluation_Instances w @ [e]\<rparr>
      else w)"

definition remove :: "ref \<Rightarrow> world \<Rightarrow> world" where
  "remove e w =
     (let index = indexOf (Evaluation_Instances w) e
      in if index > -1 then w\<lparr>Evaluation_Instances := splice1 (Evaluation_Instances w) index\<rparr>
         else w)"

text \<open>The getter \<^verbatim>\<open>msgValue\<close>: the stored value, or the empty string.\<close>

definition msgValue :: "evaluation \<Rightarrow> string" where
  "msgValue ev = (if truthy (ev_msgValue ev) then str_of (ev_msgValue ev) else [])"

definition out :: "ref \<Rightarrow> string \<Rightarrow> world \<Rightarrow> world" where
  "out e message w =
     (let w1 = update_evaluation e
                 (\<lambda>x. x\<lparr>ev_outPut := (if \<not> truthy (ev_outPut x) then Some message
                                        else Some (str_of (ev_outPut x) @ message))\<rparr>) w;
          ev = evaluation_of w1 e
      in case ev_stdout ev of
           None \<Rightarrow> w1
         | Some f \<Rightarrow> if \<not> ev_interrupted ev then emit (CallStdout f message) w1 else w1)"

definition err :: "ref \<Rightarrow> string \<Rightarrow> world \<Rightarrow> world" where
  "err e message w =
     (let w1 = update_evaluation e
                 (\<lambda>x. x\<lparr>ev_errorOutput := (if \<not> truthy (ev_errorOutput x) then Some message
                                             else Some (str_of (ev_errorOutput x) @ message))\<rparr>) w;
          ev = evaluation_of w1 e
      in case ev_stderr ev of
           None \<Rightarrow> w1
         | Some f \<Rightarrow> if \<not> ev_interrupted ev then emit (CallStderr f message) w1 else w1)"

text \<open>\<^verbatim>\<open>in\<close>.\<close>

definition evaluation_in :: "ref \<Rightarrow> string \<Rightarrow> world \<Rightarrow> unit outcome" where
  "evaluation_in e message w = stdin (ev_session (evaluation_of w e)) message w"

text \<open>
  \<^verbatim>\<open>NReplEvaluation.interrupt\<close>. The promise of \<^verbatim>\<open>session.interrupt\<close> never
  throws into its caller: a failure reaches the chained \<^verbatim>\<open>catch\<close>.
\<close>

definition evaluation_interrupt :: "ref \<Rightarrow> world \<Rightarrow> world" where
  "evaluation_interrupt e w =
     (let ev = evaluation_of w e
      in if \<not> ev_interrupted ev \<and> ev_running ev
         then (let w1 = remove e w;
                   w2 = update_evaluation e
                          (\<lambda>x. x\<lparr>ev_interrupted := True,
                                  ev_exception := Some ''Evaluation was interrupted'',
                                  ev_stacktrace := EmptyObj\<rparr>) w1;
                   (p, w3) = interrupt (ev_session ev) (ev_id ev) w2;
                   w4 = chain p InterruptEvaluationFailed w3;
                   w5 = doReject e (js_of (exception_of w4 e)) w4
               in delete_handler (ev_session ev) (ev_id ev) w5)
         else w)"

definition setHandlers :: "ref \<Rightarrow> ref \<Rightarrow> ref \<Rightarrow> world \<Rightarrow> world" where
  "setHandlers e resolve reject w =
     update_evaluation e (\<lambda>x. x\<lparr>ev_resolve := Some resolve, ev_reject := Some reject\<rparr>) w"

text \<open>
  \<^verbatim>\<open>onMessage\<close>, in the order of its statements. First the fields that are copied:
  the message itself, \<^verbatim>\<open>out\<close>, \<^verbatim>\<open>err\<close>, \<^verbatim>\<open>ns\<close> and \<^verbatim>\<open>ex\<close>.
\<close>

definition receive_fields :: "ref \<Rightarrow> message \<Rightarrow> world \<Rightarrow> world" where
  "receive_fields e msg w =
     (let w1 = update_evaluation e (\<lambda>x. x\<lparr>ev_msgs := ev_msgs x @ [msg]\<rparr>) w;
          w2 = (if truthy (msg_out msg) then out e (str_of (msg_out msg)) w1 else w1);
          w3 = (if truthy (msg_err msg) \<and> msgValue (evaluation_of w2 e) \<noteq> DEBUG_QUIT_VALUE w2
                then err e (str_of (msg_err msg)) w2 else w2);
          w4 = (if truthy (msg_ns msg)
                then update_evaluation e (\<lambda>x. x\<lparr>ev_ns := msg_ns msg\<rparr>) w3 else w3)
      in if truthy (msg_ex msg)
         then update_evaluation e (\<lambda>x. x\<lparr>ev_exception := msg_ex msg\<rparr>) w4 else w4)"

text \<open>
  The eval error of the debug middleware. \<^verbatim>\<open>msg.causes[0]\<close> of an empty array is
  \<^verbatim>\<open>undefined\<close>, and reading its \<^verbatim>\<open>class\<close> throws.
\<close>

definition receive_causes :: "ref \<Rightarrow> message \<Rightarrow> world \<Rightarrow> unit outcome" where
  "receive_causes e msg w =
     (if hasStatus msg ''eval-error''
      then (case msg_causes msg of
              None \<Rightarrow> Returned () w
            | Some [] \<Rightarrow> Threw (TypeError ''Cannot read properties of undefined'') w
            | Some (c # cs) \<Rightarrow>
                Returned ()
                  (err e (str_of (cause_class c) @ '': '' @ str_of (cause_message c))
                     (update_evaluation e
                        (\<lambda>x. x\<lparr>ev_stacktrace := CauseTrace (cause_stacktrace c)\<rparr>) w)))
      else Returned () w)"

text \<open>\<^verbatim>\<open>this._msgValue = msg.value || msg['debug-value']\<close>, and \<^verbatim>\<open>pprint-out\<close>.\<close>

definition receive_value :: "ref \<Rightarrow> message \<Rightarrow> world \<Rightarrow> world" where
  "receive_value e msg w =
     (let w1 = (if msg_value msg \<noteq> None \<or> msg_debug_value msg \<noteq> None
                then update_evaluation e
                       (\<lambda>x. x\<lparr>ev_msgValue := (if truthy (msg_value msg) then msg_value msg
                                                else msg_debug_value msg)\<rparr>) w
                else w)
      in if truthy (msg_pprint_out msg)
         then update_evaluation e (\<lambda>x. x\<lparr>ev_pprintOut := msg_pprint_out msg\<rparr>) w1
         else w1)"

text \<open>
  \<^verbatim>\<open>need-input\<close>: the provider of the caller is asked, or the user is prompted. The
  answer arrives later; what the code does with it is \<open>stdin_answered\<close>,
  \<open>stdin_failed\<close>, \<open>prompt_answered\<close> and \<open>prompt_failed\<close> below.
\<close>

definition receive_need_input :: "ref \<Rightarrow> message \<Rightarrow> world \<Rightarrow> world" where
  "receive_need_input e msg w =
     (if status_loosely_equals msg ''need-input''
      then (case ev_stdin (evaluation_of w e) of
              Some f \<Rightarrow> emit (CallStdin f e) w
            | None \<Rightarrow> emit (PromptForInput e) w)
      else w)"

text \<open>
  \<^verbatim>\<open>this.session.stacktrace().then(...).catch(...)\<close>: the request for the stack
  trace, with the two callbacks chained on its promise.
\<close>

definition fetch_stacktrace :: "ref \<Rightarrow> world \<Rightarrow> world" where
  "fetch_stacktrace e w =
     (let (p, w1) = stacktrace (ev_session (evaluation_of w e)) w
      in chain p (StacktraceFetched e) w1)"

text \<open>
  The end of an evaluation without an exception: the pretty printed output, or an
  empty rejection when a stack trace is there, or the value, which
  \<^verbatim>\<open>prettyPrint\<close> may render.
\<close>

definition resolve_value :: "ref \<Rightarrow> pprint_options \<Rightarrow> world \<Rightarrow> world" where
  "resolve_value e pp w =
     (let ev = evaluation_of w e
      in if truthy (ev_pprintOut ev) then doResolve e (js_of (ev_pprintOut ev)) w
         else if js_truthy (ev_stacktrace ev) then doReject e (Str []) w
         else if pp_enabled pp \<and> pp_printEngine pp = ''calva''
         then (let pr = prettyPrint pp (msgValue ev)
               in if \<not> truthy (pretty_error pr) then doResolve e (Str (pretty_value pr)) w
                  else doResolve e (Str (msgValue ev)) (err e (str_of (pretty_error pr)) w))
         else doResolve e (Str (msgValue ev)) w)"

text \<open>
  The terminal message. With an exception and a server that supports
  \<^verbatim>\<open>stacktrace\<close>, the stack trace is requested and the rejection is left to the
  callbacks chained on that request.
\<close>

definition receive_terminal :: "ref \<Rightarrow> message \<Rightarrow> pprint_options \<Rightarrow> world \<Rightarrow> bool outcome" where
  "receive_terminal e msg pp w =
     (if hasStatus msg ''done'' \<or> hasStatus msg ''need-debug-input''
      then (let w1 = remove e w;
                ev = evaluation_of w1 e
            in if truthy (ev_exception ev) \<and> msgValue ev \<noteq> DEBUG_QUIT_VALUE w1
               then (case supports w1 ''stacktrace'' of
                       Inl x \<Rightarrow> Threw x w1
                     | Inr b \<Rightarrow>
                         if b = Some True
                         then Returned True (fetch_stacktrace e w1)
                         else Returned True (doReject e (js_of (ev_exception ev)) w1))
               else Returned True (resolve_value e pp w1))
      else Returned False w)"

definition onMessage :: "ref \<Rightarrow> message \<Rightarrow> pprint_options \<Rightarrow> world \<Rightarrow> bool outcome" where
  "onMessage e msg pp w =
     (let w1 = add e (update_evaluation e (\<lambda>x. x\<lparr>ev_running := True\<rparr>) w);
          w2 = receive_fields e msg w1
      in case receive_causes e msg w2 of
           Threw x w3 \<Rightarrow> Threw x w3
         | Returned u w3 \<Rightarrow>
             receive_terminal e msg pp (receive_need_input e msg (receive_value e msg w3)))"

text \<open>ASCII white space, as \<^verbatim>\<open>String.prototype.trim\<close> removes it at both ends.\<close>

definition is_space :: "char \<Rightarrow> bool" where
  "is_space c = (c \<in> set [CHR 0x20, CHR 0x09, CHR 0x0A, CHR 0x0B, CHR 0x0C, CHR 0x0D])"

definition trim :: "string \<Rightarrow> string" where
  "trim t = rev (dropWhile is_space (rev (dropWhile is_space t)))"

definition stdin_answered :: "ref \<Rightarrow> string \<Rightarrow> world \<Rightarrow> unit outcome" where
  "stdin_answered e line w = stdin (ev_session (evaluation_of w e)) (trim line @ [CHR 0x0A]) w"

definition stdin_failed :: "ref \<Rightarrow> string \<Rightarrow> world \<Rightarrow> unit outcome" where
  "stdin_failed e reason w =
     stdin (ev_session (evaluation_of w e)) [CHR 0x0A]
       (err e (''Failed to retrieve input: '' @ reason) w)"

definition prompt_answered :: "ref \<Rightarrow> string option \<Rightarrow> world \<Rightarrow> unit outcome" where
  "prompt_answered e input w =
     (case input of
        Some i \<Rightarrow> stdin (ev_session (evaluation_of w e)) (i @ [CHR 0x0A]) w
      | None \<Rightarrow> Returned () (evaluation_interrupt e (out e ''Sending interrupt.'' w)))"

definition prompt_failed :: "ref \<Rightarrow> world \<Rightarrow> unit outcome" where
  "prompt_failed e w = stdin (ev_session (evaluation_of w e)) [CHR 0x0A] w"

text \<open>The static \<^verbatim>\<open>interruptAll\<close> of the class. Its parameter \<^verbatim>\<open>stderr\<close> is
  only called when \<^verbatim>\<open>interrupt\<close> throws, which it does not.\<close>

definition evaluation_interruptAll :: "world \<Rightarrow> nat \<times> world" where
  "evaluation_interruptAll w =
     fold (\<lambda>item (num, w1).
             if \<not> ev_interrupted (evaluation_of w1 item) \<and> \<not> ev_finished (evaluation_of w1 item)
             then (Suc num, evaluation_interrupt item w1)
             else (num, w1))
       (Evaluation_Instances w) (0, w)"

subsection \<open>eval and loadFile\<close>

text \<open>
  The options of \<^verbatim>\<open>eval\<close> and \<^verbatim>\<open>loadFile\<close>. \<open>eo_printer\<close> is the result of
  the collaborator \<^verbatim>\<open>getServerSidePrinter(pprintOptions)\<close>.
\<close>

record eval_opts =
  eo_line :: "int option"
  eo_column :: "int option"
  eo_eval :: "string option"
  eo_file :: "string option"
  eo_fileName :: "string option"
  eo_filePath :: "string option"
  eo_stderr :: "fn option"
  eo_stdout :: "fn option"
  eo_stdin :: "fn option"
  eo_pprintOptions :: pprint_options
  eo_printer :: "(string \<times> arg) list"

definition arg_of_int :: "int option \<Rightarrow> arg" where
  "arg_of_int v = (case v of None \<Rightarrow> AUndefined | Some n \<Rightarrow> ANum n)"

text \<open>\<^verbatim>\<open>{...extraOpts, ...opts}\<close>, after \<^verbatim>\<open>pprint\<close> has been set and
  \<^verbatim>\<open>pprintOptions\<close> deleted; the three callbacks are left to the encoder.\<close>

definition spread_opts :: "eval_opts \<Rightarrow> (string \<times> arg) list" where
  "spread_opts opts =
     eo_printer opts
     @ [(''line'', arg_of_int (eo_line opts)), (''column'', arg_of_int (eo_column opts)),
        (''eval'', arg_of (eo_eval opts)), (''file'', arg_of (eo_file opts)),
        (''pprint'', ABool (pp_enabled (eo_pprintOptions opts)))]"

text \<open>The same for \<^verbatim>\<open>loadFile\<close>, whose options have other keys.\<close>

definition spread_load_opts :: "eval_opts \<Rightarrow> (string \<times> arg) list" where
  "spread_load_opts opts =
     eo_printer opts
     @ [(''fileName'', arg_of (eo_fileName opts)), (''filePath'', arg_of (eo_filePath opts)),
        (''pprint'', ABool (pp_enabled (eo_pprintOptions opts)))]"

text \<open>
  The state of the debugger that \<^verbatim>\<open>_createEvalOperationMessage\<close> reads:
  \<^verbatim>\<open>getStateValue(debug.DEBUG_RESPONSE_KEY)\<close> and
  \<^verbatim>\<open>vscode.debug.activeDebugSession\<close>.
\<close>

record debug_response =
  dr_id :: "string option"
  dr_key :: "string option"

record debug_state =
  debugResponse :: "debug_response option"
  activeDebugSession :: bool

definition createEvalOperationMessage ::
  "ref \<Rightarrow> string \<Rightarrow> string \<Rightarrow> (string \<times> arg) list \<Rightarrow> debug_state \<Rightarrow> world \<Rightarrow> request \<times> world"
  where
  "createEvalOperationMessage s code ns opts dbg w =
     (case debugResponse dbg of
        Some r \<Rightarrow>
          if activeDebugSession dbg \<and> replType (session_of w s) = Some ''clj''
          then (the_request ''debug-input'' (dr_id r) s
                  ([(''input'', AStr (''{:response :eval, :code '' @ code @ ''}'')),
                    (''key'', arg_of (dr_key r))] @ opts) w,
                emit Analytics w)
          else (let (i, w1) = nextId w
                in (the_request ''eval'' (Some i) s ((''code'', AStr code) # opts) w1, w1))
      | None \<Rightarrow>
          (let (i, w1) = nextId w
           in (the_request ''eval'' (Some i) s ((''code'', AStr code) # opts) w1, w1)))"

definition new_evaluation ::
  "string option \<Rightarrow> ref \<Rightarrow> fn option \<Rightarrow> fn option \<Rightarrow> fn option \<Rightarrow> ref \<Rightarrow> evaluation" where
  "new_evaluation i s stderr stdout stdin_provider p =
     no_evaluation\<lparr>ev_id := i, ev_session := s, ev_stderr := stderr, ev_stdout := stdout,
       ev_stdin := stdin_provider, ev_promise := p\<rparr>"

text \<open>
  The executor of the promise of an evaluation, shared by \<^verbatim>\<open>eval\<close> and
  \<^verbatim>\<open>loadFile\<close>: the handler, the running identifier and the write, or the log and
  \<^verbatim>\<open>resolve(undefined)\<close>.
\<close>

definition start_evaluation ::
  "ref \<Rightarrow> request \<Rightarrow> ref \<Rightarrow> ref \<Rightarrow> bool \<Rightarrow> pprint_options \<Rightarrow> world \<Rightarrow> world" where
  "start_evaluation s msg e p decorate pp w =
     if_supports (req_op msg) p
       (\<lambda>w1. client_write msg
                (addRunningID s (req_id msg)
                   (set_handler s (req_id msg) (EvalHandler e p decorate pp) w1)))
       (\<lambda>w1. settle_promise p (Resolve Undefined) (not_supported msg w1)) w"

definition eval :: "ref \<Rightarrow> string \<Rightarrow> string \<Rightarrow> eval_opts \<Rightarrow> debug_state \<Rightarrow> world \<Rightarrow> ref \<times> world"
  where
  "eval s code ns opts dbg w =
     (let pp = eo_pprintOptions opts;
          (opMsg, w1) = createEvalOperationMessage s code ns (spread_opts opts) dbg w;
          (p, w2) = new_promise w1;
          e = next_ref w2;
          w3 = start_evaluation s opMsg e p
                 (eo_line opts \<noteq> None \<and> eo_line opts \<noteq> Some 0
                  \<and> eo_column opts \<noteq> None \<and> eo_column opts \<noteq> Some 0 \<and> truthy (eo_file opts))
                 pp w2
      in (e, w3\<lparr>evaluation_store := (evaluation_store w3)
                  (e \<mapsto> new_evaluation (req_id opMsg) s (eo_stderr opts) (eo_stdout opts)
                          (eo_stdin opts) p),
               next_ref := Suc e\<rparr>))"

definition loadFile :: "ref \<Rightarrow> string \<Rightarrow> eval_opts \<Rightarrow> world \<Rightarrow> ref \<times> world" where
  "loadFile s file opts w =
     (let (i, w1) = nextId w;
          pp = eo_pprintOptions opts;
          (p, w2) = new_promise w1;
          e = next_ref w2;
          msg = the_request ''load-file'' (Some i) s
                  (spread_load_opts opts
                   @ [(''file'', AStr file), (''file-name'', arg_of (eo_fileName opts)),
                      (''file-path'', arg_of (eo_filePath opts))]) w2;
          w3 = start_evaluation s msg e p True pp w2
      in (e, w3\<lparr>evaluation_store := (evaluation_store w3)
                  (e \<mapsto> new_evaluation (Some i) s (eo_stderr opts) (eo_stdout opts) None p),
               next_ref := Suc e\<rparr>))"

subsection \<open>Dispatch\<close>

definition refresh_step :: "refresh_closure \<Rightarrow> message \<Rightarrow> refresh_closure" where
  "refresh_step c msg =
     (let c1 = (case msg_reloading msg of None \<Rightarrow> c | Some r \<Rightarrow> c\<lparr>rc_reloaded := r\<rparr>);
          c2 = (if hasStatus msg ''ok'' then c1\<lparr>rc_status := Some ''ok''\<rparr> else c1);
          c3 = (if hasStatus msg ''error''
                then c2\<lparr>rc_status := Some ''error'', rc_error := msg_error msg,
                        rc_errorNs := msg_error_ns msg\<rparr>
                else c2)
      in if truthy (msg_err msg) then c3\<lparr>rc_err := rc_err c3 @ str_of (msg_err msg)\<rparr> else c3)"

definition refresh_result_of :: "refresh_closure \<Rightarrow> refresh_result" where
  "refresh_result_of c =
     \<lparr> res_reloaded = rc_reloaded c, res_status = rc_status c,
       res_error = (if truthy (rc_error c) then rc_error c else None),
       res_errorNs = (if truthy (rc_errorNs c) then rc_errorNs c else None),
       res_err = (if rc_err c \<noteq> [] then Some (rc_err c) else None) \<rparr>"

text \<open>
  A call of a stored handler. The result is what the handler returns, read as a
  boolean (\<^verbatim>\<open>undefined\<close> is false).
\<close>

fun run_handler :: "ref \<Rightarrow> handler \<Rightarrow> message \<Rightarrow> world \<Rightarrow> bool outcome" where
  "run_handler s (ResultHandler p) msg w =
     (let (b, w1) = resultHandler p msg w in Returned b w1)"
| "run_handler s (ResolveHandler p) msg w =
     Returned True (settle_promise p (Resolve (Msg msg)) w)"
| "run_handler s (CloneHandler p) msg w =
     (let (n, w1) = new_session (msg_new_session msg) w
      in Returned True (settle_promise p (Resolve (SessionObj n)) w1))"
| "run_handler s (RefreshHandler p c) msg w =
     (let c1 = refresh_step c msg
      in if hasStatus msg ''done''
         then Returned True (settle_promise p (Resolve (Refreshed (refresh_result_of c1))) w)
         else Returned False (set_handler s (msg_id msg) (RefreshHandler p c1) w))"
| "run_handler s (EvalHandler e p decorate pp) msg w =
     (let w1 = setHandlers e p p w;
          w2 = (if decorate then emit RenderDecorations w1 else w1)
      in onMessage e msg pp w2)"

text \<open>
  \<^verbatim>\<open>_response\<close>. When the session has no handler under the identifier of the
  message, \<^verbatim>\<open>this.messageHandlers[data.id]\<close> still finds the functions every object
  inherits: the test succeeds, the inherited function is called instead of the default
  handler, and \<^verbatim>\<open>delete\<close> finds no own property to remove.
\<close>

definition response :: "ref \<Rightarrow> message \<Rightarrow> world \<Rightarrow> unit outcome" where
  "response s data w =
     (case messageHandlers (session_of w s) (prop_key (msg_id data)) of
        Some h \<Rightarrow>
          (case run_handler s h data w of
             Threw x w1 \<Rightarrow> Threw x w1
           | Returned res w1 \<Rightarrow>
               Returned () (if res then delete_handler s (msg_id data) w1 else w1))
      | None \<Rightarrow>
          if inherited (prop_key (msg_id data))
          then (if inherited_throws (prop_key (msg_id data))
                then Threw (TypeError ''this.messageHandlers[data.id] is not a function'') w
                else Returned () w)
          else Returned () (defaultMessageHandler s data w))"

subsection \<open>NReplClient.create\<close>

definition new_client :: client where
  "new_client = \<lparr> cl_nextId = 0, cl_session = None, cl_describe = None, cl_sessions = [],
     cl_ns = ''user'', cl_closeHandlers = [], cl_written = [] \<rparr>"

text \<open>
  The world in which the socket has just connected: the three identifiers are drawn
  and the first message is written.
\<close>

definition create :: "string \<Rightarrow> world" where
  "create quit =
     (let w0 = \<lparr> the_client = new_client, session_store = Map.empty,
                 evaluation_store = Map.empty,
                 promise_store = [0 \<mapsto> \<lparr>calls = [], reaction = None\<rparr>], next_ref = 1,
                 Session_Instances = [], Evaluation_Instances = [], effects = [],
                 nsId = [], cloneId = [], describeId = [], create_promise = 0,
                 DEBUG_QUIT_VALUE = quit \<rparr>;
          (i1, w1) = nextId w0;
          (i2, w2) = nextId w1;
          (i3, w3) = nextId w2;
          w4 = w3\<lparr>nsId := i1, cloneId := i2, describeId := i3\<rparr>;
          msg = \<lparr> req_op = ''eval'', req_id = Some i1, req_session = None,
                  req_args = [(''code'', AStr ''*ns*'')] \<rparr>
      in encoder_write msg (log (LogRequest msg) ClientToServer w4))"

text \<open>
  The first four branches of the listener of the decoder. In the fourth,
  \<^verbatim>\<open>client.sessions[data['session']]\<close> of a name every object inherits is truthy and
  has no \<^verbatim>\<open>_response\<close>: the call throws.
\<close>

definition route :: "message \<Rightarrow> world \<Rightarrow> unit outcome" where
  "route data w =
     (if cl_describe (the_client w) = None \<and> msg_id data = Some (describeId w)
      then Returned () (update_client (\<lambda>c. c\<lparr>cl_describe := Some data\<rparr>) w)
      else if msg_id data = Some (nsId w)
      then (let w1 = (if truthy (msg_ns data)
                      then update_client (\<lambda>c. c\<lparr>cl_ns := str_of (msg_ns data)\<rparr>) w else w)
            in if hasStatus data ''done''
               then (let msg = \<lparr> req_op = ''clone'', req_id = Some (cloneId w1),
                                 req_session = None, req_args = [] \<rparr>
                     in Returned () (encoder_write msg (log (LogRequest msg) ClientToServer w1)))
               else Returned () w1)
      else if msg_id data = Some (cloneId w)
      then (let (s, w1) = new_session (msg_new_session data) w;
                w2 = update_client (\<lambda>c. c\<lparr>cl_session := Some s\<rparr>) w1;
                msg = \<lparr> req_op = ''describe'', req_id = Some (describeId w2),
                        req_session = msg_new_session data,
                        req_args = [(''verbose'', ABool True)] \<rparr>
            in Returned () (encoder_write msg (log (LogRequest msg) ClientToServer w2)))
      else if truthy (msg_session data)
      then (case map_of (cl_sessions (the_client w)) (str_of (msg_session data)) of
              Some s \<Rightarrow> response s data w
            | None \<Rightarrow>
                if inherited (str_of (msg_session data))
                then Threw (TypeError ''session._response is not a function'') w
                else Returned () w)
      else Returned () w)"

text \<open>
  The listener of the decoder: the message is logged and shown to the debugger,
  routed, and then \<^verbatim>\<open>if (client.session && client.describe) resolve(client)\<close>.
  An exception of a handler leaves the listener before that test.
\<close>

definition on_data :: "message \<Rightarrow> world \<Rightarrow> unit outcome" where
  "on_data data w =
     (case route data (emit (DebugOnMessage data) (log (LogMessage data) ServerToClient w)) of
        Threw x w1 \<Rightarrow> Threw x w1
      | Returned u w1 \<Rightarrow>
          Returned ()
            (if cl_session (the_client w1) \<noteq> None \<and> cl_describe (the_client w1) \<noteq> None
             then settle_promise (create_promise w1) (Resolve ClientObj) w1
             else w1))"

text \<open>The world after a message: what the listener leaves, whether it returned or threw.\<close>

definition world_of :: "'a outcome \<Rightarrow> world" where
  "world_of r = (case r of Returned x w \<Rightarrow> w | Threw x w \<Rightarrow> w)"

definition on_all_data :: "message list \<Rightarrow> world \<Rightarrow> world" where
  "on_all_data ds w = fold (\<lambda>d w1. world_of (on_data d w1)) ds w"

section \<open>Notions used to state the properties\<close>

subsection \<open>Identifiers as numbers\<close>

text \<open>The number the identifier of a request denotes.\<close>

definition id_number :: "request \<Rightarrow> nat" where
  "id_number r = of_decimal (str_of (req_id r))"

text \<open>\<open>n\<close> successive reads of \<^verbatim>\<open>nextId\<close>.\<close>

fun draw :: "nat \<Rightarrow> world \<Rightarrow> string list" where
  "draw 0 w = []"
| "draw (Suc n) w = (let (i, w1) = nextId w in i # draw n w1)"

text \<open>
  The requests that were written under an identifier just read from \<^verbatim>\<open>nextId\<close>: all
  those with an identifier, except the \<^verbatim>\<open>debug-input\<close> requests, which carry the
  identifier of the pending debug response, and the \<^verbatim>\<open>clone\<close> and \<^verbatim>\<open>describe\<close>
  requests of the bootstrap, which the listener writes under the two identifiers read
  when the socket connected, as often as the server sends the message that triggers
  them.
\<close>

definition fresh :: "world \<Rightarrow> request \<Rightarrow> bool" where
  "fresh w r =
     (req_id r \<noteq> None \<and> req_op r \<noteq> ''debug-input''
      \<and> req_id r \<noteq> Some (cloneId w) \<and> req_id r \<noteq> Some (describeId w))"

definition drawn :: "world \<Rightarrow> request list" where
  "drawn w = filter (fresh w) (cl_written (the_client w))"

text \<open>
  These requests carry the decimal strings of strictly increasing numbers, none above
  the counter.
\<close>

definition numbered :: "world \<Rightarrow> bool" where
  "numbered w =
     (list_all (\<lambda>r. req_id r = Some (toString (id_number r))
                    \<and> id_number r \<le> cl_nextId (the_client w)) (drawn w)
      \<and> sorted_wrt (<) (map id_number (drawn w)))"

text \<open>
  A call of an operation that takes the identifier of its message from \<^verbatim>\<open>nextId\<close>,
  on any session; \<open>Gated\<close> stands for the operations defined by \<open>gated_request\<close>,
  \<open>Ungated\<close> for \<^verbatim>\<open>describe\<close> and \<^verbatim>\<open>outSubscribe\<close>, \<open>Eval\<close> for an \<^verbatim>\<open>eval\<close>
  outside a debug session.
\<close>

definition no_debug :: debug_state where
  "no_debug = \<lparr> debugResponse = None, activeDebugSession = False \<rparr>"

datatype call =
    Gated ref string "(string \<times> arg) list" "ref \<Rightarrow> handler"
  | Ungated ref string "(string \<times> arg) list"
  | Interrupt ref "string option"
  | Clone ref
  | InitDebugger ref
  | ClojureDocsLookup ref string string
  | Eval ref string string eval_opts
  | LoadFile ref string eval_opts

fun perform :: "call \<Rightarrow> world \<Rightarrow> world" where
  "perform (Gated s op args h) w = snd (gated_request s op args h w)"
| "perform (Ungated s op args) w = snd (ungated_request s op args w)"
| "perform (Interrupt s i) w = snd (interrupt s i w)"
| "perform (Clone s) w = snd (clone s w)"
| "perform (InitDebugger s) w = world_of (initDebugger s w)"
| "perform (ClojureDocsLookup s ns symbol) w = snd (clojureDocsLookup s ns symbol w)"
| "perform (Eval s code ns opts) w = snd (eval s code ns opts no_debug w)"
| "perform (LoadFile s file opts) w = snd (loadFile s file opts w)"

text \<open>What an operation that reads \<^verbatim>\<open>nextId\<close> once does to the client.\<close>

definition draws_one :: "world \<Rightarrow> world \<Rightarrow> bool" where
  "draws_one w w' =
     (cl_nextId (the_client w') = js_increment (cl_nextId (the_client w))
      \<and> (cl_written (the_client w') = cl_written (the_client w)
           \<or> (\<exists>r. cl_written (the_client w') = cl_written (the_client w) @ [r]
                 \<and> req_id r = Some (toString (cl_nextId (the_client w'))))))"

text \<open>
  What happens on a connection after \<^verbatim>\<open>create\<close>: calls of the operations, on any
  session, also while a debug session redirects \<^verbatim>\<open>eval\<close>; messages from the
  server; input; sessions and the client being closed; evaluations being interrupted.
\<close>

datatype event =
    Call call
  | DebugEval ref string string eval_opts debug_state
  | DebugInput ref arg "string option" "string option"
  | Data message
  | Stdin ref string
  | Close ref
  | CloseClient
  | InterruptEvaluation ref
  | InterruptAll ref
  | InterruptAllEvaluations

fun happen :: "event \<Rightarrow> world \<Rightarrow> world" where
  "happen (Call c) w = perform c w"
| "happen (DebugEval s code ns opts dbg) w = snd (eval s code ns opts dbg w)"
| "happen (DebugInput s input i k) w = snd (sendDebugInput s input i k w)"
| "happen (Data d) w = world_of (on_data d w)"
| "happen (Stdin s message) w = world_of (stdin s message w)"
| "happen (Close s) w = close s w"
| "happen CloseClient w = client_close w"
| "happen (InterruptEvaluation e) w = evaluation_interrupt e w"
| "happen (InterruptAll s) w = snd (interruptAll s w)"
| "happen InterruptAllEvaluations w = snd (evaluation_interruptAll w)"

definition happen_all :: "event list \<Rightarrow> world \<Rightarrow> world" where
  "happen_all es w = fold happen es w"

text \<open>
  From one world to a later one: the two bootstrap identifiers stay, the counter does
  not fall, requests are only added, and those added under a fresh identifier carry
  the decimal strings of strictly increasing numbers above the old counter and not
  above the new one.
\<close>

definition extends :: "world \<Rightarrow> world \<Rightarrow> bool" where
  "extends w w' =
     (cloneId w' = cloneId w \<and> describeId w' = describeId w
      \<and> cl_nextId (the_client w) \<le> cl_nextId (the_client w')
      \<and> take (length (cl_written (the_client w))) (cl_written (the_client w'))
          = cl_written (the_client w)
      \<and> list_all (\<lambda>r. req_id r = Some (toString (id_number r))
                      \<and> cl_nextId (the_client w) < id_number r
                      \<and> id_number r \<le> cl_nextId (the_client w'))
           (filter (fresh w) (drop (length (cl_written (the_client w))) (cl_written (the_client w'))))
      \<and> sorted_wrt (<) (map id_number
           (filter (fresh w) (drop (length (cl_written (the_client w))) (cl_written (the_client w'))))))"

text \<open>The same, as long as the counter counts exactly.\<close>

definition ext :: "world \<Rightarrow> world \<Rightarrow> bool" where
  "ext w w' =
     (cloneId w' = cloneId w \<and> describeId w' = describeId w
      \<and> cl_nextId (the_client w) \<le> cl_nextId (the_client w')
      \<and> (if cl_nextId (the_client w') < MAX_EXACT then extends w w' else True))"

subsection \<open>Example worlds\<close>

text \<open>
  The bootstrap against a server that answers the three messages of
  \<^verbatim>\<open>NReplClient.create\<close> in order and advertises the operations \<open>ops\<close>.
\<close>

definition ns_done :: message where
  "ns_done = no_message\<lparr>msg_id := Some ''1'', msg_ns := Some ''user'', msg_status := Some [''done'']\<rparr>"

definition cloned :: message where
  "cloned = no_message\<lparr>msg_id := Some ''2'', msg_new_session := Some ''session-1'',
     msg_status := Some [''done'']\<rparr>"

definition described :: "string list \<Rightarrow> message" where
  "described ops = no_message\<lparr>msg_id := Some ''3'', msg_session := Some ''session-1'',
     msg_ops := Some ops, msg_status := Some [''done'']\<rparr>"

definition connected :: "string list \<Rightarrow> world" where
  "connected ops = on_all_data [ns_done, cloned, described ops] (create ''QUIT'')"

subsection \<open>The bootstrap\<close>

text \<open>
  While only messages arrive, no handler is registered in any session, and the promise
  of \<^verbatim>\<open>NReplClient.create\<close> has been resolved, with the client, exactly when both
  the first session and the describe result are there.
\<close>

definition bootstrapping :: "world \<Rightarrow> bool" where
  "bootstrapping w =
     ((\<forall>s. messageHandlers (session_of w s) = Map.empty)
      \<and> (\<exists>cs. promise_store w (create_promise w) = Some \<lparr>calls = cs, reaction = None\<rparr>
            \<and> set cs \<subseteq> {Resolve ClientObj}
            \<and> (cs \<noteq> [] \<longleftrightarrow> cl_session (the_client w) \<noteq> None \<and> cl_describe (the_client w) \<noteq> None)))"

text \<open>What routing a message keeps, while no handler is registered.\<close>

definition routed :: "message \<Rightarrow> world \<Rightarrow> world \<Rightarrow> bool" where
  "routed d w w' =
     ((\<forall>s. messageHandlers (session_of w' s) = Map.empty)
      \<and> cloneId w' = cloneId w \<and> describeId w' = describeId w
      \<and> (cl_session (the_client w') \<noteq> None \<longrightarrow>
             cl_session (the_client w) \<noteq> None \<or> msg_id d = Some (cloneId w))
      \<and> (cl_describe (the_client w') \<noteq> None \<longrightarrow>
             cl_describe (the_client w) \<noteq> None \<or> msg_id d = Some (describeId w))
      \<and> promise_store w' = promise_store w \<and> create_promise w' = create_promise w
      \<and> (cl_session (the_client w) \<noteq> None \<longrightarrow> cl_session (the_client w') \<noteq> None)
      \<and> (cl_describe (the_client w) \<noteq> None \<longrightarrow> cl_describe (the_client w') \<noteq> None))"

subsection \<open>Operations the server does not support\<close>

text \<open>An operation that writes nothing and whose promise is resolved with undefined.\<close>

definition skipped :: "world \<Rightarrow> ref \<times> world \<Rightarrow> bool" where
  "skipped w r =
     (cl_written (the_client (snd r)) = cl_written (the_client w)
      \<and> calls_of (snd r) (fst r) = [Resolve Undefined])"

text \<open>An evaluation whose message was not written and whose promise is resolved with undefined.\<close>

definition skipped_evaluation :: "world \<Rightarrow> ref \<times> world \<Rightarrow> bool" where
  "skipped_evaluation w r =
     (cl_written (the_client (snd r)) = cl_written (the_client w)
      \<and> evaluation_store (snd r) (fst r) \<noteq> None
      \<and> calls_of (snd r) (ev_promise (evaluation_of (snd r) (fst r))) = [Resolve Undefined])"

text \<open>The connection after the clone response and before the describe response.\<close>

definition cloned_only :: world where
  "cloned_only = on_all_data [ns_done, cloned] (create ''QUIT'')"

subsection \<open>Example messages and evaluations\<close>

text \<open>A terminal message with two status tags, for an identifier without a handler.\<close>

definition late_done :: message where
  "late_done = no_message\<lparr>msg_id := Some ''9'', msg_session := Some ''session-1'',
     msg_status := Some [''done'', ''interrupted'']\<rparr>"


subsection \<open>Evaluations\<close>

text \<open>The fields of an evaluation that only the constructor, setHandlers, interrupt and the
  two settling methods write.\<close>

definition flags :: "evaluation \<Rightarrow> string option \<times> ref \<times> ref \<times> bool \<times> bool \<times> bool \<times> ref option \<times> ref option" where
  "flags x = (ev_id x, ev_session x, ev_promise x, ev_interrupted x, ev_finished x, ev_running x,
     ev_resolve x, ev_reject x)"

text \<open>A message whose eval error, if it has one, names a cause.\<close>

definition causes_ok :: "message \<Rightarrow> bool" where
  "causes_ok m = (\<not> (hasStatus m ''eval-error'' \<and> msg_causes m = Some []))"


text \<open>A message that ends an evaluation.\<close>

definition terminal :: "message \<Rightarrow> bool" where
  "terminal m = (hasStatus m ''done'' \<or> hasStatus m ''need-debug-input'')"

text \<open>An evaluation that has an exception and whose value is not the debug quit value.\<close>

definition failing :: "world \<Rightarrow> ref \<Rightarrow> bool" where
  "failing w e =
     (truthy (ev_exception (evaluation_of w e))
      \<and> msgValue (evaluation_of w e) \<noteq> DEBUG_QUIT_VALUE w)"

text \<open>The stored describe result, if there is one, has a table of operations.\<close>

definition describe_ok :: "world \<Rightarrow> bool" where
  "describe_ok w = (case cl_describe (the_client w) of None \<Rightarrow> True | Some d \<Rightarrow> msg_ops d \<noteq> None)"

text \<open>The request for the stack trace, on a server that supports it.\<close>

definition stacktrace_request :: "world \<Rightarrow> ref \<Rightarrow> request" where
  "stacktrace_request w s =
     the_request ''stacktrace'' (Some (toString (js_increment (cl_nextId (the_client w))))) s [] w"

text \<open>The calls to the functions of the promise of an evaluation are counted by its flag.\<close>

definition tracked :: "world \<Rightarrow> ref \<Rightarrow> ref \<Rightarrow> bool" where
  "tracked w e p =
     (evaluation_store w e \<noteq> None \<and> promise_store w p \<noteq> None \<and> p < next_ref w
      \<and> session_store w (ev_session (evaluation_of w e)) \<noteq> None
      \<and> distinct (Evaluation_Instances w) \<and> describe_ok w
      \<and> length (calls_of w p) = (if ev_finished (evaluation_of w e) then 1 else 0))"

text \<open>The evaluation settles its own promise.\<close>

definition handled :: "world \<Rightarrow> ref \<Rightarrow> ref \<Rightarrow> bool" where
  "handled w e p =
     (ev_resolve (evaluation_of w e) = Some p \<and> ev_reject (evaluation_of w e) = Some p)"

text \<open>
  The world in which \<^verbatim>\<open>onMessage\<close> makes its terminal test, when the statements
  before it have not thrown.
\<close>

definition received :: "ref \<Rightarrow> message \<Rightarrow> world \<Rightarrow> world" where
  "received e m w =
     receive_need_input e m (receive_value e m (world_of (receive_causes e m
       (receive_fields e m (add e (update_evaluation e (\<lambda>x. x\<lparr>ev_running := True\<rparr>) w))))))"

text \<open>
  The stack trace of evaluation \<open>e\<close> is being fetched: the request with identifier
  \<open>i\<close> is the last one written, its handler is registered in the session of the
  evaluation, and its promise \<open>q\<close> is pending with the callbacks of \<open>e\<close> chained.
\<close>

definition fetching :: "world \<Rightarrow> ref \<Rightarrow> ref \<Rightarrow> string \<Rightarrow> bool" where
  "fetching w e q i =
     (messageHandlers (session_of w (ev_session (evaluation_of w e))) i = Some (ResultHandler q)
      \<and> promise_store w q = Some \<lparr>calls = [], reaction = Some (StacktraceFetched e)\<rparr>
      \<and> cl_written (the_client w) \<noteq> []
      \<and> req_op (last (cl_written (the_client w))) = ''stacktrace''
      \<and> req_id (last (cl_written (the_client w))) = Some i)"

text \<open>
  A call of the handler that \<^verbatim>\<open>eval\<close> and \<^verbatim>\<open>loadFile\<close> register for evaluation
  \<open>e\<close> with promise \<open>p\<close>, and a sequence of such calls. An exception leaves the
  world as it was when it was thrown.
\<close>

definition deliver :: "ref \<Rightarrow> ref \<Rightarrow> ref \<Rightarrow> bool \<Rightarrow> pprint_options \<Rightarrow> message \<Rightarrow> world \<Rightarrow> world" where
  "deliver s e p d pp m w = world_of (run_handler s (EvalHandler e p d pp) m w)"


text \<open>The world in which the handler of an evaluation calls \<^verbatim>\<open>onMessage\<close>.\<close>

definition prepared :: "ref \<Rightarrow> ref \<Rightarrow> bool \<Rightarrow> world \<Rightarrow> world" where
  "prepared e p d w = (if d then emit RenderDecorations (setHandlers e p p w) else setHandlers e p p w)"

subsection \<open>An evaluation on the example connection\<close>

definition plain_printing :: pprint_options where
  "plain_printing = \<lparr> pp_enabled = False, pp_printEngine = ''calva'',
     prettyPrint = (\<lambda>v. \<lparr> pretty_value = v, pretty_error = None \<rparr>) \<rparr>"

definition plain_opts :: eval_opts where
  "plain_opts = \<lparr> eo_line = None, eo_column = None, eo_eval = None, eo_file = None,
     eo_fileName = None, eo_filePath = None, eo_stderr = None, eo_stdout = None, eo_stdin = None,
     eo_pprintOptions = plain_printing, eo_printer = [] \<rparr>"

text \<open>
  \<^verbatim>\<open>session.eval("(+ 1 2)", "user", ...)\<close> on the connected client: the promise is
  object 2, the evaluation object 3, the request has the identifier 4.
\<close>

definition evaluating :: "string list \<Rightarrow> world" where
  "evaluating ops = snd (eval 1 ''(+ 1 2)'' ''user'' plain_opts no_debug (connected ops))"

text \<open>Two messages for that evaluation: a value, then the end.\<close>

definition value_3 :: message where
  "value_3 = no_message\<lparr>msg_id := Some ''4'', msg_session := Some ''session-1'',
     msg_value := Some ''3'', msg_ns := Some ''user''\<rparr>"

definition done_4 :: message where
  "done_4 = no_message\<lparr>msg_id := Some ''4'', msg_session := Some ''session-1'',
     msg_status := Some [''done'']\<rparr>"

text \<open>
  Neither the evaluation nor the message has an exception, pretty printed output or a
  stack trace: the terminal message then resolves with the value.
\<close>

definition quiet :: "world \<Rightarrow> ref \<Rightarrow> message \<Rightarrow> bool" where
  "quiet w e m =
     (\<not> truthy (ev_exception (evaluation_of w e)) \<and> \<not> truthy (msg_ex m)
      \<and> \<not> truthy (ev_pprintOut (evaluation_of w e)) \<and> \<not> truthy (msg_pprint_out m)
      \<and> \<not> js_truthy (ev_stacktrace (evaluation_of w e)) \<and> \<not> hasStatus m ''eval-error'')"

text \<open>A message with both fields, and the same message as the last one of the evaluation.\<close>

definition both_values :: message where
  "both_values = no_message\<lparr>msg_id := Some ''4'', msg_session := Some ''session-1'',
     msg_value := Some ''3'', msg_debug_value := Some ''debug''\<rparr>"

definition both_values_done :: message where
  "both_values_done = both_values\<lparr>msg_status := Some [''done'']\<rparr>"

text \<open>
  The end of an evaluation that failed, and two replies to the request with the
  identifier 5: one with the stack trace, one from a server that cannot perform the
  operation.
\<close>

definition failed_4 :: message where
  "failed_4 = no_message\<lparr>msg_id := Some ''4'', msg_session := Some ''session-1'',
     msg_ex := Some ''Exception'', msg_status := Some [''eval-error'', ''done'']\<rparr>"

definition trace_5 :: message where
  "trace_5 = no_message\<lparr>msg_id := Some ''5'', msg_session := Some ''session-1'',
     msg_status := Some [''done'']\<rparr>"

definition no_trace_5 :: message where
  "no_trace_5 = no_message\<lparr>msg_id := Some ''5'', msg_session := Some ''session-1'',
     msg_op := Some ''stacktrace'', msg_status := Some [''done'', ''error'', ''unknown-op'']\<rparr>"

text \<open>The end of an evaluation with the status \<^verbatim>\<open>eval-error\<close> and an empty list of causes.\<close>

definition no_causes_4 :: message where
  "no_causes_4 = no_message\<lparr>msg_id := Some ''4'', msg_session := Some ''session-1'',
     msg_status := Some [''eval-error'', ''done''], msg_causes := Some []\<rparr>"

text \<open>The same with an exception.\<close>

definition no_causes_ex_4 :: message where
  "no_causes_ex_4 = no_causes_4\<lparr>msg_ex := Some ''Exception''\<rparr>"

text \<open>
  A connection whose server sends the reply to the first request twice, and on which
  then an operation is called, input is sent and an interrupt is asked for.
\<close>

definition busy :: "event list" where
  "busy = [Data ns_done, Data ns_done, Data cloned, Data (described [''info'', ''stdin'']),
           Call (Gated 1 ''info'' [] ResultHandler), Stdin 1 ''x'', Call (Interrupt 1 None)]"

text \<open>The example evaluation after its first message: it is running.\<close>

definition running_evaluation :: world where
  "running_evaluation = deliver 1 3 2 False plain_printing value_3 (evaluating [''eval'', ''interrupt''])"

section \<open>Lemmas\<close>

subsection \<open>Arrays\<close>

lemma indexOf_ge: "-1 \<le> indexOf xs x"
  by (induction xs) (auto simp: Let_def)

lemma indexOf_absent: "indexOf xs x = -1 \<longleftrightarrow> x \<notin> set xs"
proof (induction xs)
  case Nil
  show ?case by simp
next
  case (Cons y ys)
  have "-1 \<le> indexOf ys x" by (rule indexOf_ge)
  then show ?case using Cons by (auto simp: Let_def)
qed

lemma indexOf_present: "indexOf xs x > -1 \<longleftrightarrow> x \<in> set xs"
  using indexOf_absent [of xs x] indexOf_ge [of xs x] by linarith

lemma splice1_indexOf: "x \<in> set xs \<Longrightarrow> splice1 xs (indexOf xs x) = remove1 x xs"
proof (induction xs)
  case Nil
  then show ?case by simp
next
  case (Cons y ys)
  show ?case
  proof (cases "y = x")
    case True
    then show ?thesis by (simp add: splice1_def)
  next
    case False
    with Cons.prems have in_ys: "x \<in> set ys" by simp
    then have pos: "0 \<le> indexOf ys x" using indexOf_present [of ys x] by linarith
    have ne: "indexOf ys x \<noteq> -1" using in_ys indexOf_absent [of ys x] by simp
    have "splice1 (y # ys) (indexOf ys x + 1) = y # splice1 ys (indexOf ys x)"
      using pos by (simp add: splice1_def nat_add_distrib)
    then show ?thesis using False ne Cons.IH [OF in_ys] by (simp add: Let_def)
  qed
qed

lemma add_handler_idem: "add_handler (add_handler hs f) f = add_handler hs f"
  by (auto simp: add_handler_def indexOf_absent)

lemma distinct_add_handler: "distinct hs \<Longrightarrow> distinct (add_handler hs f)"
  by (auto simp: add_handler_def indexOf_absent)

lemma set_add_handler: "set (add_handler hs f) = insert f (set hs)"
  by (auto simp: add_handler_def indexOf_absent)

lemma remove_handler_remove1: "remove_handler hs f = remove1 f hs"
  by (auto simp: remove_handler_def Let_def indexOf_absent splice1_indexOf remove1_idem)

lemma distinct_remove_handler: "distinct hs \<Longrightarrow> distinct (remove_handler hs f)"
  by (simp add: remove_handler_remove1)

lemma count_list_distinct: "distinct xs \<Longrightarrow> count_list xs x = (if x \<in> set xs then 1 else 0)"
  by (induction xs) auto

lemma count_list_map_inj: "inj f \<Longrightarrow> count_list (map f xs) (f x) = count_list xs x"
  by (induction xs) (auto dest: injD)

lemma count_client_handlers:
  "count_list (map CloseHandlerOfClient hs) (CloseHandlerOfClient f) = count_list hs f"
  by (induction hs) auto

lemma count_session_handlers:
  "count_list (map (\<lambda>g. CloseHandlerOfSession g t) hs) (CloseHandlerOfSession f s)
     = (if t = s then count_list hs f else 0)"
  by (induction hs) auto

lemma count_session_in_client_handlers:
  "count_list (map CloseHandlerOfClient hs) (CloseHandlerOfSession f s) = 0"
  by (induction hs) auto

lemma count_client_in_session_handlers:
  "count_list (concat (map (\<lambda>kv. map (\<lambda>g. CloseHandlerOfSession g (snd kv)) (H (snd kv))) kvs))
     (CloseHandlerOfClient f) = 0"
  by (induction kvs) (auto simp: count_list_0_iff)

lemma count_sessions_handlers:
  "count_list (concat (map (\<lambda>kv. map (\<lambda>g. CloseHandlerOfSession g (snd kv)) (H (snd kv))) kvs))
     (CloseHandlerOfSession f s) = count_list (map snd kvs) s * count_list (H s) f"
  by (induction kvs) (auto simp: count_session_handlers)

lemma count_list_insort_key: "count_list (insort_key f x xs) y = count_list (x # xs) y"
  by (induction xs) auto

lemma count_list_sort_key: "count_list (sort_key f xs) y = count_list xs y"
  by (induction xs) (simp_all add: count_list_insort_key)

lemma count_list_partition:
  "count_list (map g (filter P xs)) y + count_list (map g (filter (\<lambda>x. \<not> P x) xs)) y
     = count_list (map g xs) y"
  by (induction xs) auto

lemma set_for_in: "set (for_in kvs) = set kvs"
  by (auto simp: for_in_def)

lemma count_for_in:
  fixes kvs :: "(string \<times> 'a) list"
  shows "count_list (map snd (for_in kvs)) s = count_list (map snd kvs) s"
proof -
  have "count_list (map snd (sort_key f xs)) s = count_list (map snd xs) s"
    for f :: "string \<times> 'a \<Rightarrow> nat" and xs :: "(string \<times> 'a) list"
  proof (induction xs)
    case Nil
    show ?case by simp
  next
    case (Cons x xs)
    have "count_list (map snd (insort_key f x ys)) s = count_list (map snd (x # ys)) s"
      for ys :: "(string \<times> 'a) list"
      by (induction ys) auto
    then show ?case using Cons by simp
  qed
  then show ?thesis
    unfolding for_in_def using count_list_partition [of snd "\<lambda>kv. is_array_index (fst kv)" kvs s]
    by simp
qed

lemma socket_closed_client_count:
  "count_list (effects (socket_closed w)) (CloseHandlerOfClient f)
     = count_list (effects w) (CloseHandlerOfClient f) + count_list (cl_closeHandlers (the_client w)) f"
  using count_client_in_session_handlers
          [where H = "\<lambda>t. onCloseHandlers (session_of w t)" and kvs = "for_in (cl_sessions (the_client w))"]
  by (simp add: socket_closed_def count_client_handlers)

lemma socket_closed_session_count:
  "count_list (effects (socket_closed w)) (CloseHandlerOfSession f s)
     = count_list (effects w) (CloseHandlerOfSession f s)
       + count_list (map snd (cl_sessions (the_client w))) s * count_list (onCloseHandlers (session_of w s)) f"
  using count_sessions_handlers
          [where H = "\<lambda>t. onCloseHandlers (session_of w t)" and kvs = "for_in (cl_sessions (the_client w))"]
  by (simp add: socket_closed_def count_session_in_client_handlers count_for_in)

lemma close_count:
  "count_list (effects (close s w)) (CloseHandlerOfSession f s)
     = count_list (effects w) (CloseHandlerOfSession f s) + count_list (onCloseHandlers (session_of w s)) f"
  by (auto simp: close_def Let_def supports_def client_write_def encoder_write_def log_def emit_def
      not_supported_def update_client_def update_session_def session_of_def count_session_handlers
      split: option.splits sum.splits)

subsection \<open>Decimal strings\<close>

lemma digit_value_digit_char: "d < 10 \<Longrightarrow> digit_value (digit_char d) = d"
proof -
  assume "d < 10"
  then have "d \<in> {0, 1, 2, 3, 4, 5, 6, 7, 8, 9}" by auto
  then show ?thesis
    by (auto simp: digit_value_def digit_char_def)
qed

lemma of_decimal_snoc: "of_decimal (cs @ [c]) = 10 * of_decimal cs + digit_value c"
  by (simp add: of_decimal_def)

lemma of_decimal_toString: "of_decimal (toString n) = n"
proof (induction n rule: toString.induct)
  case (1 n)
  show ?case
  proof (cases "n < 10")
    case True
    then show ?thesis
      by (simp add: toString.simps [of n] of_decimal_def digit_value_digit_char)
  next
    case False
    then have "of_decimal (toString n) = 10 * of_decimal (toString (n div 10)) + digit_value (digit_char (n mod 10))"
      by (simp add: toString.simps [of n] of_decimal_snoc)
    also have "\<dots> = 10 * (n div 10) + n mod 10"
      using "1.IH" [OF False] by (simp add: digit_value_digit_char)
    finally show ?thesis by simp
  qed
qed

lemma toString_inj: "toString m = toString n \<longleftrightarrow> m = n"
  using of_decimal_toString by metis

lemma nextId_exact:
  "cl_nextId (the_client w) < MAX_EXACT \<Longrightarrow>
     fst (nextId w) = toString (cl_nextId (the_client w) + 1)
     \<and> cl_nextId (the_client (snd (nextId w))) = cl_nextId (the_client w) + 1"
  by (simp add: nextId_def js_increment_def update_client_def Let_def)

lemma draw_exact:
  "cl_nextId (the_client w) + n \<le> MAX_EXACT \<Longrightarrow>
     draw n w = map toString [cl_nextId (the_client w) + 1 ..< cl_nextId (the_client w) + 1 + n]"
proof (induction n arbitrary: w)
  case 0
  show ?case by simp
next
  case (Suc n)
  have lt: "cl_nextId (the_client w) < MAX_EXACT" using Suc.prems by simp
  obtain i w1 where iw: "nextId w = (i, w1)" by (cases "nextId w")
  have i: "i = toString (cl_nextId (the_client w) + 1)"
    and c1: "cl_nextId (the_client w1) = cl_nextId (the_client w) + 1"
    using nextId_exact [OF lt] iw by simp_all
  have "cl_nextId (the_client w1) + n \<le> MAX_EXACT" using Suc.prems c1 by simp
  from Suc.IH [OF this] have d: "draw n w1 = map toString [Suc (cl_nextId (the_client w) + 1) ..< Suc (cl_nextId (the_client w) + 1) + n]"
    using c1 by simp
  have u: "[cl_nextId (the_client w) + 1 ..< cl_nextId (the_client w) + 1 + Suc n]
      = (cl_nextId (the_client w) + 1) # [Suc (cl_nextId (the_client w) + 1) ..< Suc (cl_nextId (the_client w) + 1) + n]"
    by (simp add: upt_conv_Cons)
  have "draw (Suc n) w = i # draw n w1" using iw by simp
  then show ?case unfolding u d i by simp
qed

subsection \<open>Evaluating the example worlds\<close>

lemmas world_defs = create_def nextId_def js_increment_def MAX_EXACT_def update_client_def
  new_client_def encoder_write_def log_def emit_def new_session_def no_session_def prop_key_def
  str_of_def Let_def

lemmas eval_defs = world_defs on_all_data_def on_data_def route_def world_of_def no_message_def
  ns_done_def cloned_def described_def connected_def toString.simps digit_char_def truthy_def
  hasStatus_def settle_promise_def call_settle_def

lemmas op_defs = eval_defs inherited_def inherited_throws_def Object_prototype_def gated_request_def ungated_request_def send_or_skip_def if_supports_def
  supports_def the_request_def new_promise_def client_write_def set_handler_def update_session_def
  session_of_def not_supported_def clone_def response_def resultHandler_def delete_handler_def
  interrupt_def initDebugger_def sendDebugInput_def split_beta

subsection \<open>What each step leaves alone\<close>

lemma the_client_update_session [simp]: "the_client (update_session s f w) = the_client w"
  by (simp add: update_session_def Let_def split: option.splits list.splits)

lemma evaluation_store_update_session [simp]: "evaluation_store (update_session s f w) = evaluation_store w"
  by (simp add: update_session_def Let_def split: option.splits list.splits)

lemma promise_store_update_session [simp]: "promise_store (update_session s f w) = promise_store w"
  by (simp add: update_session_def Let_def split: option.splits list.splits)

lemma next_ref_update_session [simp]: "next_ref (update_session s f w) = next_ref w"
  by (simp add: update_session_def Let_def split: option.splits list.splits)

lemma Session_Instances_update_session [simp]: "Session_Instances (update_session s f w) = Session_Instances w"
  by (simp add: update_session_def Let_def split: option.splits list.splits)

lemma Evaluation_Instances_update_session [simp]: "Evaluation_Instances (update_session s f w) = Evaluation_Instances w"
  by (simp add: update_session_def Let_def split: option.splits list.splits)

lemma effects_update_session [simp]: "effects (update_session s f w) = effects w"
  by (simp add: update_session_def Let_def split: option.splits list.splits)

lemma nsId_update_session [simp]: "nsId (update_session s f w) = nsId w"
  by (simp add: update_session_def Let_def split: option.splits list.splits)

lemma cloneId_update_session [simp]: "cloneId (update_session s f w) = cloneId w"
  by (simp add: update_session_def Let_def split: option.splits list.splits)

lemma describeId_update_session [simp]: "describeId (update_session s f w) = describeId w"
  by (simp add: update_session_def Let_def split: option.splits list.splits)

lemma create_promise_update_session [simp]: "create_promise (update_session s f w) = create_promise w"
  by (simp add: update_session_def Let_def split: option.splits list.splits)

lemma DEBUG_QUIT_VALUE_update_session [simp]: "DEBUG_QUIT_VALUE (update_session s f w) = DEBUG_QUIT_VALUE w"
  by (simp add: update_session_def Let_def split: option.splits list.splits)

lemma the_client_update_evaluation [simp]: "the_client (update_evaluation e f w) = the_client w"
  by (simp add: update_evaluation_def Let_def split: option.splits list.splits)

lemma session_store_update_evaluation [simp]: "session_store (update_evaluation e f w) = session_store w"
  by (simp add: update_evaluation_def Let_def split: option.splits list.splits)

lemma promise_store_update_evaluation [simp]: "promise_store (update_evaluation e f w) = promise_store w"
  by (simp add: update_evaluation_def Let_def split: option.splits list.splits)

lemma next_ref_update_evaluation [simp]: "next_ref (update_evaluation e f w) = next_ref w"
  by (simp add: update_evaluation_def Let_def split: option.splits list.splits)

lemma Session_Instances_update_evaluation [simp]: "Session_Instances (update_evaluation e f w) = Session_Instances w"
  by (simp add: update_evaluation_def Let_def split: option.splits list.splits)

lemma Evaluation_Instances_update_evaluation [simp]: "Evaluation_Instances (update_evaluation e f w) = Evaluation_Instances w"
  by (simp add: update_evaluation_def Let_def split: option.splits list.splits)

lemma effects_update_evaluation [simp]: "effects (update_evaluation e f w) = effects w"
  by (simp add: update_evaluation_def Let_def split: option.splits list.splits)

lemma nsId_update_evaluation [simp]: "nsId (update_evaluation e f w) = nsId w"
  by (simp add: update_evaluation_def Let_def split: option.splits list.splits)

lemma cloneId_update_evaluation [simp]: "cloneId (update_evaluation e f w) = cloneId w"
  by (simp add: update_evaluation_def Let_def split: option.splits list.splits)

lemma describeId_update_evaluation [simp]: "describeId (update_evaluation e f w) = describeId w"
  by (simp add: update_evaluation_def Let_def split: option.splits list.splits)

lemma create_promise_update_evaluation [simp]: "create_promise (update_evaluation e f w) = create_promise w"
  by (simp add: update_evaluation_def Let_def split: option.splits list.splits)

lemma DEBUG_QUIT_VALUE_update_evaluation [simp]: "DEBUG_QUIT_VALUE (update_evaluation e f w) = DEBUG_QUIT_VALUE w"
  by (simp add: update_evaluation_def Let_def split: option.splits list.splits)

lemma session_store_update_client [simp]: "session_store (update_client f w) = session_store w"
  by (simp add: update_client_def Let_def split: option.splits list.splits)

lemma evaluation_store_update_client [simp]: "evaluation_store (update_client f w) = evaluation_store w"
  by (simp add: update_client_def Let_def split: option.splits list.splits)

lemma promise_store_update_client [simp]: "promise_store (update_client f w) = promise_store w"
  by (simp add: update_client_def Let_def split: option.splits list.splits)

lemma next_ref_update_client [simp]: "next_ref (update_client f w) = next_ref w"
  by (simp add: update_client_def Let_def split: option.splits list.splits)

lemma Session_Instances_update_client [simp]: "Session_Instances (update_client f w) = Session_Instances w"
  by (simp add: update_client_def Let_def split: option.splits list.splits)

lemma Evaluation_Instances_update_client [simp]: "Evaluation_Instances (update_client f w) = Evaluation_Instances w"
  by (simp add: update_client_def Let_def split: option.splits list.splits)

lemma effects_update_client [simp]: "effects (update_client f w) = effects w"
  by (simp add: update_client_def Let_def split: option.splits list.splits)

lemma nsId_update_client [simp]: "nsId (update_client f w) = nsId w"
  by (simp add: update_client_def Let_def split: option.splits list.splits)

lemma cloneId_update_client [simp]: "cloneId (update_client f w) = cloneId w"
  by (simp add: update_client_def Let_def split: option.splits list.splits)

lemma describeId_update_client [simp]: "describeId (update_client f w) = describeId w"
  by (simp add: update_client_def Let_def split: option.splits list.splits)

lemma create_promise_update_client [simp]: "create_promise (update_client f w) = create_promise w"
  by (simp add: update_client_def Let_def split: option.splits list.splits)

lemma DEBUG_QUIT_VALUE_update_client [simp]: "DEBUG_QUIT_VALUE (update_client f w) = DEBUG_QUIT_VALUE w"
  by (simp add: update_client_def Let_def split: option.splits list.splits)

lemma the_client_emit [simp]: "the_client (emit x w) = the_client w"
  by (simp add: emit_def Let_def split: option.splits list.splits)

lemma session_store_emit [simp]: "session_store (emit x w) = session_store w"
  by (simp add: emit_def Let_def split: option.splits list.splits)

lemma evaluation_store_emit [simp]: "evaluation_store (emit x w) = evaluation_store w"
  by (simp add: emit_def Let_def split: option.splits list.splits)

lemma promise_store_emit [simp]: "promise_store (emit x w) = promise_store w"
  by (simp add: emit_def Let_def split: option.splits list.splits)

lemma next_ref_emit [simp]: "next_ref (emit x w) = next_ref w"
  by (simp add: emit_def Let_def split: option.splits list.splits)

lemma Session_Instances_emit [simp]: "Session_Instances (emit x w) = Session_Instances w"
  by (simp add: emit_def Let_def split: option.splits list.splits)

lemma Evaluation_Instances_emit [simp]: "Evaluation_Instances (emit x w) = Evaluation_Instances w"
  by (simp add: emit_def Let_def split: option.splits list.splits)

lemma nsId_emit [simp]: "nsId (emit x w) = nsId w"
  by (simp add: emit_def Let_def split: option.splits list.splits)

lemma cloneId_emit [simp]: "cloneId (emit x w) = cloneId w"
  by (simp add: emit_def Let_def split: option.splits list.splits)

lemma describeId_emit [simp]: "describeId (emit x w) = describeId w"
  by (simp add: emit_def Let_def split: option.splits list.splits)

lemma create_promise_emit [simp]: "create_promise (emit x w) = create_promise w"
  by (simp add: emit_def Let_def split: option.splits list.splits)

lemma DEBUG_QUIT_VALUE_emit [simp]: "DEBUG_QUIT_VALUE (emit x w) = DEBUG_QUIT_VALUE w"
  by (simp add: emit_def Let_def split: option.splits list.splits)

lemma the_client_log [simp]: "the_client (log x d w) = the_client w"
  by (simp add: log_def Let_def split: option.splits list.splits)

lemma session_store_log [simp]: "session_store (log x d w) = session_store w"
  by (simp add: log_def Let_def split: option.splits list.splits)

lemma evaluation_store_log [simp]: "evaluation_store (log x d w) = evaluation_store w"
  by (simp add: log_def Let_def split: option.splits list.splits)

lemma promise_store_log [simp]: "promise_store (log x d w) = promise_store w"
  by (simp add: log_def Let_def split: option.splits list.splits)

lemma next_ref_log [simp]: "next_ref (log x d w) = next_ref w"
  by (simp add: log_def Let_def split: option.splits list.splits)

lemma Session_Instances_log [simp]: "Session_Instances (log x d w) = Session_Instances w"
  by (simp add: log_def Let_def split: option.splits list.splits)

lemma Evaluation_Instances_log [simp]: "Evaluation_Instances (log x d w) = Evaluation_Instances w"
  by (simp add: log_def Let_def split: option.splits list.splits)

lemma nsId_log [simp]: "nsId (log x d w) = nsId w"
  by (simp add: log_def Let_def split: option.splits list.splits)

lemma cloneId_log [simp]: "cloneId (log x d w) = cloneId w"
  by (simp add: log_def Let_def split: option.splits list.splits)

lemma describeId_log [simp]: "describeId (log x d w) = describeId w"
  by (simp add: log_def Let_def split: option.splits list.splits)

lemma create_promise_log [simp]: "create_promise (log x d w) = create_promise w"
  by (simp add: log_def Let_def split: option.splits list.splits)

lemma DEBUG_QUIT_VALUE_log [simp]: "DEBUG_QUIT_VALUE (log x d w) = DEBUG_QUIT_VALUE w"
  by (simp add: log_def Let_def split: option.splits list.splits)

lemma the_client_call_settle [simp]: "the_client (call_settle p s w) = the_client w"
  by (simp add: call_settle_def Let_def split: option.splits list.splits)

lemma session_store_call_settle [simp]: "session_store (call_settle p s w) = session_store w"
  by (simp add: call_settle_def Let_def split: option.splits list.splits)

lemma evaluation_store_call_settle [simp]: "evaluation_store (call_settle p s w) = evaluation_store w"
  by (simp add: call_settle_def Let_def split: option.splits list.splits)

lemma next_ref_call_settle [simp]: "next_ref (call_settle p s w) = next_ref w"
  by (simp add: call_settle_def Let_def split: option.splits list.splits)

lemma Session_Instances_call_settle [simp]: "Session_Instances (call_settle p s w) = Session_Instances w"
  by (simp add: call_settle_def Let_def split: option.splits list.splits)

lemma Evaluation_Instances_call_settle [simp]: "Evaluation_Instances (call_settle p s w) = Evaluation_Instances w"
  by (simp add: call_settle_def Let_def split: option.splits list.splits)

lemma effects_call_settle [simp]: "effects (call_settle p s w) = effects w"
  by (simp add: call_settle_def Let_def split: option.splits list.splits)

lemma nsId_call_settle [simp]: "nsId (call_settle p s w) = nsId w"
  by (simp add: call_settle_def Let_def split: option.splits list.splits)

lemma cloneId_call_settle [simp]: "cloneId (call_settle p s w) = cloneId w"
  by (simp add: call_settle_def Let_def split: option.splits list.splits)

lemma describeId_call_settle [simp]: "describeId (call_settle p s w) = describeId w"
  by (simp add: call_settle_def Let_def split: option.splits list.splits)

lemma create_promise_call_settle [simp]: "create_promise (call_settle p s w) = create_promise w"
  by (simp add: call_settle_def Let_def split: option.splits list.splits)

lemma DEBUG_QUIT_VALUE_call_settle [simp]: "DEBUG_QUIT_VALUE (call_settle p s w) = DEBUG_QUIT_VALUE w"
  by (simp add: call_settle_def Let_def split: option.splits list.splits)

lemma session_store_encoder_write [simp]: "session_store (encoder_write d w) = session_store w"
  by (simp add: encoder_write_def Let_def split: option.splits list.splits)

lemma evaluation_store_encoder_write [simp]: "evaluation_store (encoder_write d w) = evaluation_store w"
  by (simp add: encoder_write_def Let_def split: option.splits list.splits)

lemma promise_store_encoder_write [simp]: "promise_store (encoder_write d w) = promise_store w"
  by (simp add: encoder_write_def Let_def split: option.splits list.splits)

lemma next_ref_encoder_write [simp]: "next_ref (encoder_write d w) = next_ref w"
  by (simp add: encoder_write_def Let_def split: option.splits list.splits)

lemma Session_Instances_encoder_write [simp]: "Session_Instances (encoder_write d w) = Session_Instances w"
  by (simp add: encoder_write_def Let_def split: option.splits list.splits)

lemma Evaluation_Instances_encoder_write [simp]: "Evaluation_Instances (encoder_write d w) = Evaluation_Instances w"
  by (simp add: encoder_write_def Let_def split: option.splits list.splits)

lemma effects_encoder_write [simp]: "effects (encoder_write d w) = effects w"
  by (simp add: encoder_write_def Let_def split: option.splits list.splits)

lemma nsId_encoder_write [simp]: "nsId (encoder_write d w) = nsId w"
  by (simp add: encoder_write_def Let_def split: option.splits list.splits)

lemma cloneId_encoder_write [simp]: "cloneId (encoder_write d w) = cloneId w"
  by (simp add: encoder_write_def Let_def split: option.splits list.splits)

lemma describeId_encoder_write [simp]: "describeId (encoder_write d w) = describeId w"
  by (simp add: encoder_write_def Let_def split: option.splits list.splits)

lemma create_promise_encoder_write [simp]: "create_promise (encoder_write d w) = create_promise w"
  by (simp add: encoder_write_def Let_def split: option.splits list.splits)

lemma DEBUG_QUIT_VALUE_encoder_write [simp]: "DEBUG_QUIT_VALUE (encoder_write d w) = DEBUG_QUIT_VALUE w"
  by (simp add: encoder_write_def Let_def split: option.splits list.splits)

lemma session_store_client_write [simp]: "session_store (client_write d w) = session_store w"
  by (simp add: client_write_def Let_def split: option.splits list.splits)

lemma evaluation_store_client_write [simp]: "evaluation_store (client_write d w) = evaluation_store w"
  by (simp add: client_write_def Let_def split: option.splits list.splits)

lemma promise_store_client_write [simp]: "promise_store (client_write d w) = promise_store w"
  by (simp add: client_write_def Let_def split: option.splits list.splits)

lemma next_ref_client_write [simp]: "next_ref (client_write d w) = next_ref w"
  by (simp add: client_write_def Let_def split: option.splits list.splits)

lemma Session_Instances_client_write [simp]: "Session_Instances (client_write d w) = Session_Instances w"
  by (simp add: client_write_def Let_def split: option.splits list.splits)

lemma Evaluation_Instances_client_write [simp]: "Evaluation_Instances (client_write d w) = Evaluation_Instances w"
  by (simp add: client_write_def Let_def split: option.splits list.splits)

lemma nsId_client_write [simp]: "nsId (client_write d w) = nsId w"
  by (simp add: client_write_def Let_def split: option.splits list.splits)

lemma cloneId_client_write [simp]: "cloneId (client_write d w) = cloneId w"
  by (simp add: client_write_def Let_def split: option.splits list.splits)

lemma describeId_client_write [simp]: "describeId (client_write d w) = describeId w"
  by (simp add: client_write_def Let_def split: option.splits list.splits)

lemma create_promise_client_write [simp]: "create_promise (client_write d w) = create_promise w"
  by (simp add: client_write_def Let_def split: option.splits list.splits)

lemma DEBUG_QUIT_VALUE_client_write [simp]: "DEBUG_QUIT_VALUE (client_write d w) = DEBUG_QUIT_VALUE w"
  by (simp add: client_write_def Let_def split: option.splits list.splits)

lemma the_client_not_supported [simp]: "the_client (not_supported m w) = the_client w"
  by (simp add: not_supported_def Let_def split: option.splits list.splits)

lemma session_store_not_supported [simp]: "session_store (not_supported m w) = session_store w"
  by (simp add: not_supported_def Let_def split: option.splits list.splits)

lemma evaluation_store_not_supported [simp]: "evaluation_store (not_supported m w) = evaluation_store w"
  by (simp add: not_supported_def Let_def split: option.splits list.splits)

lemma promise_store_not_supported [simp]: "promise_store (not_supported m w) = promise_store w"
  by (simp add: not_supported_def Let_def split: option.splits list.splits)

lemma next_ref_not_supported [simp]: "next_ref (not_supported m w) = next_ref w"
  by (simp add: not_supported_def Let_def split: option.splits list.splits)

lemma Session_Instances_not_supported [simp]: "Session_Instances (not_supported m w) = Session_Instances w"
  by (simp add: not_supported_def Let_def split: option.splits list.splits)

lemma Evaluation_Instances_not_supported [simp]: "Evaluation_Instances (not_supported m w) = Evaluation_Instances w"
  by (simp add: not_supported_def Let_def split: option.splits list.splits)

lemma nsId_not_supported [simp]: "nsId (not_supported m w) = nsId w"
  by (simp add: not_supported_def Let_def split: option.splits list.splits)

lemma cloneId_not_supported [simp]: "cloneId (not_supported m w) = cloneId w"
  by (simp add: not_supported_def Let_def split: option.splits list.splits)

lemma describeId_not_supported [simp]: "describeId (not_supported m w) = describeId w"
  by (simp add: not_supported_def Let_def split: option.splits list.splits)

lemma create_promise_not_supported [simp]: "create_promise (not_supported m w) = create_promise w"
  by (simp add: not_supported_def Let_def split: option.splits list.splits)

lemma DEBUG_QUIT_VALUE_not_supported [simp]: "DEBUG_QUIT_VALUE (not_supported m w) = DEBUG_QUIT_VALUE w"
  by (simp add: not_supported_def Let_def split: option.splits list.splits)

lemma the_client_set_handler [simp]: "the_client (set_handler s i h w) = the_client w"
  by (simp add: set_handler_def Let_def split: option.splits list.splits)

lemma evaluation_store_set_handler [simp]: "evaluation_store (set_handler s i h w) = evaluation_store w"
  by (simp add: set_handler_def Let_def split: option.splits list.splits)

lemma promise_store_set_handler [simp]: "promise_store (set_handler s i h w) = promise_store w"
  by (simp add: set_handler_def Let_def split: option.splits list.splits)

lemma next_ref_set_handler [simp]: "next_ref (set_handler s i h w) = next_ref w"
  by (simp add: set_handler_def Let_def split: option.splits list.splits)

lemma Session_Instances_set_handler [simp]: "Session_Instances (set_handler s i h w) = Session_Instances w"
  by (simp add: set_handler_def Let_def split: option.splits list.splits)

lemma Evaluation_Instances_set_handler [simp]: "Evaluation_Instances (set_handler s i h w) = Evaluation_Instances w"
  by (simp add: set_handler_def Let_def split: option.splits list.splits)

lemma effects_set_handler [simp]: "effects (set_handler s i h w) = effects w"
  by (simp add: set_handler_def Let_def split: option.splits list.splits)

lemma nsId_set_handler [simp]: "nsId (set_handler s i h w) = nsId w"
  by (simp add: set_handler_def Let_def split: option.splits list.splits)

lemma cloneId_set_handler [simp]: "cloneId (set_handler s i h w) = cloneId w"
  by (simp add: set_handler_def Let_def split: option.splits list.splits)

lemma describeId_set_handler [simp]: "describeId (set_handler s i h w) = describeId w"
  by (simp add: set_handler_def Let_def split: option.splits list.splits)

lemma create_promise_set_handler [simp]: "create_promise (set_handler s i h w) = create_promise w"
  by (simp add: set_handler_def Let_def split: option.splits list.splits)

lemma DEBUG_QUIT_VALUE_set_handler [simp]: "DEBUG_QUIT_VALUE (set_handler s i h w) = DEBUG_QUIT_VALUE w"
  by (simp add: set_handler_def Let_def split: option.splits list.splits)

lemma the_client_delete_handler [simp]: "the_client (delete_handler s i w) = the_client w"
  by (simp add: delete_handler_def Let_def split: option.splits list.splits)

lemma evaluation_store_delete_handler [simp]: "evaluation_store (delete_handler s i w) = evaluation_store w"
  by (simp add: delete_handler_def Let_def split: option.splits list.splits)

lemma promise_store_delete_handler [simp]: "promise_store (delete_handler s i w) = promise_store w"
  by (simp add: delete_handler_def Let_def split: option.splits list.splits)

lemma next_ref_delete_handler [simp]: "next_ref (delete_handler s i w) = next_ref w"
  by (simp add: delete_handler_def Let_def split: option.splits list.splits)

lemma Session_Instances_delete_handler [simp]: "Session_Instances (delete_handler s i w) = Session_Instances w"
  by (simp add: delete_handler_def Let_def split: option.splits list.splits)

lemma Evaluation_Instances_delete_handler [simp]: "Evaluation_Instances (delete_handler s i w) = Evaluation_Instances w"
  by (simp add: delete_handler_def Let_def split: option.splits list.splits)

lemma effects_delete_handler [simp]: "effects (delete_handler s i w) = effects w"
  by (simp add: delete_handler_def Let_def split: option.splits list.splits)

lemma nsId_delete_handler [simp]: "nsId (delete_handler s i w) = nsId w"
  by (simp add: delete_handler_def Let_def split: option.splits list.splits)

lemma cloneId_delete_handler [simp]: "cloneId (delete_handler s i w) = cloneId w"
  by (simp add: delete_handler_def Let_def split: option.splits list.splits)

lemma describeId_delete_handler [simp]: "describeId (delete_handler s i w) = describeId w"
  by (simp add: delete_handler_def Let_def split: option.splits list.splits)

lemma create_promise_delete_handler [simp]: "create_promise (delete_handler s i w) = create_promise w"
  by (simp add: delete_handler_def Let_def split: option.splits list.splits)

lemma DEBUG_QUIT_VALUE_delete_handler [simp]: "DEBUG_QUIT_VALUE (delete_handler s i w) = DEBUG_QUIT_VALUE w"
  by (simp add: delete_handler_def Let_def split: option.splits list.splits)

lemma the_client_addRunningID [simp]: "the_client (addRunningID s i w) = the_client w"
  by (simp add: addRunningID_def Let_def split: option.splits list.splits)

lemma evaluation_store_addRunningID [simp]: "evaluation_store (addRunningID s i w) = evaluation_store w"
  by (simp add: addRunningID_def Let_def split: option.splits list.splits)

lemma promise_store_addRunningID [simp]: "promise_store (addRunningID s i w) = promise_store w"
  by (simp add: addRunningID_def Let_def split: option.splits list.splits)

lemma next_ref_addRunningID [simp]: "next_ref (addRunningID s i w) = next_ref w"
  by (simp add: addRunningID_def Let_def split: option.splits list.splits)

lemma Session_Instances_addRunningID [simp]: "Session_Instances (addRunningID s i w) = Session_Instances w"
  by (simp add: addRunningID_def Let_def split: option.splits list.splits)

lemma Evaluation_Instances_addRunningID [simp]: "Evaluation_Instances (addRunningID s i w) = Evaluation_Instances w"
  by (simp add: addRunningID_def Let_def split: option.splits list.splits)

lemma effects_addRunningID [simp]: "effects (addRunningID s i w) = effects w"
  by (simp add: addRunningID_def Let_def split: option.splits list.splits)

lemma nsId_addRunningID [simp]: "nsId (addRunningID s i w) = nsId w"
  by (simp add: addRunningID_def Let_def split: option.splits list.splits)

lemma cloneId_addRunningID [simp]: "cloneId (addRunningID s i w) = cloneId w"
  by (simp add: addRunningID_def Let_def split: option.splits list.splits)

lemma describeId_addRunningID [simp]: "describeId (addRunningID s i w) = describeId w"
  by (simp add: addRunningID_def Let_def split: option.splits list.splits)

lemma create_promise_addRunningID [simp]: "create_promise (addRunningID s i w) = create_promise w"
  by (simp add: addRunningID_def Let_def split: option.splits list.splits)

lemma DEBUG_QUIT_VALUE_addRunningID [simp]: "DEBUG_QUIT_VALUE (addRunningID s i w) = DEBUG_QUIT_VALUE w"
  by (simp add: addRunningID_def Let_def split: option.splits list.splits)

lemma the_client_add [simp]: "the_client (add e w) = the_client w"
  by (simp add: add_def Let_def split: option.splits list.splits)

lemma session_store_add [simp]: "session_store (add e w) = session_store w"
  by (simp add: add_def Let_def split: option.splits list.splits)

lemma evaluation_store_add [simp]: "evaluation_store (add e w) = evaluation_store w"
  by (simp add: add_def Let_def split: option.splits list.splits)

lemma promise_store_add [simp]: "promise_store (add e w) = promise_store w"
  by (simp add: add_def Let_def split: option.splits list.splits)

lemma next_ref_add [simp]: "next_ref (add e w) = next_ref w"
  by (simp add: add_def Let_def split: option.splits list.splits)

lemma Session_Instances_add [simp]: "Session_Instances (add e w) = Session_Instances w"
  by (simp add: add_def Let_def split: option.splits list.splits)

lemma effects_add [simp]: "effects (add e w) = effects w"
  by (simp add: add_def Let_def split: option.splits list.splits)

lemma nsId_add [simp]: "nsId (add e w) = nsId w"
  by (simp add: add_def Let_def split: option.splits list.splits)

lemma cloneId_add [simp]: "cloneId (add e w) = cloneId w"
  by (simp add: add_def Let_def split: option.splits list.splits)

lemma describeId_add [simp]: "describeId (add e w) = describeId w"
  by (simp add: add_def Let_def split: option.splits list.splits)

lemma create_promise_add [simp]: "create_promise (add e w) = create_promise w"
  by (simp add: add_def Let_def split: option.splits list.splits)

lemma DEBUG_QUIT_VALUE_add [simp]: "DEBUG_QUIT_VALUE (add e w) = DEBUG_QUIT_VALUE w"
  by (simp add: add_def Let_def split: option.splits list.splits)

lemma the_client_remove [simp]: "the_client (remove e w) = the_client w"
  by (simp add: remove_def Let_def split: option.splits list.splits)

lemma session_store_remove [simp]: "session_store (remove e w) = session_store w"
  by (simp add: remove_def Let_def split: option.splits list.splits)

lemma evaluation_store_remove [simp]: "evaluation_store (remove e w) = evaluation_store w"
  by (simp add: remove_def Let_def split: option.splits list.splits)

lemma promise_store_remove [simp]: "promise_store (remove e w) = promise_store w"
  by (simp add: remove_def Let_def split: option.splits list.splits)

lemma next_ref_remove [simp]: "next_ref (remove e w) = next_ref w"
  by (simp add: remove_def Let_def split: option.splits list.splits)

lemma Session_Instances_remove [simp]: "Session_Instances (remove e w) = Session_Instances w"
  by (simp add: remove_def Let_def split: option.splits list.splits)

lemma effects_remove [simp]: "effects (remove e w) = effects w"
  by (simp add: remove_def Let_def split: option.splits list.splits)

lemma nsId_remove [simp]: "nsId (remove e w) = nsId w"
  by (simp add: remove_def Let_def split: option.splits list.splits)

lemma cloneId_remove [simp]: "cloneId (remove e w) = cloneId w"
  by (simp add: remove_def Let_def split: option.splits list.splits)

lemma describeId_remove [simp]: "describeId (remove e w) = describeId w"
  by (simp add: remove_def Let_def split: option.splits list.splits)

lemma create_promise_remove [simp]: "create_promise (remove e w) = create_promise w"
  by (simp add: remove_def Let_def split: option.splits list.splits)

lemma DEBUG_QUIT_VALUE_remove [simp]: "DEBUG_QUIT_VALUE (remove e w) = DEBUG_QUIT_VALUE w"
  by (simp add: remove_def Let_def split: option.splits list.splits)

lemma the_client_new_promise [simp]: "the_client (snd (new_promise w)) = the_client w"
  by (simp add: new_promise_def Let_def split: option.splits list.splits)

lemma session_store_new_promise [simp]: "session_store (snd (new_promise w)) = session_store w"
  by (simp add: new_promise_def Let_def split: option.splits list.splits)

lemma evaluation_store_new_promise [simp]: "evaluation_store (snd (new_promise w)) = evaluation_store w"
  by (simp add: new_promise_def Let_def split: option.splits list.splits)

lemma Session_Instances_new_promise [simp]: "Session_Instances (snd (new_promise w)) = Session_Instances w"
  by (simp add: new_promise_def Let_def split: option.splits list.splits)

lemma Evaluation_Instances_new_promise [simp]: "Evaluation_Instances (snd (new_promise w)) = Evaluation_Instances w"
  by (simp add: new_promise_def Let_def split: option.splits list.splits)

lemma effects_new_promise [simp]: "effects (snd (new_promise w)) = effects w"
  by (simp add: new_promise_def Let_def split: option.splits list.splits)

lemma nsId_new_promise [simp]: "nsId (snd (new_promise w)) = nsId w"
  by (simp add: new_promise_def Let_def split: option.splits list.splits)

lemma cloneId_new_promise [simp]: "cloneId (snd (new_promise w)) = cloneId w"
  by (simp add: new_promise_def Let_def split: option.splits list.splits)

lemma describeId_new_promise [simp]: "describeId (snd (new_promise w)) = describeId w"
  by (simp add: new_promise_def Let_def split: option.splits list.splits)

lemma create_promise_new_promise [simp]: "create_promise (snd (new_promise w)) = create_promise w"
  by (simp add: new_promise_def Let_def split: option.splits list.splits)

lemma DEBUG_QUIT_VALUE_new_promise [simp]: "DEBUG_QUIT_VALUE (snd (new_promise w)) = DEBUG_QUIT_VALUE w"
  by (simp add: new_promise_def Let_def split: option.splits list.splits)

lemma session_store_nextId [simp]: "session_store (snd (nextId w)) = session_store w"
  by (simp add: nextId_def Let_def split: option.splits list.splits)

lemma evaluation_store_nextId [simp]: "evaluation_store (snd (nextId w)) = evaluation_store w"
  by (simp add: nextId_def Let_def split: option.splits list.splits)

lemma promise_store_nextId [simp]: "promise_store (snd (nextId w)) = promise_store w"
  by (simp add: nextId_def Let_def split: option.splits list.splits)

lemma next_ref_nextId [simp]: "next_ref (snd (nextId w)) = next_ref w"
  by (simp add: nextId_def Let_def split: option.splits list.splits)

lemma Session_Instances_nextId [simp]: "Session_Instances (snd (nextId w)) = Session_Instances w"
  by (simp add: nextId_def Let_def split: option.splits list.splits)

lemma Evaluation_Instances_nextId [simp]: "Evaluation_Instances (snd (nextId w)) = Evaluation_Instances w"
  by (simp add: nextId_def Let_def split: option.splits list.splits)

lemma effects_nextId [simp]: "effects (snd (nextId w)) = effects w"
  by (simp add: nextId_def Let_def split: option.splits list.splits)

lemma nsId_nextId [simp]: "nsId (snd (nextId w)) = nsId w"
  by (simp add: nextId_def Let_def split: option.splits list.splits)

lemma cloneId_nextId [simp]: "cloneId (snd (nextId w)) = cloneId w"
  by (simp add: nextId_def Let_def split: option.splits list.splits)

lemma describeId_nextId [simp]: "describeId (snd (nextId w)) = describeId w"
  by (simp add: nextId_def Let_def split: option.splits list.splits)

lemma create_promise_nextId [simp]: "create_promise (snd (nextId w)) = create_promise w"
  by (simp add: nextId_def Let_def split: option.splits list.splits)

lemma DEBUG_QUIT_VALUE_nextId [simp]: "DEBUG_QUIT_VALUE (snd (nextId w)) = DEBUG_QUIT_VALUE w"
  by (simp add: nextId_def Let_def split: option.splits list.splits)

lemma the_client_doResolve [simp]: "the_client (doResolve e r w) = the_client w"
  by (simp add: doResolve_def Let_def split: option.splits list.splits)

lemma session_store_doResolve [simp]: "session_store (doResolve e r w) = session_store w"
  by (simp add: doResolve_def Let_def split: option.splits list.splits)

lemma next_ref_doResolve [simp]: "next_ref (doResolve e r w) = next_ref w"
  by (simp add: doResolve_def Let_def split: option.splits list.splits)

lemma Session_Instances_doResolve [simp]: "Session_Instances (doResolve e r w) = Session_Instances w"
  by (simp add: doResolve_def Let_def split: option.splits list.splits)

lemma Evaluation_Instances_doResolve [simp]: "Evaluation_Instances (doResolve e r w) = Evaluation_Instances w"
  by (simp add: doResolve_def Let_def split: option.splits list.splits)

lemma effects_doResolve [simp]: "effects (doResolve e r w) = effects w"
  by (simp add: doResolve_def Let_def split: option.splits list.splits)

lemma nsId_doResolve [simp]: "nsId (doResolve e r w) = nsId w"
  by (simp add: doResolve_def Let_def split: option.splits list.splits)

lemma cloneId_doResolve [simp]: "cloneId (doResolve e r w) = cloneId w"
  by (simp add: doResolve_def Let_def split: option.splits list.splits)

lemma describeId_doResolve [simp]: "describeId (doResolve e r w) = describeId w"
  by (simp add: doResolve_def Let_def split: option.splits list.splits)

lemma create_promise_doResolve [simp]: "create_promise (doResolve e r w) = create_promise w"
  by (simp add: doResolve_def Let_def split: option.splits list.splits)

lemma DEBUG_QUIT_VALUE_doResolve [simp]: "DEBUG_QUIT_VALUE (doResolve e r w) = DEBUG_QUIT_VALUE w"
  by (simp add: doResolve_def Let_def split: option.splits list.splits)

lemma the_client_doReject [simp]: "the_client (doReject e r w) = the_client w"
  by (simp add: doReject_def Let_def split: option.splits list.splits)

lemma session_store_doReject [simp]: "session_store (doReject e r w) = session_store w"
  by (simp add: doReject_def Let_def split: option.splits list.splits)

lemma next_ref_doReject [simp]: "next_ref (doReject e r w) = next_ref w"
  by (simp add: doReject_def Let_def split: option.splits list.splits)

lemma Session_Instances_doReject [simp]: "Session_Instances (doReject e r w) = Session_Instances w"
  by (simp add: doReject_def Let_def split: option.splits list.splits)

lemma Evaluation_Instances_doReject [simp]: "Evaluation_Instances (doReject e r w) = Evaluation_Instances w"
  by (simp add: doReject_def Let_def split: option.splits list.splits)

lemma effects_doReject [simp]: "effects (doReject e r w) = effects w"
  by (simp add: doReject_def Let_def split: option.splits list.splits)

lemma nsId_doReject [simp]: "nsId (doReject e r w) = nsId w"
  by (simp add: doReject_def Let_def split: option.splits list.splits)

lemma cloneId_doReject [simp]: "cloneId (doReject e r w) = cloneId w"
  by (simp add: doReject_def Let_def split: option.splits list.splits)

lemma describeId_doReject [simp]: "describeId (doReject e r w) = describeId w"
  by (simp add: doReject_def Let_def split: option.splits list.splits)

lemma create_promise_doReject [simp]: "create_promise (doReject e r w) = create_promise w"
  by (simp add: doReject_def Let_def split: option.splits list.splits)

lemma DEBUG_QUIT_VALUE_doReject [simp]: "DEBUG_QUIT_VALUE (doReject e r w) = DEBUG_QUIT_VALUE w"
  by (simp add: doReject_def Let_def split: option.splits list.splits)

lemma the_client_react [simp]: "the_client (react r s w) = the_client w"
  by (cases r; cases s) (simp_all add: Let_def)

lemma session_store_react [simp]: "session_store (react r s w) = session_store w"
  by (cases r; cases s) (simp_all add: Let_def)

lemma next_ref_react [simp]: "next_ref (react r s w) = next_ref w"
  by (cases r; cases s) (simp_all add: Let_def)

lemma Session_Instances_react [simp]: "Session_Instances (react r s w) = Session_Instances w"
  by (cases r; cases s) (simp_all add: Let_def)

lemma Evaluation_Instances_react [simp]: "Evaluation_Instances (react r s w) = Evaluation_Instances w"
  by (cases r; cases s) (simp_all add: Let_def)

lemma nsId_react [simp]: "nsId (react r s w) = nsId w"
  by (cases r; cases s) (simp_all add: Let_def)

lemma cloneId_react [simp]: "cloneId (react r s w) = cloneId w"
  by (cases r; cases s) (simp_all add: Let_def)

lemma describeId_react [simp]: "describeId (react r s w) = describeId w"
  by (cases r; cases s) (simp_all add: Let_def)

lemma create_promise_react [simp]: "create_promise (react r s w) = create_promise w"
  by (cases r; cases s) (simp_all add: Let_def)

lemma DEBUG_QUIT_VALUE_react [simp]: "DEBUG_QUIT_VALUE (react r s w) = DEBUG_QUIT_VALUE w"
  by (cases r; cases s) (simp_all add: Let_def)

lemma the_client_settle_promise [simp]: "the_client (settle_promise p s w) = the_client w"
  by (simp add: settle_promise_def Let_def split: option.splits list.splits)

lemma session_store_settle_promise [simp]: "session_store (settle_promise p s w) = session_store w"
  by (simp add: settle_promise_def Let_def split: option.splits list.splits)

lemma next_ref_settle_promise [simp]: "next_ref (settle_promise p s w) = next_ref w"
  by (simp add: settle_promise_def Let_def split: option.splits list.splits)

lemma Session_Instances_settle_promise [simp]: "Session_Instances (settle_promise p s w) = Session_Instances w"
  by (simp add: settle_promise_def Let_def split: option.splits list.splits)

lemma Evaluation_Instances_settle_promise [simp]: "Evaluation_Instances (settle_promise p s w) = Evaluation_Instances w"
  by (simp add: settle_promise_def Let_def split: option.splits list.splits)

lemma nsId_settle_promise [simp]: "nsId (settle_promise p s w) = nsId w"
  by (simp add: settle_promise_def Let_def split: option.splits list.splits)

lemma cloneId_settle_promise [simp]: "cloneId (settle_promise p s w) = cloneId w"
  by (simp add: settle_promise_def Let_def split: option.splits list.splits)

lemma describeId_settle_promise [simp]: "describeId (settle_promise p s w) = describeId w"
  by (simp add: settle_promise_def Let_def split: option.splits list.splits)

lemma create_promise_settle_promise [simp]: "create_promise (settle_promise p s w) = create_promise w"
  by (simp add: settle_promise_def Let_def split: option.splits list.splits)

lemma DEBUG_QUIT_VALUE_settle_promise [simp]: "DEBUG_QUIT_VALUE (settle_promise p s w) = DEBUG_QUIT_VALUE w"
  by (simp add: settle_promise_def Let_def split: option.splits list.splits)

lemma the_client_chain [simp]: "the_client (chain p r w) = the_client w"
  by (simp add: chain_def Let_def split: option.splits list.splits)

lemma session_store_chain [simp]: "session_store (chain p r w) = session_store w"
  by (simp add: chain_def Let_def split: option.splits list.splits)

lemma next_ref_chain [simp]: "next_ref (chain p r w) = next_ref w"
  by (simp add: chain_def Let_def split: option.splits list.splits)

lemma Session_Instances_chain [simp]: "Session_Instances (chain p r w) = Session_Instances w"
  by (simp add: chain_def Let_def split: option.splits list.splits)

lemma Evaluation_Instances_chain [simp]: "Evaluation_Instances (chain p r w) = Evaluation_Instances w"
  by (simp add: chain_def Let_def split: option.splits list.splits)

lemma nsId_chain [simp]: "nsId (chain p r w) = nsId w"
  by (simp add: chain_def Let_def split: option.splits list.splits)

lemma cloneId_chain [simp]: "cloneId (chain p r w) = cloneId w"
  by (simp add: chain_def Let_def split: option.splits list.splits)

lemma describeId_chain [simp]: "describeId (chain p r w) = describeId w"
  by (simp add: chain_def Let_def split: option.splits list.splits)

lemma create_promise_chain [simp]: "create_promise (chain p r w) = create_promise w"
  by (simp add: chain_def Let_def split: option.splits list.splits)

lemma DEBUG_QUIT_VALUE_chain [simp]: "DEBUG_QUIT_VALUE (chain p r w) = DEBUG_QUIT_VALUE w"
  by (simp add: chain_def Let_def split: option.splits list.splits)

lemma the_client_setHandlers [simp]: "the_client (setHandlers e p q w) = the_client w"
  by (simp add: setHandlers_def Let_def split: option.splits list.splits)

lemma session_store_setHandlers [simp]: "session_store (setHandlers e p q w) = session_store w"
  by (simp add: setHandlers_def Let_def split: option.splits list.splits)

lemma promise_store_setHandlers [simp]: "promise_store (setHandlers e p q w) = promise_store w"
  by (simp add: setHandlers_def Let_def split: option.splits list.splits)

lemma next_ref_setHandlers [simp]: "next_ref (setHandlers e p q w) = next_ref w"
  by (simp add: setHandlers_def Let_def split: option.splits list.splits)

lemma Session_Instances_setHandlers [simp]: "Session_Instances (setHandlers e p q w) = Session_Instances w"
  by (simp add: setHandlers_def Let_def split: option.splits list.splits)

lemma Evaluation_Instances_setHandlers [simp]: "Evaluation_Instances (setHandlers e p q w) = Evaluation_Instances w"
  by (simp add: setHandlers_def Let_def split: option.splits list.splits)

lemma effects_setHandlers [simp]: "effects (setHandlers e p q w) = effects w"
  by (simp add: setHandlers_def Let_def split: option.splits list.splits)

lemma nsId_setHandlers [simp]: "nsId (setHandlers e p q w) = nsId w"
  by (simp add: setHandlers_def Let_def split: option.splits list.splits)

lemma cloneId_setHandlers [simp]: "cloneId (setHandlers e p q w) = cloneId w"
  by (simp add: setHandlers_def Let_def split: option.splits list.splits)

lemma describeId_setHandlers [simp]: "describeId (setHandlers e p q w) = describeId w"
  by (simp add: setHandlers_def Let_def split: option.splits list.splits)

lemma create_promise_setHandlers [simp]: "create_promise (setHandlers e p q w) = create_promise w"
  by (simp add: setHandlers_def Let_def split: option.splits list.splits)

lemma DEBUG_QUIT_VALUE_setHandlers [simp]: "DEBUG_QUIT_VALUE (setHandlers e p q w) = DEBUG_QUIT_VALUE w"
  by (simp add: setHandlers_def Let_def split: option.splits list.splits)

lemma the_client_out [simp]: "the_client (out e m w) = the_client w"
  by (simp add: out_def Let_def split: option.splits list.splits)

lemma session_store_out [simp]: "session_store (out e m w) = session_store w"
  by (simp add: out_def Let_def split: option.splits list.splits)

lemma promise_store_out [simp]: "promise_store (out e m w) = promise_store w"
  by (simp add: out_def Let_def split: option.splits list.splits)

lemma next_ref_out [simp]: "next_ref (out e m w) = next_ref w"
  by (simp add: out_def Let_def split: option.splits list.splits)

lemma Session_Instances_out [simp]: "Session_Instances (out e m w) = Session_Instances w"
  by (simp add: out_def Let_def split: option.splits list.splits)

lemma Evaluation_Instances_out [simp]: "Evaluation_Instances (out e m w) = Evaluation_Instances w"
  by (simp add: out_def Let_def split: option.splits list.splits)

lemma nsId_out [simp]: "nsId (out e m w) = nsId w"
  by (simp add: out_def Let_def split: option.splits list.splits)

lemma cloneId_out [simp]: "cloneId (out e m w) = cloneId w"
  by (simp add: out_def Let_def split: option.splits list.splits)

lemma describeId_out [simp]: "describeId (out e m w) = describeId w"
  by (simp add: out_def Let_def split: option.splits list.splits)

lemma create_promise_out [simp]: "create_promise (out e m w) = create_promise w"
  by (simp add: out_def Let_def split: option.splits list.splits)

lemma DEBUG_QUIT_VALUE_out [simp]: "DEBUG_QUIT_VALUE (out e m w) = DEBUG_QUIT_VALUE w"
  by (simp add: out_def Let_def split: option.splits list.splits)

lemma the_client_err [simp]: "the_client (err e m w) = the_client w"
  by (simp add: err_def Let_def split: option.splits list.splits)

lemma session_store_err [simp]: "session_store (err e m w) = session_store w"
  by (simp add: err_def Let_def split: option.splits list.splits)

lemma promise_store_err [simp]: "promise_store (err e m w) = promise_store w"
  by (simp add: err_def Let_def split: option.splits list.splits)

lemma next_ref_err [simp]: "next_ref (err e m w) = next_ref w"
  by (simp add: err_def Let_def split: option.splits list.splits)

lemma Session_Instances_err [simp]: "Session_Instances (err e m w) = Session_Instances w"
  by (simp add: err_def Let_def split: option.splits list.splits)

lemma Evaluation_Instances_err [simp]: "Evaluation_Instances (err e m w) = Evaluation_Instances w"
  by (simp add: err_def Let_def split: option.splits list.splits)

lemma nsId_err [simp]: "nsId (err e m w) = nsId w"
  by (simp add: err_def Let_def split: option.splits list.splits)

lemma cloneId_err [simp]: "cloneId (err e m w) = cloneId w"
  by (simp add: err_def Let_def split: option.splits list.splits)

lemma describeId_err [simp]: "describeId (err e m w) = describeId w"
  by (simp add: err_def Let_def split: option.splits list.splits)

lemma create_promise_err [simp]: "create_promise (err e m w) = create_promise w"
  by (simp add: err_def Let_def split: option.splits list.splits)

lemma DEBUG_QUIT_VALUE_err [simp]: "DEBUG_QUIT_VALUE (err e m w) = DEBUG_QUIT_VALUE w"
  by (simp add: err_def Let_def split: option.splits list.splits)

subsection \<open>What a step does to the client\<close>

lemma the_client_update_client [simp]: "the_client (update_client f w) = f (the_client w)"
  by (simp add: update_client_def)

lemma the_client_encoder_write [simp]:
  "the_client (encoder_write d w) = (the_client w)\<lparr>cl_written := cl_written (the_client w) @ [d]\<rparr>"
  by (simp add: encoder_write_def)

lemma the_client_client_write [simp]:
  "the_client (client_write d w) = (the_client w)\<lparr>cl_written := cl_written (the_client w) @ [d]\<rparr>"
  by (simp add: client_write_def)

lemma the_client_nextId [simp]:
  "the_client (snd (nextId w)) = (the_client w)\<lparr>cl_nextId := js_increment (cl_nextId (the_client w))\<rparr>"
  by (simp add: nextId_def Let_def)

lemma fst_nextId [simp]: "fst (nextId w) = toString (js_increment (cl_nextId (the_client w)))"
  by (simp add: nextId_def Let_def)

lemma the_client_if_supports:
  "the_client (if_supports op p yes no w) = the_client w
   \<or> the_client (if_supports op p yes no w) = the_client (yes w)
   \<or> the_client (if_supports op p yes no w) = the_client (no w)"
  by (simp add: if_supports_def split: sum.splits)

lemma the_client_send_or_skip:
  "the_client (send_or_skip s m h p w) = the_client w
   \<or> the_client (send_or_skip s m h p w) = (the_client w)\<lparr>cl_written := cl_written (the_client w) @ [m]\<rparr>"
  by (simp add: send_or_skip_def if_supports_def split: sum.splits)

lemma draws_one_gated: "draws_one w (snd (gated_request s op args h w))"
  using the_client_send_or_skip [of s "the_request op (Some (fst (nextId (snd (new_promise w))))) s args (snd (nextId (snd (new_promise w))))"
      "h (fst (new_promise w))" "fst (new_promise w)" "snd (nextId (snd (new_promise w)))"]
  by (auto simp: draws_one_def gated_request_def the_request_def split_beta Let_def)

subsection \<open>The objects a step leaves alone\<close>

lemma evaluation_of_update_session [simp]: "evaluation_of (update_session s f w) = evaluation_of w"
  by (rule ext) (simp add: evaluation_of_def)

lemma calls_of_update_session [simp]: "calls_of (update_session s f w) = calls_of w"
  by (rule ext) (simp add: calls_of_def)

lemma exception_of_update_session [simp]: "exception_of (update_session s f w) = exception_of w"
  by (rule ext) (simp add: exception_of_def)

lemma session_of_update_evaluation [simp]: "session_of (update_evaluation e f w) = session_of w"
  by (rule ext) (simp add: session_of_def)

lemma calls_of_update_evaluation [simp]: "calls_of (update_evaluation e f w) = calls_of w"
  by (rule ext) (simp add: calls_of_def)

lemma session_of_update_client [simp]: "session_of (update_client f w) = session_of w"
  by (rule ext) (simp add: session_of_def)

lemma evaluation_of_update_client [simp]: "evaluation_of (update_client f w) = evaluation_of w"
  by (rule ext) (simp add: evaluation_of_def)

lemma calls_of_update_client [simp]: "calls_of (update_client f w) = calls_of w"
  by (rule ext) (simp add: calls_of_def)

lemma exception_of_update_client [simp]: "exception_of (update_client f w) = exception_of w"
  by (rule ext) (simp add: exception_of_def)

lemma session_of_emit [simp]: "session_of (emit x w) = session_of w"
  by (rule ext) (simp add: session_of_def)

lemma evaluation_of_emit [simp]: "evaluation_of (emit x w) = evaluation_of w"
  by (rule ext) (simp add: evaluation_of_def)

lemma calls_of_emit [simp]: "calls_of (emit x w) = calls_of w"
  by (rule ext) (simp add: calls_of_def)

lemma exception_of_emit [simp]: "exception_of (emit x w) = exception_of w"
  by (rule ext) (simp add: exception_of_def)

lemma session_of_log [simp]: "session_of (log x d w) = session_of w"
  by (rule ext) (simp add: session_of_def)

lemma evaluation_of_log [simp]: "evaluation_of (log x d w) = evaluation_of w"
  by (rule ext) (simp add: evaluation_of_def)

lemma calls_of_log [simp]: "calls_of (log x d w) = calls_of w"
  by (rule ext) (simp add: calls_of_def)

lemma exception_of_log [simp]: "exception_of (log x d w) = exception_of w"
  by (rule ext) (simp add: exception_of_def)

lemma session_of_call_settle [simp]: "session_of (call_settle p s w) = session_of w"
  by (rule ext) (simp add: session_of_def)

lemma evaluation_of_call_settle [simp]: "evaluation_of (call_settle p s w) = evaluation_of w"
  by (rule ext) (simp add: evaluation_of_def)

lemma exception_of_call_settle [simp]: "exception_of (call_settle p s w) = exception_of w"
  by (rule ext) (simp add: exception_of_def)

lemma session_of_encoder_write [simp]: "session_of (encoder_write d w) = session_of w"
  by (rule ext) (simp add: session_of_def)

lemma evaluation_of_encoder_write [simp]: "evaluation_of (encoder_write d w) = evaluation_of w"
  by (rule ext) (simp add: evaluation_of_def)

lemma calls_of_encoder_write [simp]: "calls_of (encoder_write d w) = calls_of w"
  by (rule ext) (simp add: calls_of_def)

lemma exception_of_encoder_write [simp]: "exception_of (encoder_write d w) = exception_of w"
  by (rule ext) (simp add: exception_of_def)

lemma session_of_client_write [simp]: "session_of (client_write d w) = session_of w"
  by (rule ext) (simp add: session_of_def)

lemma evaluation_of_client_write [simp]: "evaluation_of (client_write d w) = evaluation_of w"
  by (rule ext) (simp add: evaluation_of_def)

lemma calls_of_client_write [simp]: "calls_of (client_write d w) = calls_of w"
  by (rule ext) (simp add: calls_of_def)

lemma exception_of_client_write [simp]: "exception_of (client_write d w) = exception_of w"
  by (rule ext) (simp add: exception_of_def)

lemma session_of_not_supported [simp]: "session_of (not_supported m w) = session_of w"
  by (rule ext) (simp add: session_of_def)

lemma evaluation_of_not_supported [simp]: "evaluation_of (not_supported m w) = evaluation_of w"
  by (rule ext) (simp add: evaluation_of_def)

lemma calls_of_not_supported [simp]: "calls_of (not_supported m w) = calls_of w"
  by (rule ext) (simp add: calls_of_def)

lemma exception_of_not_supported [simp]: "exception_of (not_supported m w) = exception_of w"
  by (rule ext) (simp add: exception_of_def)

lemma evaluation_of_set_handler [simp]: "evaluation_of (set_handler s i h w) = evaluation_of w"
  by (rule ext) (simp add: evaluation_of_def)

lemma calls_of_set_handler [simp]: "calls_of (set_handler s i h w) = calls_of w"
  by (rule ext) (simp add: calls_of_def)

lemma exception_of_set_handler [simp]: "exception_of (set_handler s i h w) = exception_of w"
  by (rule ext) (simp add: exception_of_def)

lemma evaluation_of_delete_handler [simp]: "evaluation_of (delete_handler s i w) = evaluation_of w"
  by (rule ext) (simp add: evaluation_of_def)

lemma calls_of_delete_handler [simp]: "calls_of (delete_handler s i w) = calls_of w"
  by (rule ext) (simp add: calls_of_def)

lemma exception_of_delete_handler [simp]: "exception_of (delete_handler s i w) = exception_of w"
  by (rule ext) (simp add: exception_of_def)

lemma evaluation_of_addRunningID [simp]: "evaluation_of (addRunningID s i w) = evaluation_of w"
  by (rule ext) (simp add: evaluation_of_def)

lemma calls_of_addRunningID [simp]: "calls_of (addRunningID s i w) = calls_of w"
  by (rule ext) (simp add: calls_of_def)

lemma exception_of_addRunningID [simp]: "exception_of (addRunningID s i w) = exception_of w"
  by (rule ext) (simp add: exception_of_def)

lemma session_of_add [simp]: "session_of (add e w) = session_of w"
  by (rule ext) (simp add: session_of_def)

lemma evaluation_of_add [simp]: "evaluation_of (add e w) = evaluation_of w"
  by (rule ext) (simp add: evaluation_of_def)

lemma calls_of_add [simp]: "calls_of (add e w) = calls_of w"
  by (rule ext) (simp add: calls_of_def)

lemma exception_of_add [simp]: "exception_of (add e w) = exception_of w"
  by (rule ext) (simp add: exception_of_def)

lemma session_of_remove [simp]: "session_of (remove e w) = session_of w"
  by (rule ext) (simp add: session_of_def)

lemma evaluation_of_remove [simp]: "evaluation_of (remove e w) = evaluation_of w"
  by (rule ext) (simp add: evaluation_of_def)

lemma calls_of_remove [simp]: "calls_of (remove e w) = calls_of w"
  by (rule ext) (simp add: calls_of_def)

lemma exception_of_remove [simp]: "exception_of (remove e w) = exception_of w"
  by (rule ext) (simp add: exception_of_def)

lemma session_of_new_promise [simp]: "session_of (snd (new_promise w)) = session_of w"
  by (rule ext) (simp add: session_of_def)

lemma evaluation_of_new_promise [simp]: "evaluation_of (snd (new_promise w)) = evaluation_of w"
  by (rule ext) (simp add: evaluation_of_def)

lemma exception_of_new_promise [simp]: "exception_of (snd (new_promise w)) = exception_of w"
  by (rule ext) (simp add: exception_of_def)

lemma session_of_nextId [simp]: "session_of (snd (nextId w)) = session_of w"
  by (rule ext) (simp add: session_of_def)

lemma evaluation_of_nextId [simp]: "evaluation_of (snd (nextId w)) = evaluation_of w"
  by (rule ext) (simp add: evaluation_of_def)

lemma calls_of_nextId [simp]: "calls_of (snd (nextId w)) = calls_of w"
  by (rule ext) (simp add: calls_of_def)

lemma exception_of_nextId [simp]: "exception_of (snd (nextId w)) = exception_of w"
  by (rule ext) (simp add: exception_of_def)

lemma session_of_doResolve [simp]: "session_of (doResolve e r w) = session_of w"
  by (rule ext) (simp add: session_of_def)

lemma session_of_doReject [simp]: "session_of (doReject e r w) = session_of w"
  by (rule ext) (simp add: session_of_def)

lemma session_of_react [simp]: "session_of (react r s w) = session_of w"
  by (rule ext) (simp add: session_of_def)

lemma session_of_settle_promise [simp]: "session_of (settle_promise p s w) = session_of w"
  by (rule ext) (simp add: session_of_def)

lemma session_of_chain [simp]: "session_of (chain p r w) = session_of w"
  by (rule ext) (simp add: session_of_def)

lemma session_of_setHandlers [simp]: "session_of (setHandlers e p q w) = session_of w"
  by (rule ext) (simp add: session_of_def)

lemma calls_of_setHandlers [simp]: "calls_of (setHandlers e p q w) = calls_of w"
  by (rule ext) (simp add: calls_of_def)

lemma session_of_out [simp]: "session_of (out e m w) = session_of w"
  by (rule ext) (simp add: session_of_def)

lemma calls_of_out [simp]: "calls_of (out e m w) = calls_of w"
  by (rule ext) (simp add: calls_of_def)

lemma session_of_err [simp]: "session_of (err e m w) = session_of w"
  by (rule ext) (simp add: session_of_def)

lemma calls_of_err [simp]: "calls_of (err e m w) = calls_of w"
  by (rule ext) (simp add: calls_of_def)


subsection \<open>The objects a step changes\<close>

lemma session_store_update_session:
  "session_store (update_session s f w) t
     = (if t = s then map_option f (session_store w s) else session_store w t)"
  by (simp add: update_session_def split: option.splits)

lemma session_of_update_session:
  "session_of (update_session s f w) t
     = (if t = s \<and> session_store w s \<noteq> None then f (session_of w s) else session_of w t)"
  by (auto simp: session_of_def update_session_def split: option.splits)

lemma evaluation_store_update_evaluation:
  "evaluation_store (update_evaluation e f w) t
     = (if t = e then map_option f (evaluation_store w e) else evaluation_store w t)"
  by (simp add: update_evaluation_def split: option.splits)

lemma evaluation_of_update_evaluation:
  "evaluation_of (update_evaluation e f w) t
     = (if t = e \<and> evaluation_store w e \<noteq> None then f (evaluation_of w e) else evaluation_of w t)"
  by (auto simp: evaluation_of_def update_evaluation_def split: option.splits)

lemma promise_store_call_settle:
  "promise_store (call_settle p s w) q
     = (if q = p then map_option (\<lambda>pr. pr\<lparr>calls := calls pr @ [s]\<rparr>) (promise_store w p)
        else promise_store w q)"
  by (simp add: call_settle_def split: option.splits)

lemma calls_of_call_settle:
  "calls_of (call_settle p s w) q
     = (if q = p \<and> promise_store w p \<noteq> None then calls_of w p @ [s] else calls_of w q)"
  by (auto simp: calls_of_def call_settle_def split: option.splits)

lemma effects_emit [simp]: "effects (emit x w) = effects w @ [x]"
  by (simp add: emit_def)

lemma effects_log [simp]: "effects (log x d w) = effects w @ [Log x d]"
  by (simp add: log_def)

lemma effects_not_supported [simp]:
  "effects (not_supported m w) = effects w @ [Log (LogRequest m) ClientToServerNotSupported]"
  by (simp add: not_supported_def)

lemma effects_client_write [simp]:
  "effects (client_write d w) = effects w @ [Log (LogRequest d) ClientToServer]"
  by (simp add: client_write_def)

lemma next_ref_new_promise [simp]: "next_ref (snd (new_promise w)) = Suc (next_ref w)"
  by (simp add: new_promise_def)

lemma fst_new_promise [simp]: "fst (new_promise w) = next_ref w"
  by (simp add: new_promise_def)

lemma promise_store_new_promise:
  "promise_store (snd (new_promise w)) q
     = (if q = next_ref w then Some \<lparr>calls = [], reaction = None\<rparr> else promise_store w q)"
  by (simp add: new_promise_def)

lemma calls_of_new_promise:
  "calls_of (snd (new_promise w)) q = (if q = next_ref w then [] else calls_of w q)"
  by (simp add: calls_of_def new_promise_def)

subsection \<open>The default handler and the constructor of a session\<close>

lemma handlers_addRunningID:
  "messageHandlers (session_of (addRunningID s i w) t) = messageHandlers (session_of w t)"
  by (simp add: addRunningID_def session_of_update_session split: option.splits)

lemma handlers_defaultMessageHandler:
  "messageHandlers (session_of (defaultMessageHandler s d w) t) = messageHandlers (session_of w t)"
  by (simp add: defaultMessageHandler_def Let_def handlers_addRunningID session_of_update_session)

lemma promise_store_defaultMessageHandler [simp]:
  "promise_store (defaultMessageHandler s d w) = promise_store w"
  by (simp add: defaultMessageHandler_def Let_def)

lemma the_client_defaultMessageHandler [simp]:
  "the_client (defaultMessageHandler s d w) = the_client w"
  by (simp add: defaultMessageHandler_def Let_def)

lemma ids_defaultMessageHandler [simp]:
  "cloneId (defaultMessageHandler s d w) = cloneId w"
  "describeId (defaultMessageHandler s d w) = describeId w"
  by (simp_all add: defaultMessageHandler_def Let_def)

lemma create_promise_defaultMessageHandler [simp]:
  "create_promise (defaultMessageHandler s d w) = create_promise w"
  by (simp add: defaultMessageHandler_def Let_def)

lemma session_of_new_session:
  "session_of (snd (new_session sid w)) t
     = (if t = next_ref w then no_session\<lparr>sessionId := sid\<rparr> else session_of w t)"
  by (simp add: new_session_def Let_def session_of_def update_client_def)

lemma frame_new_session [simp]:
  "promise_store (snd (new_session sid w)) = promise_store w"
  "cloneId (snd (new_session sid w)) = cloneId w"
  "describeId (snd (new_session sid w)) = describeId w"
  "create_promise (snd (new_session sid w)) = create_promise w"
  "cl_describe (the_client (snd (new_session sid w))) = cl_describe (the_client w)"
  "cl_session (the_client (snd (new_session sid w))) = cl_session (the_client w)"
  by (simp_all add: new_session_def Let_def update_client_def)

subsection \<open>Operations the server does not support\<close>

text \<open>
  Every operation that asks \<^verbatim>\<open>supports\<close> and gets a value other than
  \<^verbatim>\<open>true\<close> writes nothing; its promise is resolved with \<^verbatim>\<open>undefined\<close>, and the
  promise of \<^verbatim>\<open>interrupt\<close> is rejected.
\<close>

lemma supports_the_client:
  "cl_describe (the_client w') = cl_describe (the_client w) \<Longrightarrow> supports w' op = supports w op"
  by (simp add: supports_def)

lemma settle_fresh:
  "promise_store w p = Some \<lparr>calls = [], reaction = None\<rparr> \<Longrightarrow>
     calls_of (settle_promise p s w) p = [s] \<and> the_client (settle_promise p s w) = the_client w"
proof -
  assume a: "promise_store w p = Some \<lparr>calls = [], reaction = None\<rparr>"
  then have "calls_of w p = []" by (simp add: calls_of_def)
  then show ?thesis using a by (simp add: settle_promise_def Let_def calls_of_call_settle)
qed

lemma if_supports_unsupported:
  "supports w op = Inr b \<Longrightarrow> b \<noteq> Some True \<Longrightarrow> if_supports op p yes no w = no w"
  by (simp add: if_supports_def)

lemma if_supports_supported:
  "supports w op = Inr (Some True) \<Longrightarrow> if_supports op p yes no w = yes w"
  by (simp add: if_supports_def)

lemma gated_request_unsupported:
  assumes "supports w op = Inr b" and "b \<noteq> Some True"
  shows "skipped w (gated_request s op args h w)"
proof -
  let ?w2 = "snd (nextId (snd (new_promise w)))"
  let ?m = "the_request op (Some (fst (nextId (snd (new_promise w))))) s args ?w2"
  have s: "supports ?w2 (req_op ?m) = Inr b"
    using assms(1) by (simp add: supports_def the_request_def)
  have p: "promise_store (not_supported ?m ?w2) (next_ref w) = Some \<lparr>calls = [], reaction = None\<rparr>"
    by (simp add: promise_store_new_promise)
  have "snd (gated_request s op args h w) = settle_promise (next_ref w) (Resolve Undefined) (not_supported ?m ?w2)"
    using if_supports_unsupported [OF s assms(2)]
    by (simp add: gated_request_def send_or_skip_def split_beta Let_def)
  moreover have "fst (gated_request s op args h w) = next_ref w"
    by (simp add: gated_request_def split_beta Let_def)
  ultimately show ?thesis using settle_fresh [OF p] by (simp add: skipped_def)
qed


lemma clone_unsupported:
  assumes "supports w ''clone'' = Inr b" and "b \<noteq> Some True"
  shows "skipped w (clone s w)"
proof -
  let ?w2 = "snd (nextId (snd (new_promise w)))"
  let ?w3 = "set_handler s (Some (fst (nextId (snd (new_promise w))))) (CloneHandler (next_ref w)) ?w2"
  let ?m = "the_request ''clone'' (Some (fst (nextId (snd (new_promise w))))) s [] ?w3"
  have s: "supports ?w3 ''clone'' = Inr b"
    using assms(1) by (simp add: supports_def)
  have p: "promise_store (not_supported ?m ?w3) (next_ref w) = Some \<lparr>calls = [], reaction = None\<rparr>"
    by (simp add: promise_store_new_promise)
  have "snd (clone s w) = settle_promise (next_ref w) (Resolve Undefined) (not_supported ?m ?w3)"
    using if_supports_unsupported [OF s assms(2)]
    by (simp add: clone_def split_beta Let_def)
  moreover have "fst (clone s w) = next_ref w"
    by (simp add: clone_def split_beta Let_def)
  ultimately show ?thesis using settle_fresh [OF p] by (simp add: skipped_def)
qed

lemma clojureDocsLookup_unsupported:
  assumes "supports w ''clojuredocs-lookup'' = Inr b" and "b \<noteq> Some True"
  shows "skipped w (clojureDocsLookup s ns symbol w)"
proof -
  let ?w2 = "snd (nextId (snd (new_promise w)))"
  have s: "supports ?w2 ''clojuredocs-lookup'' = Inr b"
    using assms(1) by (simp add: supports_def)
  have p: "promise_store ?w2 (next_ref w) = Some \<lparr>calls = [], reaction = None\<rparr>"
    by (simp add: promise_store_new_promise)
  have "snd (clojureDocsLookup s ns symbol w) = settle_promise (next_ref w) (Resolve Undefined) ?w2"
    using if_supports_unsupported [OF s assms(2)]
    by (simp add: clojureDocsLookup_def split_beta Let_def)
  moreover have "fst (clojureDocsLookup s ns symbol w) = next_ref w"
    by (simp add: clojureDocsLookup_def split_beta Let_def)
  ultimately show ?thesis using settle_fresh [OF p] by (simp add: skipped_def)
qed

lemma sendDebugInput_unsupported:
  assumes "supports w ''debug-input'' = Inr b" and "b \<noteq> Some True"
  shows "skipped w (sendDebugInput s input i k w)"
proof -
  let ?w1 = "snd (new_promise w)"
  let ?m = "the_request ''debug-input'' i s [(''input'', input), (''key'', arg_of k)] ?w1"
  have s: "supports ?w1 (req_op ?m) = Inr b"
    using assms(1) by (simp add: supports_def the_request_def)
  have p: "promise_store (not_supported ?m ?w1) (next_ref w) = Some \<lparr>calls = [], reaction = None\<rparr>"
    by (simp add: promise_store_new_promise)
  have "snd (sendDebugInput s input i k w) = settle_promise (next_ref w) (Resolve Undefined) (not_supported ?m ?w1)"
    using if_supports_unsupported [OF s assms(2)]
    by (simp add: sendDebugInput_def send_or_skip_def split_beta Let_def)
  moreover have "fst (sendDebugInput s input i k w) = next_ref w"
    by (simp add: sendDebugInput_def split_beta Let_def)
  ultimately show ?thesis using settle_fresh [OF p] by (simp add: skipped_def)
qed

lemma start_evaluation_unsupported:
  assumes "supports w (req_op m) = Inr b" and "b \<noteq> Some True"
    and "promise_store w p = Some \<lparr>calls = [], reaction = None\<rparr>"
  shows "cl_written (the_client (start_evaluation s m e p d pp w)) = cl_written (the_client w)
    \<and> calls_of (start_evaluation s m e p d pp w) p = [Resolve Undefined]"
proof -
  have p: "promise_store (not_supported m w) p = Some \<lparr>calls = [], reaction = None\<rparr>"
    using assms(3) by simp
  have "start_evaluation s m e p d pp w = settle_promise p (Resolve Undefined) (not_supported m w)"
    using if_supports_unsupported [OF assms(1) assms(2)] by (simp add: start_evaluation_def)
  then show ?thesis using settle_fresh [OF p] by simp
qed

lemma createEvalOperationMessage_frame [simp]:
  "cl_describe (the_client (snd (createEvalOperationMessage s code ns opts dbg w))) = cl_describe (the_client w)"
  "cl_written (the_client (snd (createEvalOperationMessage s code ns opts dbg w))) = cl_written (the_client w)"
  "promise_store (snd (createEvalOperationMessage s code ns opts dbg w)) = promise_store w"
  "next_ref (snd (createEvalOperationMessage s code ns opts dbg w)) = next_ref w"
  by (simp_all add: createEvalOperationMessage_def split_beta Let_def split: option.splits)

lemma req_op_createEvalOperationMessage:
  "req_op (fst (createEvalOperationMessage s code ns opts dbg w)) = ''eval''
   \<or> req_op (fst (createEvalOperationMessage s code ns opts dbg w)) = ''debug-input''"
  by (simp add: createEvalOperationMessage_def the_request_def split_beta Let_def split: option.splits)

lemma eval_unsupported:
  assumes "supports w ''eval'' = Inr b" and "b \<noteq> Some True"
    and "supports w ''debug-input'' = Inr b'" and "b' \<noteq> Some True"
  shows "skipped_evaluation w (eval s code ns opts dbg w)"
proof -
  let ?c = "createEvalOperationMessage s code ns (spread_opts opts) dbg w"
  let ?w2 = "snd (new_promise (snd ?c))"
  have "\<exists>b''. supports ?w2 (req_op (fst ?c)) = Inr b'' \<and> b'' \<noteq> Some True"
    using req_op_createEvalOperationMessage [of s code ns "spread_opts opts" dbg w] assms
      supports_the_client [of ?w2 w]
    by auto
  then obtain b'' where s: "supports ?w2 (req_op (fst ?c)) = Inr b''" and n: "b'' \<noteq> Some True"
    by blast
  have p: "promise_store ?w2 (next_ref w) = Some \<lparr>calls = [], reaction = None\<rparr>"
    by (simp add: promise_store_new_promise)
  note st = start_evaluation_unsupported [OF s n p]
  show ?thesis
    using st
    by (simp add: skipped_evaluation_def eval_def split_beta Let_def calls_of_def evaluation_of_def
        new_evaluation_def no_evaluation_def)
qed

lemma loadFile_unsupported:
  assumes "supports w ''load-file'' = Inr b" and "b \<noteq> Some True"
  shows "skipped_evaluation w (loadFile s file opts w)"
proof -
  let ?w2 = "snd (new_promise (snd (nextId w)))"
  let ?m = "the_request ''load-file'' (Some (fst (nextId w))) s
              (spread_load_opts opts @ [(''file'', AStr file), (''file-name'', arg_of (eo_fileName opts)),
                 (''file-path'', arg_of (eo_filePath opts))]) ?w2"
  have s: "supports ?w2 (req_op ?m) = Inr b"
    using assms(1) by (simp add: supports_def the_request_def)
  have p: "promise_store ?w2 (next_ref w) = Some \<lparr>calls = [], reaction = None\<rparr>"
    by (simp add: promise_store_new_promise)
  note st = start_evaluation_unsupported [OF s assms(2) p]
  show ?thesis
    using st
    by (simp add: skipped_evaluation_def loadFile_def split_beta Let_def calls_of_def evaluation_of_def
        new_evaluation_def no_evaluation_def)
qed

lemma interrupt_unsupported:
  assumes "supports w ''interrupt'' = Inr b" and "b \<noteq> Some True"
  shows "cl_written (the_client (snd (interrupt s i w))) = cl_written (the_client w)
    \<and> calls_of (snd (interrupt s i w)) (fst (interrupt s i w))
        = [Reject (Str ''interrupt not supported by the nREPL server'')]"
proof -
  let ?index = "case i of None \<Rightarrow> -1 | Some x \<Rightarrow> indexOf (runningIds (session_of w s)) x"
  let ?w1 = "if ?index > -1 then update_session s (\<lambda>x. x\<lparr>runningIds := splice1 (runningIds x) ?index\<rparr>) w else w"
  let ?w3 = "snd (new_promise (snd (nextId ?w1)))"
  let ?m = "the_request ''interrupt'' (Some (fst (nextId ?w1))) s [(''interrupt-id'', arg_of i)] ?w3"
  have c: "the_client ?w1 = the_client w" and n: "next_ref ?w1 = next_ref w" by simp_all
  have s: "supports ?w3 ''interrupt'' = Inr b"
    using assms(1) c by (simp add: supports_def)
  have p: "promise_store (not_supported ?m ?w3) (next_ref ?w1) = Some \<lparr>calls = [], reaction = None\<rparr>"
    by (simp add: promise_store_new_promise)
  have "snd (interrupt s i w) = settle_promise (next_ref ?w1)
          (Reject (Str ''interrupt not supported by the nREPL server'')) (not_supported ?m ?w3)"
    using if_supports_unsupported [OF s assms(2)]
    by (simp add: interrupt_def split_beta Let_def)
  moreover have "fst (interrupt s i w) = next_ref ?w1"
    by (simp add: interrupt_def split_beta Let_def)
  ultimately show ?thesis using settle_fresh [OF p] c by simp
qed

lemma stdin_unsupported:
  assumes "supports w ''stdin'' = Inr b" and "b \<noteq> Some True"
  shows "\<exists>w'. stdin s message w = Returned () w' \<and> cl_written (the_client w') = cl_written (the_client w)"
  using assms by (simp add: stdin_def Let_def)

lemma initDebugger_unsupported:
  assumes "supports w ''init-debugger'' = Inr b" and "b \<noteq> Some True"
  shows "\<exists>w'. initDebugger s w = Returned () w' \<and> cl_written (the_client w') = cl_written (the_client w)"
proof -
  have "supports (snd (nextId w)) ''init-debugger'' = Inr b"
    using assms(1) by (simp add: supports_def)
  then show ?thesis using assms(2) by (simp add: initDebugger_def split_beta Let_def)
qed

lemma close_unsupported:
  assumes "supports w ''close'' = Inr b" and "b \<noteq> Some True"
  shows "cl_written (the_client (close s w)) = cl_written (the_client w)"
  using assms by (simp add: close_def Let_def)

subsection \<open>Status tags\<close>

lemma join_comma_has_comma: "CHR '','' \<in> set (join_comma (x # y # ys))"
  by simp

lemma join_comma_done: "join_comma tags = ''done'' \<longleftrightarrow> tags = [''done'']"
proof (cases tags)
  case Nil
  then show ?thesis by simp
next
  case (Cons x xs)
  show ?thesis
  proof (cases xs)
    case Nil
    then show ?thesis using Cons by simp
  next
    case (Cons y ys)
    have "CHR '','' \<in> set (join_comma (x # y # ys))" by (rule join_comma_has_comma)
    moreover have "CHR '','' \<notin> set ''done''" by simp
    ultimately have "join_comma (x # y # ys) \<noteq> ''done''" by metis
    then show ?thesis using Cons \<open>tags = x # xs\<close> by simp
  qed
qed

lemma status_loosely_equals_done:
  "status_loosely_equals m ''done'' \<longleftrightarrow> msg_status m = Some [''done'']"
  by (simp add: status_loosely_equals_def join_comma_done split: option.splits)

lemma hasStatus_member: "hasStatus m t \<longleftrightarrow> (\<exists>tags. msg_status m = Some tags \<and> t \<in> set tags)"
  by (simp add: hasStatus_def indexOf_present split: option.splits)


subsection \<open>The statements of onMessage before the terminal test\<close>

lemma flags_other_fields [simp]:
  "flags (x\<lparr>ev_outPut := a\<rparr>) = flags x"
  "flags (x\<lparr>ev_errorOutput := a\<rparr>) = flags x"
  "flags (x\<lparr>ev_ns := a\<rparr>) = flags x"
  "flags (x\<lparr>ev_exception := a\<rparr>) = flags x"
  "flags (x\<lparr>ev_stacktrace := b\<rparr>) = flags x"
  "flags (x\<lparr>ev_msgs := c\<rparr>) = flags x"
  "flags (x\<lparr>ev_msgValue := a\<rparr>) = flags x"
  "flags (x\<lparr>ev_pprintOut := a\<rparr>) = flags x"
  by (simp_all add: flags_def)

lemma flags_eq:
  "flags x = flags y \<longleftrightarrow>
     (ev_id x = ev_id y \<and> ev_session x = ev_session y \<and> ev_promise x = ev_promise y
      \<and> ev_interrupted x = ev_interrupted y \<and> ev_finished x = ev_finished y
      \<and> ev_running x = ev_running y \<and> ev_resolve x = ev_resolve y \<and> ev_reject x = ev_reject y)"
  by (simp add: flags_def)

lemma stored_update_evaluation [simp]:
  "(evaluation_store (update_evaluation e f w) t = None) = (evaluation_store w t = None)"
  by (simp add: evaluation_store_update_evaluation)

lemma flags_update_evaluation:
  "(\<And>x. flags (f x) = flags x) \<Longrightarrow>
     flags (evaluation_of (update_evaluation e f w) t) = flags (evaluation_of w t)"
  by (simp add: evaluation_of_update_evaluation)

lemma stored_out [simp]: "(evaluation_store (out e m w) t = None) = (evaluation_store w t = None)"
  by (simp add: out_def Let_def split: option.splits)

lemma stored_err [simp]: "(evaluation_store (err e m w) t = None) = (evaluation_store w t = None)"
  by (simp add: err_def Let_def split: option.splits)

lemma flags_out [simp]: "flags (evaluation_of (out e m w) t) = flags (evaluation_of w t)"
  by (simp add: out_def Let_def flags_update_evaluation split: option.splits)

lemma flags_err [simp]: "flags (evaluation_of (err e m w) t) = flags (evaluation_of w t)"
  by (simp add: err_def Let_def flags_update_evaluation split: option.splits)

lemma msgValue_out [simp]:
  "ev_msgValue (evaluation_of (out e m w) t) = ev_msgValue (evaluation_of w t)"
  by (simp add: out_def Let_def evaluation_of_update_evaluation split: option.splits)

lemma msgValue_err [simp]:
  "ev_msgValue (evaluation_of (err e m w) t) = ev_msgValue (evaluation_of w t)"
  by (simp add: err_def Let_def evaluation_of_update_evaluation split: option.splits)

lemma frame_receive_fields [simp]:
  "the_client (receive_fields e m w) = the_client w"
  "session_store (receive_fields e m w) = session_store w"
  "promise_store (receive_fields e m w) = promise_store w"
  "next_ref (receive_fields e m w) = next_ref w"
  "Evaluation_Instances (receive_fields e m w) = Evaluation_Instances w"
  "DEBUG_QUIT_VALUE (receive_fields e m w) = DEBUG_QUIT_VALUE w"
  by (simp_all add: receive_fields_def Let_def)

lemma stored_receive_fields [simp]:
  "(evaluation_store (receive_fields e m w) t = None) = (evaluation_store w t = None)"
  by (simp add: receive_fields_def Let_def)

lemma flags_receive_fields [simp]:
  "flags (evaluation_of (receive_fields e m w) t) = flags (evaluation_of w t)"
  by (simp add: receive_fields_def Let_def flags_update_evaluation)

lemma msgValue_receive_fields [simp]:
  "ev_msgValue (evaluation_of (receive_fields e m w) t) = ev_msgValue (evaluation_of w t)"
  by (simp add: receive_fields_def Let_def evaluation_of_update_evaluation)

lemma receive_causes_returns:
  "causes_ok m \<Longrightarrow> receive_causes e m w = Returned () (world_of (receive_causes e m w))"
  by (auto simp: receive_causes_def causes_ok_def world_of_def split: option.splits list.splits)

lemma frame_receive_causes [simp]:
  "the_client (world_of (receive_causes e m w)) = the_client w"
  "session_store (world_of (receive_causes e m w)) = session_store w"
  "promise_store (world_of (receive_causes e m w)) = promise_store w"
  "next_ref (world_of (receive_causes e m w)) = next_ref w"
  "Evaluation_Instances (world_of (receive_causes e m w)) = Evaluation_Instances w"
  "DEBUG_QUIT_VALUE (world_of (receive_causes e m w)) = DEBUG_QUIT_VALUE w"
  by (simp_all add: receive_causes_def world_of_def split: option.splits list.splits)

lemma stored_receive_causes [simp]:
  "(evaluation_store (world_of (receive_causes e m w)) t = None) = (evaluation_store w t = None)"
  by (simp add: receive_causes_def world_of_def split: option.splits list.splits)

lemma flags_receive_causes [simp]:
  "flags (evaluation_of (world_of (receive_causes e m w)) t) = flags (evaluation_of w t)"
  by (simp add: receive_causes_def world_of_def flags_update_evaluation
      split: option.splits list.splits)

lemma msgValue_receive_causes [simp]:
  "ev_msgValue (evaluation_of (world_of (receive_causes e m w)) t) = ev_msgValue (evaluation_of w t)"
  by (simp add: receive_causes_def world_of_def evaluation_of_update_evaluation
      split: option.splits list.splits)

lemma frame_receive_value [simp]:
  "the_client (receive_value e m w) = the_client w"
  "session_store (receive_value e m w) = session_store w"
  "promise_store (receive_value e m w) = promise_store w"
  "next_ref (receive_value e m w) = next_ref w"
  "Evaluation_Instances (receive_value e m w) = Evaluation_Instances w"
  "DEBUG_QUIT_VALUE (receive_value e m w) = DEBUG_QUIT_VALUE w"
  "effects (receive_value e m w) = effects w"
  by (simp_all add: receive_value_def Let_def)

lemma stored_receive_value [simp]:
  "(evaluation_store (receive_value e m w) t = None) = (evaluation_store w t = None)"
  by (simp add: receive_value_def Let_def)

lemma flags_receive_value [simp]:
  "flags (evaluation_of (receive_value e m w) t) = flags (evaluation_of w t)"
  by (simp add: receive_value_def Let_def flags_update_evaluation)

lemma msgValue_receive_value:
  "evaluation_store w e \<noteq> None \<Longrightarrow>
   ev_msgValue (evaluation_of (receive_value e m w) e)
     = (if msg_value m \<noteq> None \<or> msg_debug_value m \<noteq> None
        then (if truthy (msg_value m) then msg_value m else msg_debug_value m)
        else ev_msgValue (evaluation_of w e))"
  by (simp add: receive_value_def Let_def evaluation_of_update_evaluation)

lemma frame_receive_need_input [simp]:
  "the_client (receive_need_input e m w) = the_client w"
  "session_store (receive_need_input e m w) = session_store w"
  "promise_store (receive_need_input e m w) = promise_store w"
  "evaluation_store (receive_need_input e m w) = evaluation_store w"
  "next_ref (receive_need_input e m w) = next_ref w"
  "Evaluation_Instances (receive_need_input e m w) = Evaluation_Instances w"
  "DEBUG_QUIT_VALUE (receive_need_input e m w) = DEBUG_QUIT_VALUE w"
  by (simp_all add: receive_need_input_def split: option.splits)

lemma evaluation_of_receive_need_input [simp]:
  "evaluation_of (receive_need_input e m w) = evaluation_of w"
  by (rule ext) (simp add: evaluation_of_def)

subsection \<open>Resolving, rejecting and requesting\<close>

lemma evaluation_of_Some: "evaluation_store w e = Some x \<Longrightarrow> evaluation_of w e = x"
  by (simp add: evaluation_of_def)

lemma evaluation_of_doResolve:
  "evaluation_of (doResolve e r w) t
     = (if t = e \<and> evaluation_store w e \<noteq> None
        then (evaluation_of w e)\<lparr>ev_running := False, ev_finished := True\<rparr>
        else evaluation_of w t)"
  by (cases "evaluation_store w e")
    (auto simp: doResolve_def evaluation_of_update_evaluation split: option.splits)

lemma evaluation_of_doReject:
  "evaluation_of (doReject e r w) t
     = (if t = e \<and> evaluation_store w e \<noteq> None
        then (evaluation_of w e)\<lparr>ev_running := False, ev_finished := True\<rparr>
        else evaluation_of w t)"
  by (cases "evaluation_store w e")
    (auto simp: doReject_def evaluation_of_update_evaluation split: option.splits)

lemma stored_doResolve [simp]:
  "(evaluation_store (doResolve e r w) t = None) = (evaluation_store w t = None)"
  by (simp add: doResolve_def split: option.splits)

lemma stored_doReject [simp]:
  "(evaluation_store (doReject e r w) t = None) = (evaluation_store w t = None)"
  by (simp add: doReject_def split: option.splits)

lemma calls_of_doResolve:
  "calls_of (doResolve e r w) q
     = (if evaluation_store w e \<noteq> None \<and> ev_resolve (evaluation_of w e) = Some q
           \<and> \<not> ev_finished (evaluation_of w e) \<and> promise_store w q \<noteq> None
        then calls_of w q @ [Resolve r] else calls_of w q)"
  by (cases "evaluation_store w e")
    (auto simp: doResolve_def calls_of_call_settle evaluation_of_Some split: option.splits)

lemma calls_of_doReject:
  "calls_of (doReject e r w) q
     = (if evaluation_store w e \<noteq> None \<and> ev_reject (evaluation_of w e) = Some q
           \<and> \<not> ev_finished (evaluation_of w e) \<and> promise_store w q \<noteq> None
        then calls_of w q @ [Reject r] else calls_of w q)"
  by (cases "evaluation_store w e")
    (auto simp: doReject_def calls_of_call_settle evaluation_of_Some split: option.splits)

lemma promise_stored_call_settle [simp]:
  "(promise_store (call_settle p s w) q = None) = (promise_store w q = None)"
  by (simp add: promise_store_call_settle)

lemma promise_stored_doResolve [simp]:
  "(promise_store (doResolve e r w) q = None) = (promise_store w q = None)"
  by (simp add: doResolve_def split: option.splits)

lemma promise_stored_doReject [simp]:
  "(promise_store (doReject e r w) q = None) = (promise_store w q = None)"
  by (simp add: doReject_def split: option.splits)

lemma reaction_call_settle [simp]:
  "map_option reaction (promise_store (call_settle p s w) q) = map_option reaction (promise_store w q)"
  by (cases "promise_store w p") (simp_all add: promise_store_call_settle)

text \<open>A request for a supported operation.\<close>

lemma gated_request_supported:
  assumes "supports w op = Inr (Some True)"
  shows "gated_request s op args h w
     = (next_ref w,
        client_write (the_request op (Some (toString (js_increment (cl_nextId (the_client w))))) s args w)
          (set_handler s (Some (toString (js_increment (cl_nextId (the_client w))))) (h (next_ref w))
             (snd (nextId (snd (new_promise w))))))"
proof -
  let ?w2 = "snd (nextId (snd (new_promise w)))"
  have s: "supports ?w2 op = Inr (Some True)"
    using assms by (simp add: supports_def)
  have r: "the_request op i s args ?w2 = the_request op i s args w" for i
    by (simp add: the_request_def)
  show ?thesis
    using if_supports_supported [OF s]
    by (simp add: gated_request_def send_or_skip_def split_beta Let_def the_request_def)
qed

subsection \<open>The terminal message\<close>

lemma fetch_stacktrace_supported:
  assumes "supports w ''stacktrace'' = Inr (Some True)"
  shows "fetch_stacktrace e w
     = (client_write (stacktrace_request w (ev_session (evaluation_of w e)))
          (set_handler (ev_session (evaluation_of w e))
             (Some (toString (js_increment (cl_nextId (the_client w))))) (ResultHandler (next_ref w))
             (snd (nextId (snd (new_promise w))))))
       \<lparr>promise_store := (promise_store w)
          (next_ref w \<mapsto> \<lparr>calls = [], reaction = Some (StacktraceFetched e)\<rparr>)\<rparr>"
proof -
  let ?s = "ev_session (evaluation_of w e)"
  let ?W = "client_write (stacktrace_request w ?s)
          (set_handler ?s (Some (toString (js_increment (cl_nextId (the_client w)))))
             (ResultHandler (next_ref w)) (snd (nextId (snd (new_promise w)))))"
  have st: "stacktrace ?s w = (next_ref w, ?W)"
    using gated_request_supported [OF assms, of ?s "[]" ResultHandler]
    by (simp add: stacktrace_def stacktrace_request_def)
  have ps: "promise_store ?W = (promise_store w)(next_ref w \<mapsto> \<lparr>calls = [], reaction = None\<rparr>)"
    by (simp add: new_promise_def)
  have "chain (next_ref w) (StacktraceFetched e) ?W
      = ?W\<lparr>promise_store := (promise_store ?W)
            (next_ref w \<mapsto> \<lparr>calls = [], reaction = Some (StacktraceFetched e)\<rparr>)\<rparr>"
    by (simp add: chain_def new_promise_def)
  then show ?thesis by (simp add: fetch_stacktrace_def st new_promise_def)
qed


lemma fetch_stacktrace_fields:
  assumes "supports w ''stacktrace'' = Inr (Some True)"
  shows "evaluation_store (fetch_stacktrace e w) = evaluation_store w"
    and "Evaluation_Instances (fetch_stacktrace e w) = Evaluation_Instances w"
    and "next_ref (fetch_stacktrace e w) = Suc (next_ref w)"
    and "cl_describe (the_client (fetch_stacktrace e w)) = cl_describe (the_client w)"
    and "cl_written (the_client (fetch_stacktrace e w))
           = cl_written (the_client w) @ [stacktrace_request w (ev_session (evaluation_of w e))]"
    and "promise_store (fetch_stacktrace e w)
           = (promise_store w)(next_ref w \<mapsto> \<lparr>calls = [], reaction = Some (StacktraceFetched e)\<rparr>)"
    and "session_store (fetch_stacktrace e w)
           = session_store (set_handler (ev_session (evaluation_of w e))
               (Some (toString (js_increment (cl_nextId (the_client w))))) (ResultHandler (next_ref w)) w)"
    and "DEBUG_QUIT_VALUE (fetch_stacktrace e w) = DEBUG_QUIT_VALUE w"
  unfolding fetch_stacktrace_supported [OF assms]
  by (simp_all add: set_handler_def update_session_def new_promise_def nextId_def update_client_def
      Let_def split: option.splits)

lemma supports_describe_ok: "describe_ok w \<Longrightarrow> \<exists>b. supports w op = Inr (Some b) \<or> supports w op = Inr None"
  by (auto simp: describe_ok_def supports_def split: option.splits)

lemma supports_cases:
  assumes "describe_ok w"
  obtains (yes) "supports w op = Inr (Some True)"
    | (no) b where "supports w op = Inr b" "b \<noteq> Some True"
proof -
  from supports_describe_ok [OF assms, of op]
  obtain b where "supports w op = Inr (Some b) \<or> supports w op = Inr None" by blast
  then show thesis using yes no by (cases b) auto
qed

lemma tracked_doResolve:
  assumes "tracked w e p" and "handled w e p"
  shows "tracked (doResolve e v w) e p \<and> ev_finished (evaluation_of (doResolve e v w) e)
    \<and> calls_of (doResolve e v w) p
        = (if ev_finished (evaluation_of w e) then calls_of w p else [Resolve v])"
  using assms
  by (auto simp: tracked_def handled_def evaluation_of_doResolve calls_of_doResolve describe_ok_def)

lemma tracked_doReject:
  assumes "tracked w e p" and "handled w e p"
  shows "tracked (doReject e v w) e p \<and> ev_finished (evaluation_of (doReject e v w) e)
    \<and> calls_of (doReject e v w) p
        = (if ev_finished (evaluation_of w e) then calls_of w p else [Reject v])"
  using assms
  by (auto simp: tracked_def handled_def evaluation_of_doReject calls_of_doReject describe_ok_def)

lemma tracked_err:
  assumes "tracked w e p"
  shows "tracked (err e' t w) e p"
  using assms flags_err [of e' t w e, unfolded flags_eq]
  by (simp add: tracked_def describe_ok_def)

lemma handled_err:
  "handled (err e' t w) e p = handled w e p"
  using flags_err [of e' t w e, unfolded flags_eq] by (simp add: handled_def)

lemma finished_err:
  "ev_finished (evaluation_of (err e' t w) e) = ev_finished (evaluation_of w e)"
  using flags_err [of e' t w e, unfolded flags_eq] by simp

lemma tracked_resolve_value:
  assumes t: "tracked w e p" and h: "handled w e p"
  shows "tracked (resolve_value e pp w) e p \<and> ev_finished (evaluation_of (resolve_value e pp w) e)
    \<and> length (calls_of (resolve_value e pp w) p) = 1
    \<and> Evaluation_Instances (resolve_value e pp w) = Evaluation_Instances w"
proof -
  have one: "length (if ev_finished (evaluation_of w e) then calls_of w p else [x]) = 1" for x :: settle
    using t by (simp add: tracked_def)
  have a: "tracked (doResolve e v w) e p \<and> ev_finished (evaluation_of (doResolve e v w) e)
      \<and> length (calls_of (doResolve e v w) p) = 1
      \<and> Evaluation_Instances (doResolve e v w) = Evaluation_Instances w" for v
    using tracked_doResolve [OF t h, of v] one by simp
  have b: "tracked (doReject e v w) e p \<and> ev_finished (evaluation_of (doReject e v w) e)
      \<and> length (calls_of (doReject e v w) p) = 1
      \<and> Evaluation_Instances (doReject e v w) = Evaluation_Instances w" for v
    using tracked_doReject [OF t h, of v] one by simp
  have one': "length (if ev_finished (evaluation_of (err e x w) e) then calls_of (err e x w) p else [y]) = 1"
    for x and y :: settle
    using t by (simp add: tracked_def finished_err)
  have c: "tracked (doResolve e v (err e x w)) e p
      \<and> ev_finished (evaluation_of (doResolve e v (err e x w)) e)
      \<and> length (calls_of (doResolve e v (err e x w)) p) = 1
      \<and> Evaluation_Instances (doResolve e v (err e x w)) = Evaluation_Instances w" for v x
    using tracked_doResolve [OF tracked_err [OF t, of e x], of v] h one' [of x "Resolve v"]
    by (simp add: handled_err)
  show ?thesis
    unfolding resolve_value_def Let_def using a b c by simp
qed

subsection \<open>The world before the terminal test\<close>

lemma Evaluation_Instances_add:
  "Evaluation_Instances (add e w)
     = (if e \<in> set (Evaluation_Instances w) then Evaluation_Instances w
        else Evaluation_Instances w @ [e])"
  by (simp add: add_def)

lemma frame_received [simp]:
  "the_client (received e m w) = the_client w"
  "session_store (received e m w) = session_store w"
  "promise_store (received e m w) = promise_store w"
  "next_ref (received e m w) = next_ref w"
  "Evaluation_Instances (received e m w) = Evaluation_Instances (add e w)"
  "DEBUG_QUIT_VALUE (received e m w) = DEBUG_QUIT_VALUE w"
  by (simp_all add: received_def Evaluation_Instances_add)

lemma calls_of_received [simp]: "calls_of (received e m w) = calls_of w"
  by (rule ext) (simp add: calls_of_def)

lemma stored_received [simp]:
  "(evaluation_store (received e m w) t = None) = (evaluation_store w t = None)"
  by (simp add: received_def)

lemma flags_received:
  "flags (evaluation_of (received e m w) t)
     = flags (evaluation_of (update_evaluation e (\<lambda>x. x\<lparr>ev_running := True\<rparr>) w) t)"
  by (simp add: received_def)

lemma distinct_add: "distinct (Evaluation_Instances w) \<Longrightarrow> distinct (Evaluation_Instances (add e w))"
  by (simp add: add_def)

lemma distinct_remove: "distinct (Evaluation_Instances w) \<Longrightarrow> distinct (Evaluation_Instances (remove e w))"
  by (simp add: remove_def Let_def indexOf_present splice1_indexOf)

lemma removed: "distinct (Evaluation_Instances w) \<Longrightarrow> e \<notin> set (Evaluation_Instances (remove e w))"
  by (auto simp: remove_def Let_def indexOf_present splice1_indexOf)

lemma tracked_received:
  assumes "tracked w e p"
  shows "tracked (received e m w) e p"
  using assms flags_received [of e m w e, unfolded flags_eq]
  by (simp add: tracked_def describe_ok_def distinct_add evaluation_of_update_evaluation)

lemma handled_received:
  assumes "handled w e p"
  shows "handled (received e m w) e p"
  using assms flags_received [of e m w e, unfolded flags_eq]
  by (simp add: handled_def evaluation_of_update_evaluation)

lemma finished_received:
  "ev_finished (evaluation_of (received e m w) e) = ev_finished (evaluation_of w e)"
  using flags_received [of e m w e, unfolded flags_eq]
  by (simp add: evaluation_of_update_evaluation)

lemma tracked_remove:
  assumes "tracked w e p"
  shows "tracked (remove e' w) e p"
  using assms by (simp add: tracked_def describe_ok_def distinct_remove)

lemma handled_remove [simp]: "handled (remove e' w) e p = handled w e p"
  by (simp add: handled_def)

lemma onMessage_received:
  "causes_ok m \<Longrightarrow> onMessage e m pp w = receive_terminal e m pp (received e m w)"
proof -
  assume c: "causes_ok m"
  let ?w2 = "receive_fields e m (add e (update_evaluation e (\<lambda>x. x\<lparr>ev_running := True\<rparr>) w))"
  have r: "receive_causes e m ?w2 = Returned () (world_of (receive_causes e m ?w2))"
    using receive_causes_returns [OF c] .
  have "onMessage e m pp w
      = (case receive_causes e m ?w2 of
           Threw x w3 \<Rightarrow> Threw x w3
         | Returned u w3 \<Rightarrow>
             receive_terminal e m pp (receive_need_input e m (receive_value e m w3)))"
    by (simp add: onMessage_def Let_def)
  also have "\<dots> = receive_terminal e m pp
      (receive_need_input e m (receive_value e m (world_of (receive_causes e m ?w2))))"
    by (subst r) simp
  finally show ?thesis by (simp add: received_def)
qed

subsection \<open>The terminal test\<close>

lemma failing_remove [simp]: "failing (remove e' w) e = failing w e"
  by (simp add: failing_def)

lemma supports_remove [simp]: "supports (remove e w) op = supports w op"
  by (simp add: supports_def)

lemma receive_terminal_not_terminal:
  "\<not> terminal m \<Longrightarrow> receive_terminal e m pp w = Returned False w"
  by (simp add: receive_terminal_def terminal_def)

lemma receive_terminal_fetch:
  "terminal m \<Longrightarrow> failing w e \<Longrightarrow> supports w ''stacktrace'' = Inr (Some True) \<Longrightarrow>
     receive_terminal e m pp w = Returned True (fetch_stacktrace e (remove e w))"
  by (simp add: receive_terminal_def terminal_def failing_def Let_def)

lemma receive_terminal_reject:
  "terminal m \<Longrightarrow> failing w e \<Longrightarrow> supports w ''stacktrace'' = Inr b \<Longrightarrow> b \<noteq> Some True \<Longrightarrow>
     receive_terminal e m pp w
       = Returned True (doReject e (js_of (ev_exception (evaluation_of w e))) (remove e w))"
  by (simp add: receive_terminal_def terminal_def failing_def Let_def)

lemma receive_terminal_resolve:
  "terminal m \<Longrightarrow> \<not> failing w e \<Longrightarrow>
     receive_terminal e m pp w = Returned True (resolve_value e pp (remove e w))"
  by (auto simp: receive_terminal_def terminal_def failing_def Let_def)

lemma exception_err [simp]:
  "ev_exception (evaluation_of (err e m w) t) = ev_exception (evaluation_of w t)"
  by (simp add: err_def Let_def evaluation_of_update_evaluation split: option.splits)

lemma resolve_value_keeps:
  "handled (resolve_value e pp w) e p = handled w e p
   \<and> ev_exception (evaluation_of (resolve_value e pp w) e) = ev_exception (evaluation_of w e)"
  using flags_err [of e "str_of (pretty_error (prettyPrint pp (msgValue (evaluation_of w e))))" w e,
      unfolded flags_eq]
  by (simp add: resolve_value_def Let_def handled_def evaluation_of_doResolve evaluation_of_doReject)

lemma tracked_fetch_stacktrace:
  assumes t: "tracked w e p" and h: "handled w e p"
    and s: "supports w ''stacktrace'' = Inr (Some True)"
  shows "tracked (fetch_stacktrace e w) e p \<and> handled (fetch_stacktrace e w) e p
    \<and> calls_of (fetch_stacktrace e w) p = calls_of w p
    \<and> evaluation_of (fetch_stacktrace e w) = evaluation_of w
    \<and> fetching (fetch_stacktrace e w) e (next_ref w) (toString (js_increment (cl_nextId (the_client w))))"
proof -
  let ?F = "fetch_stacktrace e w"
  note f = fetch_stacktrace_fields [OF s, of e]
  have ne: "p \<noteq> next_ref w" using t by (simp add: tracked_def)
  have ev: "evaluation_of ?F = evaluation_of w"
    by (rule ext) (simp add: evaluation_of_def f(1))
  have c: "calls_of ?F p = calls_of w p"
    using ne by (simp add: calls_of_def f(6))
  have st: "session_store w (ev_session (evaluation_of w e)) \<noteq> None"
    using t by (simp add: tracked_def)
  have tr: "tracked ?F e p"
    using t ne st c
    by (simp add: tracked_def ev f describe_ok_def set_handler_def session_store_update_session)
  have hd: "handled ?F e p" using h by (simp add: handled_def ev)
  have mh: "messageHandlers (session_of ?F (ev_session (evaluation_of w e)))
      (toString (js_increment (cl_nextId (the_client w)))) = Some (ResultHandler (next_ref w))"
    using st
    by (auto simp: session_of_def f(7) set_handler_def session_store_update_session prop_key_def
        str_of_def)
  have "fetching ?F e (next_ref w) (toString (js_increment (cl_nextId (the_client w))))"
    using mh by (simp add: fetching_def ev f stacktrace_request_def the_request_def)
  then show ?thesis using tr hd c ev by simp
qed

lemma receive_terminal_tracked:
  assumes t: "tracked w e p" and h: "handled w e p"
  shows "\<exists>w'. receive_terminal e m pp w = Returned (terminal m) w' \<and> tracked w' e p \<and> handled w' e p
    \<and> ev_exception (evaluation_of w' e) = ev_exception (evaluation_of w e)
    \<and> (terminal m \<longrightarrow> e \<notin> set (Evaluation_Instances w')
          \<and> (calls_of w' p = [] \<longrightarrow>
                fetching w' e (next_ref w) (toString (js_increment (cl_nextId (the_client w))))))"
proof (cases "terminal m")
  case False
  then show ?thesis using t h by (simp add: receive_terminal_not_terminal)
next
  case True
  let ?w1 = "remove e w"
  have t1: "tracked ?w1 e p" using tracked_remove [OF t] .
  have h1: "handled ?w1 e p" using h by simp
  have d: "distinct (Evaluation_Instances w)" and dk: "describe_ok w"
    using t by (simp_all add: tracked_def)
  have gone: "e \<notin> set (Evaluation_Instances ?w1)" using removed [OF d] .
  show ?thesis
  proof (cases "failing w e")
    case False
    note r = tracked_resolve_value [OF t1 h1, of pp]
    have "receive_terminal e m pp w = Returned True (resolve_value e pp ?w1)"
      using receive_terminal_resolve [OF True False] .
    moreover have "handled (resolve_value e pp ?w1) e p"
      using h1 resolve_value_keeps [of e pp ?w1 p] by simp
    moreover have "ev_exception (evaluation_of (resolve_value e pp ?w1) e) = ev_exception (evaluation_of w e)"
      using resolve_value_keeps [of e pp ?w1 p] by simp
    ultimately show ?thesis using True r gone by auto
  next
    case failing: True
    from dk show ?thesis
    proof (cases rule: supports_cases [where op = "''stacktrace''"])
      case yes
      have s1: "supports ?w1 ''stacktrace'' = Inr (Some True)" using yes by simp
      note f = tracked_fetch_stacktrace [OF t1 h1 s1]
      have "receive_terminal e m pp w = Returned True (fetch_stacktrace e ?w1)"
        using receive_terminal_fetch [OF True failing yes] .
      moreover have "Evaluation_Instances (fetch_stacktrace e ?w1) = Evaluation_Instances ?w1"
        using fetch_stacktrace_fields(2) [OF s1] .
      ultimately show ?thesis using True f gone by simp
    next
      case (no b)
      note r = tracked_doReject [OF t1 h1, of "js_of (ev_exception (evaluation_of w e))"]
      have "receive_terminal e m pp w
          = Returned True (doReject e (js_of (ev_exception (evaluation_of w e))) ?w1)"
        using receive_terminal_reject [OF True failing no] .
      moreover have "handled (doReject e (js_of (ev_exception (evaluation_of w e))) ?w1) e p"
        using h1 by (simp add: handled_def evaluation_of_doReject)
      moreover have "length (calls_of (doReject e (js_of (ev_exception (evaluation_of w e))) ?w1) p) = 1"
        using r t1 by (simp add: tracked_def)
      ultimately show ?thesis using True r gone by (auto simp: evaluation_of_doReject)
    qed
  qed
qed

subsection \<open>The handler of an evaluation\<close>

lemma tracked_setHandlers:
  assumes "tracked w e p"
  shows "tracked (setHandlers e p p w) e p \<and> handled (setHandlers e p p w) e p"
  using assms
  by (simp add: tracked_def handled_def setHandlers_def describe_ok_def evaluation_of_update_evaluation
      evaluation_store_update_evaluation)

lemma tracked_emit: "tracked (emit x w) e p = tracked w e p"
  by (simp add: tracked_def describe_ok_def)

lemma handled_emit: "handled (emit x w) e p = handled w e p"
  by (simp add: handled_def)

lemma run_handler_eval:
  "run_handler s (EvalHandler e p d pp) m w = onMessage e m pp (prepared e p d w)"
  by (simp add: Let_def prepared_def)

lemma tracked_prepared:
  assumes "tracked w e p"
  shows "tracked (prepared e p d w) e p \<and> handled (prepared e p d w) e p"
  using tracked_setHandlers [OF assms] by (simp add: tracked_emit handled_emit prepared_def)

lemma frame_prepared [simp]:
  "the_client (prepared e p d w) = the_client w"
  "next_ref (prepared e p d w) = next_ref w"
  by (simp_all add: prepared_def setHandlers_def)

lemma onMessage_tracked:
  assumes t: "tracked w e p" and h: "handled w e p" and c: "causes_ok m"
  shows "\<exists>w'. onMessage e m pp w = Returned (terminal m) w' \<and> tracked w' e p \<and> handled w' e p
    \<and> (terminal m \<longrightarrow> e \<notin> set (Evaluation_Instances w')
          \<and> (calls_of w' p = [] \<longrightarrow>
                fetching w' e (next_ref w) (toString (js_increment (cl_nextId (the_client w))))))"
  using receive_terminal_tracked [OF tracked_received [OF t] handled_received [OF h], where m = m and pp = pp]
  by (auto simp: onMessage_received [OF c])

lemma onMessage_throws:
  assumes c: "\<not> causes_ok m"
  shows "onMessage e m pp w = Threw (TypeError ''Cannot read properties of undefined'')
    (receive_fields e m (add e (update_evaluation e (\<lambda>x. x\<lparr>ev_running := True\<rparr>) w)))"
  using c by (simp add: onMessage_def Let_def causes_ok_def receive_causes_def)






subsection \<open>The reply to the stack trace request\<close>

lemma tracked_call_settle:
  assumes "tracked w e p" and "q \<noteq> p"
  shows "tracked (call_settle q x w) e p"
  using assms by (simp add: tracked_def describe_ok_def calls_of_call_settle)

lemma handled_call_settle [simp]: "handled (call_settle q x w) e p = handled w e p"
  by (simp add: handled_def)

lemma tracked_stacktrace:
  "tracked (update_evaluation e (\<lambda>x. x\<lparr>ev_stacktrace := v\<rparr>) w) e p = tracked w e p"
  by (auto simp: tracked_def describe_ok_def evaluation_of_update_evaluation
      evaluation_store_update_evaluation calls_of_def)

lemma handled_stacktrace:
  "handled (update_evaluation e (\<lambda>x. x\<lparr>ev_stacktrace := v\<rparr>) w) e p = handled w e p"
  by (auto simp: handled_def evaluation_of_update_evaluation)

lemma exception_of_stored:
  "evaluation_store w e \<noteq> None \<Longrightarrow> exception_of w e = ev_exception (evaluation_of w e)"
  by (auto simp: exception_of_def evaluation_of_def)

text \<open>Both callbacks of the stack trace fetch reject the evaluation with its exception.\<close>

lemma react_fetched:
  assumes t: "tracked w e p" and h: "handled w e p"
  shows "tracked (react (StacktraceFetched e) x w) e p
    \<and> handled (react (StacktraceFetched e) x w) e p
    \<and> ev_finished (evaluation_of (react (StacktraceFetched e) x w) e)
    \<and> calls_of (react (StacktraceFetched e) x w) p
        = (if ev_finished (evaluation_of w e) then calls_of w p
           else [Reject (js_of (ev_exception (evaluation_of w e)))])"
proof -
  have st: "evaluation_store w e \<noteq> None" using t by (simp add: tracked_def)
  show ?thesis
  proof (cases x)
    case (Reject r)
    have "handled (doReject e (js_of (exception_of w e)) w) e p"
      using h st by (simp add: handled_def evaluation_of_doReject)
    then show ?thesis
      using tracked_doReject [OF t h, of "js_of (exception_of w e)"] Reject
      by (simp add: exception_of_stored [OF st])
  next
    case (Resolve v)
    let ?w1 = "update_evaluation e (\<lambda>x. x\<lparr>ev_stacktrace := v\<rparr>) w"
    have t1: "tracked ?w1 e p" using t by (simp add: tracked_stacktrace)
    have h1: "handled ?w1 e p" using h by (simp add: handled_stacktrace)
    have st1: "evaluation_store ?w1 e \<noteq> None" using st by simp
    have x1: "exception_of ?w1 e = ev_exception (evaluation_of w e)"
      using st by (simp add: exception_of_stored [OF st1] evaluation_of_update_evaluation)
    have f1: "ev_finished (evaluation_of ?w1 e) = ev_finished (evaluation_of w e)"
      using st by (simp add: evaluation_of_update_evaluation)
    have c1: "calls_of ?w1 p = calls_of w p" by (simp add: calls_of_def)
    have "handled (doReject e (js_of (exception_of ?w1 e)) ?w1) e p"
      using h1 st1 by (simp add: handled_def evaluation_of_doReject del: stored_update_evaluation)
    then show ?thesis
      using tracked_doReject [OF t1 h1, of "js_of (exception_of ?w1 e)"] Resolve
      by (simp add: x1 f1 c1 Let_def)
  qed
qed

lemma settle_fetch:
  assumes t: "tracked w e p" and h: "handled w e p"
    and f: "promise_store w q = Some \<lparr>calls = [], reaction = Some (StacktraceFetched e)\<rparr>"
    and ne: "q \<noteq> p"
  shows "tracked (settle_promise q x w) e p
    \<and> handled (settle_promise q x w) e p
    \<and> ev_finished (evaluation_of (settle_promise q x w) e)
    \<and> calls_of (settle_promise q x w) p
        = (if ev_finished (evaluation_of w e) then calls_of w p
           else [Reject (js_of (ev_exception (evaluation_of w e)))])"
proof -
  have s: "settle_promise q x w = react (StacktraceFetched e) x (call_settle q x w)"
    by (simp add: settle_promise_def f)
  have c: "calls_of (call_settle q x w) p = calls_of w p"
    using ne by (simp add: calls_of_call_settle)
  show ?thesis
    using react_fetched [OF tracked_call_settle [OF t ne, of x], of x] h
    by (simp add: s c)
qed

lemma tracked_delete_handler:
  "tracked (delete_handler s i w) e p = tracked w e p"
  by (auto simp: tracked_def describe_ok_def delete_handler_def session_store_update_session
      calls_of_def)

lemma handled_delete_handler [simp]: "handled (delete_handler s i w) e p = handled w e p"
  by (simp add: handled_def)

text \<open>The reply to the stack trace request, whatever it is, rejects the evaluation.\<close>

lemma response_fetching:
  assumes t: "tracked w e p" and h: "handled w e p"
    and f: "fetching w e q i" and ne: "q \<noteq> p" and r: "msg_id r = Some i"
  shows "\<exists>w'. response (ev_session (evaluation_of w e)) r w = Returned () w'
    \<and> tracked w' e p \<and> handled w' e p
    \<and> ev_finished (evaluation_of w' e)
    \<and> calls_of w' p
        = (if ev_finished (evaluation_of w e) then calls_of w p
           else [Reject (js_of (ev_exception (evaluation_of w e)))])"
proof -
  let ?s = "ev_session (evaluation_of w e)"
  have mh: "messageHandlers (session_of w ?s) (prop_key (msg_id r)) = Some (ResultHandler q)"
    using f r by (simp add: fetching_def prop_key_def str_of_def)
  have ps: "promise_store w q = Some \<lparr>calls = [], reaction = Some (StacktraceFetched e)\<rparr>"
    using f by (simp add: fetching_def)
  define x where "x = (if hasStatus r ''unknown-op''
      then Reject (Str (''The server does not recognize or cannot perform the '' @ [CHR 0x27]
                 @ str_of (msg_op r) @ [CHR 0x27] @ '' operation''))
      else Resolve (Msg r))"
  have res: "resultHandler q r w = (True, settle_promise q x w)"
    by (simp add: resultHandler_def x_def)
  have "response ?s r w = Returned () (delete_handler ?s (msg_id r) (settle_promise q x w))"
    by (simp add: response_def mh res)
  then show ?thesis
    using settle_fetch [OF t h ps ne, of x]
    by (simp add: tracked_delete_handler)
qed

subsection \<open>The start of an evaluation\<close>

lemma connected_facts:
  "session_store (connected ops) 1 \<noteq> None"
  "Evaluation_Instances (connected ops) = []"
  "next_ref (connected ops) = 2"
  "cl_describe (the_client (connected ops)) = Some (described ops)"
  "cl_nextId (the_client (connected ops)) = 3"
  "cl_written (the_client (connected ops)) \<noteq> []"
  "DEBUG_QUIT_VALUE (connected ops) = ''QUIT''"
  by (simp_all add: eval_defs)

lemma supports_connected: "supports (connected ops) op = Inr (Some (op \<in> set ops \<or> inherited op))"
  by (simp add: supports_def connected_facts described_def)

text \<open>What eval leaves behind on a server that supports the operation.\<close>

lemma eval_tracked:
  assumes s: "session_store w s \<noteq> None" and d: "distinct (Evaluation_Instances w)"
    and y: "supports w ''eval'' = Inr (Some True)"
  shows "fst (eval s code ns opts no_debug w) = Suc (next_ref w)
    \<and> tracked (snd (eval s code ns opts no_debug w)) (Suc (next_ref w)) (next_ref w)
    \<and> \<not> ev_finished (evaluation_of (snd (eval s code ns opts no_debug w)) (Suc (next_ref w)))
    \<and> ev_session (evaluation_of (snd (eval s code ns opts no_debug w)) (Suc (next_ref w))) = s
    \<and> ev_id (evaluation_of (snd (eval s code ns opts no_debug w)) (Suc (next_ref w)))
         = Some (toString (js_increment (cl_nextId (the_client w))))
    \<and> Evaluation_Instances (snd (eval s code ns opts no_debug w)) = Evaluation_Instances w
    \<and> evaluation_of (snd (eval s code ns opts no_debug w)) (Suc (next_ref w))
         = new_evaluation (Some (toString (js_increment (cl_nextId (the_client w))))) s
             (eo_stderr opts) (eo_stdout opts) (eo_stdin opts) (next_ref w)
    \<and> cl_describe (the_client (snd (eval s code ns opts no_debug w))) = cl_describe (the_client w)
    \<and> messageHandlers (session_of (snd (eval s code ns opts no_debug w)) s)
          (toString (js_increment (cl_nextId (the_client w))))
         = Some (EvalHandler (Suc (next_ref w)) (next_ref w)
             (eo_line opts \<noteq> None \<and> eo_line opts \<noteq> Some 0
                \<and> eo_column opts \<noteq> None \<and> eo_column opts \<noteq> Some 0 \<and> truthy (eo_file opts))
             (eo_pprintOptions opts))
    \<and> cl_nextId (the_client (snd (eval s code ns opts no_debug w))) = js_increment (cl_nextId (the_client w))
    \<and> next_ref (snd (eval s code ns opts no_debug w)) = Suc (Suc (next_ref w))
    \<and> DEBUG_QUIT_VALUE (snd (eval s code ns opts no_debug w)) = DEBUG_QUIT_VALUE w"
proof -
  let ?i = "toString (js_increment (cl_nextId (the_client w)))"
  let ?w1 = "snd (nextId w)"
  let ?m = "the_request ''eval'' (Some ?i) s ((''code'', AStr code) # spread_opts opts) ?w1"
  have c: "createEvalOperationMessage s code ns (spread_opts opts) no_debug w = (?m, ?w1)"
    by (simp add: createEvalOperationMessage_def no_debug_def nextId_def Let_def)
  let ?w2 = "snd (new_promise ?w1)"
  let ?p = "next_ref w"
  let ?e = "Suc (next_ref w)"
  let ?h = "EvalHandler ?e ?p
     (eo_line opts \<noteq> None \<and> eo_line opts \<noteq> Some 0
        \<and> eo_column opts \<noteq> None \<and> eo_column opts \<noteq> Some 0 \<and> truthy (eo_file opts))
     (eo_pprintOptions opts)"
  let ?w3 = "client_write ?m (addRunningID s (Some ?i) (set_handler s (Some ?i) ?h ?w2))"
  have y2: "supports ?w2 (req_op ?m) = Inr (Some True)"
    using y by (simp add: supports_def the_request_def new_promise_def nextId_def Let_def update_client_def)
  have st: "start_evaluation s ?m ?e ?p
     (eo_line opts \<noteq> None \<and> eo_line opts \<noteq> Some 0
        \<and> eo_column opts \<noteq> None \<and> eo_column opts \<noteq> Some 0 \<and> truthy (eo_file opts))
     (eo_pprintOptions opts) ?w2 = ?w3"
    using if_supports_supported [OF y2] by (simp add: start_evaluation_def the_request_def)
  let ?ev = "new_evaluation (Some ?i) s (eo_stderr opts) (eo_stdout opts) (eo_stdin opts) ?p"
  have e: "eval s code ns opts no_debug w
      = (?e, ?w3\<lparr>evaluation_store := (evaluation_store ?w3)(?e \<mapsto> ?ev), next_ref := Suc ?e\<rparr>)"
    using st by (simp add: eval_def c Let_def split_beta new_promise_def the_request_def)
  define w4 where "w4 = ?w3\<lparr>evaluation_store := (evaluation_store ?w3)(?e \<mapsto> ?ev), next_ref := Suc ?e\<rparr>"
  have ev: "evaluation_of w4 ?e = ?ev" "evaluation_store w4 ?e \<noteq> None"
    by (simp_all add: evaluation_of_def w4_def)
  have ps: "promise_store w4 ?p = Some \<lparr>calls = [], reaction = None\<rparr>"
    by (simp add: w4_def new_promise_def)
  have ss: "session_store w4 s \<noteq> None"
    using s
    by (auto simp: w4_def addRunningID_def set_handler_def session_store_update_session
        split: option.splits)
  have inst: "Evaluation_Instances w4 = Evaluation_Instances w" "next_ref w4 = Suc (Suc (next_ref w))"
    by (simp_all add: w4_def)
  have dk: "describe_ok w4"
    using y
    by (simp add: w4_def describe_ok_def supports_def split: option.splits)
  have cd: "cl_describe (the_client w4) = cl_describe (the_client w)"
    "cl_nextId (the_client w4) = js_increment (cl_nextId (the_client w))"
    "DEBUG_QUIT_VALUE w4 = DEBUG_QUIT_VALUE w"
    by (simp_all add: w4_def nextId_def Let_def update_client_def new_promise_def)
  have mh: "messageHandlers (session_of w4 s) ?i = Some ?h"
    using s
    by (auto simp: w4_def session_of_def addRunningID_def set_handler_def
        session_store_update_session prop_key_def str_of_def split: option.splits)
  have "tracked w4 ?e ?p"
    using ps ss d dk ev(2)
    by (simp add: tracked_def ev(1) inst new_evaluation_def no_evaluation_def calls_of_def)
  moreover have "eval s code ns opts no_debug w = (?e, w4)" using e by (simp add: w4_def)
  ultimately show ?thesis
    using ev inst cd mh by (simp add: new_evaluation_def no_evaluation_def)
qed

text \<open>The example evaluation.\<close>

lemma evaluating_facts:
  assumes "''eval'' \<in> set ops"
  shows "tracked (evaluating ops) 3 2"
    and "evaluation_of (evaluating ops) 3 = new_evaluation (Some ''4'') 1 None None None 2"
    and "messageHandlers (session_of (evaluating ops) 1) ''4'' = Some (EvalHandler 3 2 False plain_printing)"
    and "cl_describe (the_client (evaluating ops)) = Some (described ops)"
    and "cl_nextId (the_client (evaluating ops)) = 4"
    and "next_ref (evaluating ops) = 4"
    and "DEBUG_QUIT_VALUE (evaluating ops) = ''QUIT''"
proof -
  have s: "supports (connected ops) ''eval'' = Inr (Some True)"
    using assms by (simp add: supports_connected)
  have j: "js_increment (Suc (Suc (Suc 0))) = 4" "js_increment 3 = 4"
    by (simp_all add: js_increment_def MAX_EXACT_def)
  have i: "toString 4 = ''4''"
    by (simp add: toString.simps digit_char_def)
  note n = connected_facts numeral_3_eq_3 numeral_2_eq_2 plain_opts_def
  note e = eval_tracked [OF connected_facts(1) _ s, of "''(+ 1 2)''" "''user''" plain_opts,
      folded evaluating_def]
  show "tracked (evaluating ops) 3 2" using e by (simp add: n)
  show "evaluation_of (evaluating ops) 3 = new_evaluation (Some ''4'') 1 None None None 2"
    using e by (simp add: n j i)
  show "messageHandlers (session_of (evaluating ops) 1) ''4'' = Some (EvalHandler 3 2 False plain_printing)"
    using e by (simp add: n j i)
  show "cl_describe (the_client (evaluating ops)) = Some (described ops)"
    using e by (simp add: n)
  show "cl_nextId (the_client (evaluating ops)) = 4" using e by (simp add: n j)
  show "next_ref (evaluating ops) = 4" using e by (simp add: n)
  show "DEBUG_QUIT_VALUE (evaluating ops) = ''QUIT''" using e by (simp add: n)
qed

subsection \<open>The number of calls\<close>

lemma tracked_calls:
  assumes "tracked w e p"
  shows "length (calls_of w p) = (if ev_finished (evaluation_of w e) then 1 else 0)"
  using assms by (simp add: tracked_def)

lemma tracked_finished:
  assumes "tracked w e p"
  shows "ev_finished (evaluation_of w e) = (length (calls_of w p) = 1)"
    and "(\<not> ev_finished (evaluation_of w e)) = (calls_of w p = [])"
    and "length (calls_of w p) \<le> 1"
proof -
  note l = tracked_calls [OF assms]
  show "ev_finished (evaluation_of w e) = (length (calls_of w p) = 1)"
    by (cases "ev_finished (evaluation_of w e)") (simp_all add: l)
  show "(\<not> ev_finished (evaluation_of w e)) = (calls_of w p = [])"
    by (cases "ev_finished (evaluation_of w e)") (simp_all add: l flip: length_0_conv)
  show "length (calls_of w p) \<le> 1"
    by (simp add: l)
qed

subsection \<open>The fields an evaluation takes from a message\<close>

lemma fields_out [simp]:
  "ev_exception (evaluation_of (out e m w) t) = ev_exception (evaluation_of w t)"
  "ev_pprintOut (evaluation_of (out e m w) t) = ev_pprintOut (evaluation_of w t)"
  "ev_stacktrace (evaluation_of (out e m w) t) = ev_stacktrace (evaluation_of w t)"
  by (simp_all add: out_def Let_def evaluation_of_update_evaluation split: option.splits)

lemma fields_err [simp]:
  "ev_pprintOut (evaluation_of (err e m w) t) = ev_pprintOut (evaluation_of w t)"
  "ev_stacktrace (evaluation_of (err e m w) t) = ev_stacktrace (evaluation_of w t)"
  by (simp_all add: err_def Let_def evaluation_of_update_evaluation split: option.splits)

lemma fields_receive_fields:
  assumes "evaluation_store w e \<noteq> None"
  shows "ev_exception (evaluation_of (receive_fields e m w) e)
           = (if truthy (msg_ex m) then msg_ex m else ev_exception (evaluation_of w e))"
    and "ev_pprintOut (evaluation_of (receive_fields e m w) e) = ev_pprintOut (evaluation_of w e)"
    and "ev_stacktrace (evaluation_of (receive_fields e m w) e) = ev_stacktrace (evaluation_of w e)"
  using assms
  by (auto simp: receive_fields_def Let_def evaluation_of_update_evaluation)

lemma fields_receive_causes:
  assumes "evaluation_store w e \<noteq> None"
  shows "ev_exception (evaluation_of (world_of (receive_causes e m w)) e) = ev_exception (evaluation_of w e)"
    and "ev_pprintOut (evaluation_of (world_of (receive_causes e m w)) e) = ev_pprintOut (evaluation_of w e)"
    and "\<not> hasStatus m ''eval-error'' \<Longrightarrow>
           ev_stacktrace (evaluation_of (world_of (receive_causes e m w)) e) = ev_stacktrace (evaluation_of w e)"
  using assms
  by (auto simp: receive_causes_def world_of_def evaluation_of_update_evaluation
      split: option.splits list.splits)

lemma fields_receive_value:
  assumes "evaluation_store w e \<noteq> None"
  shows "ev_exception (evaluation_of (receive_value e m w) e) = ev_exception (evaluation_of w e)"
    and "ev_pprintOut (evaluation_of (receive_value e m w) e)
           = (if truthy (msg_pprint_out m) then msg_pprint_out m else ev_pprintOut (evaluation_of w e))"
    and "ev_stacktrace (evaluation_of (receive_value e m w) e) = ev_stacktrace (evaluation_of w e)"
  using assms
  by (auto simp: receive_value_def Let_def evaluation_of_update_evaluation)

lemma stored_add [simp]: "evaluation_store (add e w) = evaluation_store w"
  by (simp add: add_def)

text \<open>The fields of the evaluation at the terminal test.\<close>

lemma fields_received:
  assumes s: "evaluation_store w e \<noteq> None"
  shows "ev_exception (evaluation_of (received e m w) e)
           = (if truthy (msg_ex m) then msg_ex m else ev_exception (evaluation_of w e))"
    and "ev_pprintOut (evaluation_of (received e m w) e)
           = (if truthy (msg_pprint_out m) then msg_pprint_out m else ev_pprintOut (evaluation_of w e))"
    and "\<not> hasStatus m ''eval-error'' \<Longrightarrow>
           ev_stacktrace (evaluation_of (received e m w) e) = ev_stacktrace (evaluation_of w e)"
    and "ev_msgValue (evaluation_of (received e m w) e)
           = (if msg_value m \<noteq> None \<or> msg_debug_value m \<noteq> None
              then (if truthy (msg_value m) then msg_value m else msg_debug_value m)
              else ev_msgValue (evaluation_of w e))"
proof -
  let ?w1 = "add e (update_evaluation e (\<lambda>x. x\<lparr>ev_running := True\<rparr>) w)"
  let ?w2 = "receive_fields e m ?w1"
  let ?w3 = "world_of (receive_causes e m ?w2)"
  have s1: "evaluation_store ?w1 e \<noteq> None" using s by simp
  have s2: "evaluation_store ?w2 e \<noteq> None" using s by simp
  have s3: "evaluation_store ?w3 e \<noteq> None" using s by simp
  have e1: "ev_exception (evaluation_of ?w1 e) = ev_exception (evaluation_of w e)"
    "ev_pprintOut (evaluation_of ?w1 e) = ev_pprintOut (evaluation_of w e)"
    "ev_stacktrace (evaluation_of ?w1 e) = ev_stacktrace (evaluation_of w e)"
    "ev_msgValue (evaluation_of ?w1 e) = ev_msgValue (evaluation_of w e)"
    using s by (auto simp: evaluation_of_update_evaluation)
  show "ev_exception (evaluation_of (received e m w) e)
           = (if truthy (msg_ex m) then msg_ex m else ev_exception (evaluation_of w e))"
    unfolding received_def
    by (simp only: evaluation_of_receive_need_input fields_receive_value(1) [OF s3]
        fields_receive_causes(1) [OF s2] fields_receive_fields(1) [OF s1] e1)
  show "ev_pprintOut (evaluation_of (received e m w) e)
           = (if truthy (msg_pprint_out m) then msg_pprint_out m else ev_pprintOut (evaluation_of w e))"
    unfolding received_def
    by (simp only: evaluation_of_receive_need_input fields_receive_value(2) [OF s3]
        fields_receive_causes(2) [OF s2] fields_receive_fields(2) [OF s1] e1)
  show "ev_stacktrace (evaluation_of (received e m w) e) = ev_stacktrace (evaluation_of w e)"
    if "\<not> hasStatus m ''eval-error''"
    unfolding received_def
    by (simp only: evaluation_of_receive_need_input fields_receive_value(3) [OF s3]
        fields_receive_causes(3) [OF s2 that] fields_receive_fields(3) [OF s1] e1)
  show "ev_msgValue (evaluation_of (received e m w) e)
           = (if msg_value m \<noteq> None \<or> msg_debug_value m \<noteq> None
              then (if truthy (msg_value m) then msg_value m else msg_debug_value m)
              else ev_msgValue (evaluation_of w e))"
    unfolding received_def
    by (simp only: evaluation_of_receive_need_input msgValue_receive_value [OF s3]
        msgValue_receive_causes msgValue_receive_fields e1)
qed


text \<open>The terminal test does not touch the stored value.\<close>

lemma msgValue_doResolve [simp]:
  "ev_msgValue (evaluation_of (doResolve e v w) t) = ev_msgValue (evaluation_of w t)"
  by (simp add: evaluation_of_doResolve)

lemma msgValue_doReject [simp]:
  "ev_msgValue (evaluation_of (doReject e v w) t) = ev_msgValue (evaluation_of w t)"
  by (simp add: evaluation_of_doReject)

lemma msgValue_receive_terminal:
  "ev_msgValue (evaluation_of (world_of (receive_terminal e m pp w)) t) = ev_msgValue (evaluation_of w t)"
proof (cases "terminal m")
  case False
  then show ?thesis by (simp add: receive_terminal_not_terminal world_of_def)
next
  case True
  show ?thesis
  proof (cases "failing w e")
    case False
    show ?thesis
      by (simp add: receive_terminal_resolve [OF True False] world_of_def resolve_value_def Let_def)
  next
    case failing: True
    show ?thesis
    proof (cases "supports w ''stacktrace''")
      case (Inl x)
      then show ?thesis using True failing
        by (simp add: receive_terminal_def terminal_def failing_def world_of_def Let_def)
    next
      case (Inr b)
      show ?thesis
      proof (cases "b = Some True")
        case yes: True
        have s1: "supports (remove e w) ''stacktrace'' = Inr (Some True)" using Inr yes by simp
        have "evaluation_of (fetch_stacktrace e (remove e w)) = evaluation_of (remove e w)"
          by (rule ext) (simp add: evaluation_of_def fetch_stacktrace_fields(1) [OF s1])
        then show ?thesis
          using receive_terminal_fetch [OF True failing, of pp] Inr yes
          by (simp add: world_of_def)
      next
        case no: False
        show ?thesis
          using receive_terminal_reject [OF True failing Inr no, of pp]
          by (simp add: world_of_def)
      qed
    qed
  qed
qed

lemma stored_prepared [simp]:
  "(evaluation_store (prepared e p d w) t = None) = (evaluation_store w t = None)"
  by (simp add: prepared_def setHandlers_def)

lemma fields_prepared [simp]:
  "ev_msgValue (evaluation_of (prepared e p d w) t) = ev_msgValue (evaluation_of w t)"
  "ev_exception (evaluation_of (prepared e p d w) t) = ev_exception (evaluation_of w t)"
  "ev_pprintOut (evaluation_of (prepared e p d w) t) = ev_pprintOut (evaluation_of w t)"
  "ev_stacktrace (evaluation_of (prepared e p d w) t) = ev_stacktrace (evaluation_of w t)"
  "ev_finished (evaluation_of (prepared e p d w) t) = ev_finished (evaluation_of w t)"
  "ev_session (evaluation_of (prepared e p d w) t) = ev_session (evaluation_of w t)"
  "DEBUG_QUIT_VALUE (prepared e p d w) = DEBUG_QUIT_VALUE w"
  "calls_of (prepared e p d w) = calls_of w"
  by (auto simp: prepared_def setHandlers_def evaluation_of_update_evaluation calls_of_def)

text \<open>\<^verbatim>\<open>msg.value || msg['debug-value']\<close>: what the handler stores.\<close>

lemma deliver_value:
  assumes s: "evaluation_store w e \<noteq> None" and c: "causes_ok m"
  shows "ev_msgValue (evaluation_of (deliver s' e p d pp m w) e)
     = (if msg_value m \<noteq> None \<or> msg_debug_value m \<noteq> None
        then (if truthy (msg_value m) then msg_value m else msg_debug_value m)
        else ev_msgValue (evaluation_of w e))"
proof -
  have sp: "evaluation_store (prepared e p d w) e \<noteq> None" using s by simp
  show ?thesis
    unfolding deliver_def run_handler_eval onMessage_received [OF c] msgValue_receive_terminal
      fields_received(4) [OF sp]
    by simp
qed

text \<open>The last message of a quiet evaluation resolves the promise with the stored value.\<close>

lemma deliver_resolves:
  assumes t: "tracked w e p" and c: "causes_ok m" and dn: "terminal m"
    and q: "quiet w e m" and nf: "\<not> ev_finished (evaluation_of w e)"
    and np: "\<not> (pp_enabled pp \<and> pp_printEngine pp = ''calva'')"
  shows "calls_of (deliver s e p d pp m w) p
     = [Resolve (Str (msgValue (evaluation_of (deliver s e p d pp m w) e)))]"
proof -
  let ?P = "prepared e p d w"
  let ?R = "received e m ?P"
  have tp: "tracked ?P e p" and hp: "handled ?P e p" using tracked_prepared [OF t, of d] by simp_all
  have sp: "evaluation_store ?P e \<noteq> None" using tp by (simp add: tracked_def)
  have tr: "tracked (remove e ?R) e p" using tracked_remove [OF tracked_received [OF tp]] .
  have hr: "handled (remove e ?R) e p" using handled_received [OF hp] by simp
  have ne: "\<not> hasStatus m ''eval-error''" using q by (simp add: quiet_def)
  have x: "\<not> truthy (ev_exception (evaluation_of ?R e))"
    and pq: "\<not> truthy (ev_pprintOut (evaluation_of ?R e))"
    and sq: "\<not> js_truthy (ev_stacktrace (evaluation_of ?R e))"
    using q by (simp_all add: fields_received(1,2) [OF sp] fields_received(3) [OF sp ne] quiet_def)
  have nfail: "\<not> failing ?R e" using x by (simp add: failing_def)
  have fin: "\<not> ev_finished (evaluation_of (remove e ?R) e)"
    using nf by (simp add: finished_received)
  have d: "deliver s e p d pp m w = resolve_value e pp (remove e ?R)"
    unfolding deliver_def run_handler_eval onMessage_received [OF c]
      receive_terminal_resolve [OF dn nfail]
    by (simp add: world_of_def)
  have rv: "resolve_value e pp (remove e ?R)
     = doResolve e (Str (msgValue (evaluation_of ?R e))) (remove e ?R)"
    using pq sq np by (auto simp: resolve_value_def Let_def)
  have mv: "msgValue (evaluation_of (doResolve e v (remove e ?R)) e) = msgValue (evaluation_of ?R e)" for v
    by (simp add: msgValue_def)
  show ?thesis
    using tracked_doResolve [OF tr hr, of "Str (msgValue (evaluation_of ?R e))"] fin
    by (simp add: d rv mv)
qed

subsection \<open>The handler of an evaluation in the handler table\<close>

text \<open>\<^verbatim>\<open>_response\<close> for a message whose handler is that of an evaluation.\<close>

lemma response_eval:
  assumes reg: "messageHandlers (session_of w s) (prop_key (msg_id m)) = Some (EvalHandler e p d pp)"
    and t: "tracked w e p" and c: "causes_ok m"
  shows "response s m w
     = Returned () (if terminal m then delete_handler s (msg_id m) (deliver s e p d pp m w)
                    else deliver s e p d pp m w)"
proof -
  have tp: "tracked (prepared e p d w) e p" and hp: "handled (prepared e p d w) e p"
    using tracked_prepared [OF t, of d] by simp_all
  from onMessage_tracked [OF tp hp c, of pp] obtain w' where
    o: "onMessage e m pp (prepared e p d w) = Returned (terminal m) w'" by blast
  have r: "run_handler s (EvalHandler e p d pp) m w = Returned (terminal m) w'"
    using o by (simp only: run_handler_eval)
  have d: "deliver s e p d pp m w = w'"
    by (simp only: deliver_def r world_of_def outcome.case)
  show ?thesis by (simp only: response_def reg option.case r outcome.case d)
qed

lemma stacktrace_request_cong:
  "the_client w' = the_client w \<Longrightarrow> session_store w' = session_store w \<Longrightarrow>
     stacktrace_request w' s = stacktrace_request w s"
  by (simp add: stacktrace_request_def the_request_def session_of_def)

text \<open>The terminal message of a failed evaluation, on a server with \<^verbatim>\<open>stacktrace\<close>.\<close>

lemma deliver_fetches:
  assumes t: "tracked w e p" and c: "causes_ok m" and tm: "terminal m"
    and x: "failing (received e m (prepared e p d w)) e"
    and y: "supports w ''stacktrace'' = Inr (Some True)"
  shows "deliver s e p d pp m w = fetch_stacktrace e (remove e (received e m (prepared e p d w)))"
    and "tracked (deliver s e p d pp m w) e p"
    and "handled (deliver s e p d pp m w) e p"
    and "calls_of (deliver s e p d pp m w) p = calls_of w p"
    and "fetching (deliver s e p d pp m w) e (next_ref w) (toString (js_increment (cl_nextId (the_client w))))"
    and "cl_written (the_client (deliver s e p d pp m w))
           = cl_written (the_client w) @ [stacktrace_request w (ev_session (evaluation_of w e))]"
    and "ev_exception (evaluation_of (deliver s e p d pp m w) e)
           = (if truthy (msg_ex m) then msg_ex m else ev_exception (evaluation_of w e))"
    and "ev_session (evaluation_of (deliver s e p d pp m w) e) = ev_session (evaluation_of w e)"
    and "ev_finished (evaluation_of (deliver s e p d pp m w) e) = ev_finished (evaluation_of w e)"
proof -
  let ?P = "prepared e p d w"
  let ?R = "received e m ?P"
  let ?R1 = "remove e ?R"
  have tp: "tracked ?P e p" and hp: "handled ?P e p" using tracked_prepared [OF t, of d] by simp_all
  have sp: "evaluation_store ?P e \<noteq> None" using tp by (simp add: tracked_def)
  have tr: "tracked ?R1 e p" using tracked_remove [OF tracked_received [OF tp]] .
  have hr: "handled ?R1 e p" using handled_received [OF hp] by simp
  have y0: "supports ?R ''stacktrace'' = Inr (Some True)"
    using y by (simp add: supports_def)
  have y1: "supports ?R1 ''stacktrace'' = Inr (Some True)" using y0 by simp
  show d: "deliver s e p d pp m w = fetch_stacktrace e ?R1"
    unfolding deliver_def run_handler_eval onMessage_received [OF c]
      receive_terminal_fetch [OF tm x y0]
    by (simp add: world_of_def)
  note f = tracked_fetch_stacktrace [OF tr hr y1]
  note g = fetch_stacktrace_fields [OF y1, of e]
  have se: "ev_session (evaluation_of ?R e) = ev_session (evaluation_of w e)"
    "ev_finished (evaluation_of ?R e) = ev_finished (evaluation_of w e)"
    by (simp_all add: finished_received flags_received [of e m ?P e, unfolded flags_eq]
        evaluation_of_update_evaluation)
  show "tracked (deliver s e p d pp m w) e p" using f by (simp add: d)
  show "handled (deliver s e p d pp m w) e p" using f by (simp add: d)
  show "calls_of (deliver s e p d pp m w) p = calls_of w p" using f by (simp add: d)
  show "fetching (deliver s e p d pp m w) e (next_ref w) (toString (js_increment (cl_nextId (the_client w))))"
    using f by (simp add: d)
  have sr: "stacktrace_request ?R1 (ev_session (evaluation_of w e))
      = stacktrace_request w (ev_session (evaluation_of w e))"
    by (rule stacktrace_request_cong) (simp_all add: prepared_def setHandlers_def)
  show "cl_written (the_client (deliver s e p d pp m w))
           = cl_written (the_client w) @ [stacktrace_request w (ev_session (evaluation_of w e))]"
    using g(5) by (simp add: d se sr)
  have ev: "evaluation_of (fetch_stacktrace e ?R1) = evaluation_of ?R1" using f by simp
  show "ev_exception (evaluation_of (deliver s e p d pp m w) e)
           = (if truthy (msg_ex m) then msg_ex m else ev_exception (evaluation_of w e))"
    by (simp add: d ev fields_received(1) [OF sp])
  show "ev_session (evaluation_of (deliver s e p d pp m w) e) = ev_session (evaluation_of w e)"
    by (simp add: d ev se)
  show "ev_finished (evaluation_of (deliver s e p d pp m w) e) = ev_finished (evaluation_of w e)"
    by (simp add: d ev se)
qed

subsection \<open>A pending stack trace request\<close>

lemma new_evaluation_fields [simp]:
  "ev_id (new_evaluation i s a b c p) = i"
  "ev_session (new_evaluation i s a b c p) = s"
  "ev_finished (new_evaluation i s a b c p) = False"
  "ev_running (new_evaluation i s a b c p) = False"
  "ev_interrupted (new_evaluation i s a b c p) = False"
  "ev_exception (new_evaluation i s a b c p) = None"
  "ev_msgValue (new_evaluation i s a b c p) = None"
  "ev_pprintOut (new_evaluation i s a b c p) = None"
  "ev_stacktrace (new_evaluation i s a b c p) = Undefined"
  by (simp_all add: new_evaluation_def no_evaluation_def)

lemma fetching_delete_handler:
  assumes "prop_key k \<noteq> i"
  shows "fetching (delete_handler s k w) e q i = fetching w e q i"
  using assms
  by (auto simp: fetching_def delete_handler_def session_of_update_session)

subsection \<open>Operations that read nextId once\<close>

lemma draws_one_ungated: "draws_one w (snd (ungated_request s op args w))"
  by (simp add: draws_one_def ungated_request_def the_request_def split_beta Let_def)

lemma draws_one_interrupt: "draws_one w (snd (interrupt s i w))"
  by (auto simp: draws_one_def interrupt_def the_request_def split_beta Let_def if_supports_def
      split: sum.splits)

lemma draws_one_clone: "draws_one w (snd (clone s w))"
  by (auto simp: draws_one_def clone_def the_request_def split_beta Let_def if_supports_def
      split: sum.splits)

lemma draws_one_initDebugger: "draws_one w (world_of (initDebugger s w))"
  by (auto simp: draws_one_def initDebugger_def the_request_def split_beta Let_def world_of_def
      split: sum.splits)

lemma draws_one_clojureDocsLookup: "draws_one w (snd (clojureDocsLookup s ns symbol w))"
  by (auto simp: draws_one_def clojureDocsLookup_def the_request_def split_beta Let_def
      if_supports_def split: sum.splits)

lemma the_client_start_evaluation:
  "the_client (start_evaluation s m e p d pp w) = the_client w
   \<or> the_client (start_evaluation s m e p d pp w) = (the_client w)\<lparr>cl_written := cl_written (the_client w) @ [m]\<rparr>"
  by (simp add: start_evaluation_def if_supports_def split: sum.splits)

lemma draws_one_eval: "draws_one w (snd (eval s code ns opts no_debug w))"
  using the_client_start_evaluation [of s
      "the_request ''eval'' (Some (fst (nextId w))) s ((''code'', AStr code) # spread_opts opts) (snd (nextId w))"
      "Suc (next_ref (snd (nextId w)))" "next_ref (snd (nextId w))"
      "eo_line opts \<noteq> None \<and> eo_line opts \<noteq> Some 0 \<and> eo_column opts \<noteq> None \<and> eo_column opts \<noteq> Some 0 \<and> truthy (eo_file opts)"
      "eo_pprintOptions opts" "snd (new_promise (snd (nextId w)))"]
  by (auto simp: draws_one_def eval_def createEvalOperationMessage_def no_debug_def the_request_def
      split_beta Let_def new_promise_def)

lemma draws_one_loadFile: "draws_one w (snd (loadFile s file opts w))"
  using the_client_start_evaluation [of s
      "the_request ''load-file'' (Some (fst (nextId w))) s
         (spread_load_opts opts @ [(''file'', AStr file), (''file-name'', arg_of (eo_fileName opts)),
            (''file-path'', arg_of (eo_filePath opts))]) (snd (new_promise (snd (nextId w))))"
      "Suc (next_ref (snd (nextId w)))" "next_ref (snd (nextId w))" True
      "eo_pprintOptions opts" "snd (new_promise (snd (nextId w)))"]
  by (auto simp: draws_one_def loadFile_def the_request_def split_beta Let_def new_promise_def)

lemma draws_one_perform: "draws_one w (perform c w)"
  by (cases c)
    (simp_all add: draws_one_gated draws_one_ungated draws_one_interrupt draws_one_clone
      draws_one_initDebugger draws_one_clojureDocsLookup draws_one_eval draws_one_loadFile)

subsection \<open>Requests are only added, under rising identifiers\<close>

lemma fresh_cong:
  "cloneId w' = cloneId w \<Longrightarrow> describeId w' = describeId w \<Longrightarrow> fresh w' = fresh w"
  by (rule ext) (simp add: fresh_def)

lemma extendsI:
  assumes "cloneId w' = cloneId w" and "describeId w' = describeId w"
    and "cl_nextId (the_client w) \<le> cl_nextId (the_client w')"
    and "cl_written (the_client w') = cl_written (the_client w) @ rs"
    and "list_all (\<lambda>r. req_id r = Some (toString (id_number r))
                      \<and> cl_nextId (the_client w) < id_number r
                      \<and> id_number r \<le> cl_nextId (the_client w')) (filter (fresh w) rs)"
    and "sorted_wrt (<) (map id_number (filter (fresh w) rs))"
  shows "extends w w'"
  using assms by (simp add: extends_def)

lemma extendsD:
  assumes "extends w w'"
  shows "cloneId w' = cloneId w \<and> describeId w' = describeId w
    \<and> cl_nextId (the_client w) \<le> cl_nextId (the_client w')
    \<and> (\<exists>rs. cl_written (the_client w') = cl_written (the_client w) @ rs
          \<and> list_all (\<lambda>r. req_id r = Some (toString (id_number r))
                      \<and> cl_nextId (the_client w) < id_number r
                      \<and> id_number r \<le> cl_nextId (the_client w')) (filter (fresh w) rs)
          \<and> sorted_wrt (<) (map id_number (filter (fresh w) rs)))"
proof -
  let ?rs = "drop (length (cl_written (the_client w))) (cl_written (the_client w'))"
  have "cl_written (the_client w') = cl_written (the_client w) @ ?rs"
    using assms append_take_drop_id [of "length (cl_written (the_client w))" "cl_written (the_client w')"]
    by (simp add: extends_def)
  then show ?thesis using assms unfolding extends_def by blast
qed

lemma extends_trans:
  assumes a: "extends w w'" and b: "extends w' w''"
  shows "extends w w''"
proof -
  from extendsD [OF a] obtain r1 where
    i1: "cloneId w' = cloneId w" "describeId w' = describeId w"
    and c1: "cl_nextId (the_client w) \<le> cl_nextId (the_client w')"
    and w1: "cl_written (the_client w') = cl_written (the_client w) @ r1"
    and l1: "list_all (\<lambda>r. req_id r = Some (toString (id_number r))
                      \<and> cl_nextId (the_client w) < id_number r
                      \<and> id_number r \<le> cl_nextId (the_client w')) (filter (fresh w) r1)"
    and s1: "sorted_wrt (<) (map id_number (filter (fresh w) r1))"
    by blast
  from extendsD [OF b] obtain r2 where
    i2: "cloneId w'' = cloneId w'" "describeId w'' = describeId w'"
    and c2: "cl_nextId (the_client w') \<le> cl_nextId (the_client w'')"
    and w2: "cl_written (the_client w'') = cl_written (the_client w') @ r2"
    and l2: "list_all (\<lambda>r. req_id r = Some (toString (id_number r))
                      \<and> cl_nextId (the_client w') < id_number r
                      \<and> id_number r \<le> cl_nextId (the_client w'')) (filter (fresh w') r2)"
    and s2: "sorted_wrt (<) (map id_number (filter (fresh w') r2))"
    by blast
  have f: "fresh w' = fresh w" using fresh_cong [OF i1] .
  have l: "list_all (\<lambda>r. req_id r = Some (toString (id_number r))
                      \<and> cl_nextId (the_client w) < id_number r
                      \<and> id_number r \<le> cl_nextId (the_client w'')) (filter (fresh w) (r1 @ r2))"
    using l1 l2 c1 c2 by (auto simp: list_all_iff f)
  have s: "sorted_wrt (<) (map id_number (filter (fresh w) (r1 @ r2)))"
    using s1 s2 l1 l2 by (fastforce simp: sorted_wrt_append list_all_iff f)
  show ?thesis
    by (rule extendsI [where rs = "r1 @ r2"]) (use i1 i2 c1 c2 w1 w2 l s in simp_all)
qed

lemma ext_refl: "ext w w"
  by (simp add: ext_def extends_def)

lemma ext_trans:
  assumes "ext w w'" and "ext w' w''"
  shows "ext w w''"
  using assms extends_trans [of w w' w'']
  by (auto simp: ext_def split: if_splits)

lemma ext_same:
  assumes "cloneId w' = cloneId w" and "describeId w' = describeId w"
    and "the_client w' = the_client w"
  shows "ext w w'"
  using assms by (simp add: ext_def extends_def)

lemma ext_reuse:
  assumes "cloneId w' = cloneId w" and "describeId w' = describeId w"
    and "cl_nextId (the_client w') = cl_nextId (the_client w)"
    and "cl_written (the_client w') = cl_written (the_client w) @ rs"
    and "list_all (\<lambda>r. \<not> fresh w r) rs"
  shows "ext w w'"
proof -
  have "filter (fresh w) rs = []" using assms(5) by (simp add: list_all_iff)
  then show ?thesis using assms(1-4) by (simp add: ext_def extends_def)
qed

lemma ext_draws:
  assumes d: "draws_one w w'" and i: "cloneId w' = cloneId w" "describeId w' = describeId w"
  shows "ext w w'"
proof -
  have m: "cl_nextId (the_client w) \<le> cl_nextId (the_client w')"
    using d by (simp add: draws_one_def js_increment_def)
  have "extends w w'" if lt: "cl_nextId (the_client w') < MAX_EXACT"
  proof -
    have c: "cl_nextId (the_client w') = cl_nextId (the_client w) + 1"
      using d lt by (simp add: draws_one_def js_increment_def split: if_splits)
    from d consider "cl_written (the_client w') = cl_written (the_client w)"
      | r where "cl_written (the_client w') = cl_written (the_client w) @ [r]"
          "req_id r = Some (toString (cl_nextId (the_client w')))"
      by (auto simp: draws_one_def)
    then show ?thesis
    proof cases
      case 1
      then show ?thesis using i m by (simp add: extends_def)
    next
      case 2
      have n: "id_number r = cl_nextId (the_client w) + 1"
        using 2(2) c by (simp add: id_number_def str_of_def of_decimal_toString)
      show ?thesis
        by (rule extendsI [where rs = "[r]"]) (use i m 2 n c in simp_all)
    qed
  qed
  then show ?thesis using i m by (simp add: ext_def)
qed

lemma numbered_extends:
  assumes n: "numbered w" and e: "extends w w'"
  shows "numbered w'"
proof -
  from extendsD [OF e] obtain rs where
    i: "cloneId w' = cloneId w" "describeId w' = describeId w"
    and c: "cl_nextId (the_client w) \<le> cl_nextId (the_client w')"
    and wr: "cl_written (the_client w') = cl_written (the_client w) @ rs"
    and l: "list_all (\<lambda>r. req_id r = Some (toString (id_number r))
                      \<and> cl_nextId (the_client w) < id_number r
                      \<and> id_number r \<le> cl_nextId (the_client w')) (filter (fresh w) rs)"
    and s: "sorted_wrt (<) (map id_number (filter (fresh w) rs))"
    by blast
  have d: "drawn w' = drawn w @ filter (fresh w) rs"
    by (simp add: drawn_def wr fresh_cong [OF i])
  have l0: "list_all (\<lambda>r. req_id r = Some (toString (id_number r))
                    \<and> id_number r \<le> cl_nextId (the_client w)) (drawn w)"
    and s0: "sorted_wrt (<) (map id_number (drawn w))"
    using n by (simp_all add: numbered_def)
  have "list_all (\<lambda>r. req_id r = Some (toString (id_number r))
                    \<and> id_number r \<le> cl_nextId (the_client w')) (drawn w')"
    using l0 l c by (auto simp: d list_all_iff)
  moreover have "sorted_wrt (<) (map id_number (drawn w'))"
    using s0 s l0 l by (fastforce simp: d sorted_wrt_append list_all_iff)
  ultimately show ?thesis by (simp add: numbered_def)
qed

lemma numbered_ext:
  "numbered w \<Longrightarrow> ext w w' \<Longrightarrow> cl_nextId (the_client w') < MAX_EXACT \<Longrightarrow> numbered w'"
  using numbered_extends by (simp add: ext_def)

lemma numbered_distinct:
  assumes "numbered w"
  shows "distinct (map req_id (drawn w))"
proof -
  have "sorted_wrt (<) (map id_number (drawn w))"
    using assms by (simp add: numbered_def)
  then have "distinct (map id_number (drawn w))"
    using strict_sorted_iff by blast
  moreover have "map id_number (drawn w)
      = map (\<lambda>i. of_decimal (str_of i)) (map req_id (drawn w))"
    by (simp add: id_number_def)
  ultimately show ?thesis by (metis distinct_map)
qed

subsection \<open>What the calls of the client do to the identifiers\<close>

lemma ext_quiet:
  assumes "cloneId w' = cloneId w" and "describeId w' = describeId w"
    and "cl_nextId (the_client w') = cl_nextId (the_client w)"
    and "cl_written (the_client w') = cl_written (the_client w)"
  shows "ext w w'"
  using ext_reuse [OF assms(1-3), of "[]"] assms(4) by simp

lemma ext_cong:
  assumes "ext w w'" and "cloneId w'' = cloneId w'" and "describeId w'' = describeId w'"
    and "cl_nextId (the_client w'') = cl_nextId (the_client w')"
    and "cl_written (the_client w'') = cl_written (the_client w')"
  shows "ext w w''"
  using ext_trans [OF assms(1) ext_quiet [OF assms(2-5)]] .

text \<open>The operations keep the two bootstrap identifiers.\<close>

lemma ids_if_supports [simp]:
  assumes "\<And>v. cloneId (yes v) = cloneId v" and "\<And>v. cloneId (no v) = cloneId v"
    and "\<And>v. describeId (yes v) = describeId v" and "\<And>v. describeId (no v) = describeId v"
  shows "cloneId (if_supports op p yes no w) = cloneId w"
    and "describeId (if_supports op p yes no w) = describeId w"
  using assms by (simp_all add: if_supports_def split: sum.splits)

lemma ids_send_or_skip [simp]:
  "cloneId (send_or_skip s m h p w) = cloneId w"
  "describeId (send_or_skip s m h p w) = describeId w"
  by (simp_all add: send_or_skip_def)

lemma ids_gated_request [simp]:
  "cloneId (snd (gated_request s op args h w)) = cloneId w"
  "describeId (snd (gated_request s op args h w)) = describeId w"
  by (simp_all add: gated_request_def split_beta Let_def)

lemma ids_ungated_request [simp]:
  "cloneId (snd (ungated_request s op args w)) = cloneId w"
  "describeId (snd (ungated_request s op args w)) = describeId w"
  by (simp_all add: ungated_request_def split_beta Let_def)

lemma ids_interrupt [simp]:
  "cloneId (snd (interrupt s i w)) = cloneId w"
  "describeId (snd (interrupt s i w)) = describeId w"
  by (simp_all add: interrupt_def split_beta Let_def)

lemma ids_clone [simp]:
  "cloneId (snd (clone s w)) = cloneId w"
  "describeId (snd (clone s w)) = describeId w"
  by (simp_all add: clone_def split_beta Let_def)

lemma ids_initDebugger [simp]:
  "cloneId (world_of (initDebugger s w)) = cloneId w"
  "describeId (world_of (initDebugger s w)) = describeId w"
  by (simp_all add: initDebugger_def split_beta Let_def world_of_def split: sum.splits)

lemma ids_clojureDocsLookup [simp]:
  "cloneId (snd (clojureDocsLookup s ns symbol w)) = cloneId w"
  "describeId (snd (clojureDocsLookup s ns symbol w)) = describeId w"
  by (simp_all add: clojureDocsLookup_def split_beta Let_def)

lemma ids_start_evaluation [simp]:
  "cloneId (start_evaluation s m e p d pp w) = cloneId w"
  "describeId (start_evaluation s m e p d pp w) = describeId w"
  by (simp_all add: start_evaluation_def)

lemma ids_createEvalOperationMessage [simp]:
  "cloneId (snd (createEvalOperationMessage s code ns opts dbg w)) = cloneId w"
  "describeId (snd (createEvalOperationMessage s code ns opts dbg w)) = describeId w"
  by (simp_all add: createEvalOperationMessage_def split_beta Let_def split: option.splits)

lemma ids_eval [simp]:
  "cloneId (snd (eval s code ns opts dbg w)) = cloneId w"
  "describeId (snd (eval s code ns opts dbg w)) = describeId w"
  by (simp_all add: eval_def split_beta Let_def)

lemma ids_loadFile [simp]:
  "cloneId (snd (loadFile s file opts w)) = cloneId w"
  "describeId (snd (loadFile s file opts w)) = describeId w"
  by (simp_all add: loadFile_def split_beta Let_def)

lemma ids_perform [simp]:
  "cloneId (perform c w) = cloneId w"
  "describeId (perform c w) = describeId w"
  by (cases c; simp)+

lemma ext_perform: "ext w (perform c w)"
  by (rule ext_draws) (simp_all add: draws_one_perform)


text \<open>\<^verbatim>\<open>eval\<close>, also while a debug session redirects it.\<close>

lemma createEvalOperationMessage_cases:
  "(req_op (fst (createEvalOperationMessage s code ns opts dbg w)) = ''debug-input''
      \<and> the_client (snd (createEvalOperationMessage s code ns opts dbg w)) = the_client w)
   \<or> (req_id (fst (createEvalOperationMessage s code ns opts dbg w))
          = Some (toString (js_increment (cl_nextId (the_client w))))
      \<and> the_client (snd (createEvalOperationMessage s code ns opts dbg w))
          = (the_client w)\<lparr>cl_nextId := js_increment (cl_nextId (the_client w))\<rparr>)"
  by (cases "debugResponse dbg")
    (simp_all add: createEvalOperationMessage_def the_request_def split_beta Let_def)

lemma ext_eval: "ext w (snd (eval s code ns opts dbg w))"
proof -
  let ?c = "createEvalOperationMessage s code ns (spread_opts opts) dbg w"
  let ?w2 = "snd (new_promise (snd ?c))"
  let ?d = "eo_line opts \<noteq> None \<and> eo_line opts \<noteq> Some 0
              \<and> eo_column opts \<noteq> None \<and> eo_column opts \<noteq> Some 0 \<and> truthy (eo_file opts)"
  let ?w3 = "start_evaluation s (fst ?c) (next_ref ?w2) (fst (new_promise (snd ?c))) ?d
      (eo_pprintOptions opts) ?w2"
  have c: "the_client (snd (eval s code ns opts dbg w)) = the_client ?w3"
    by (simp add: eval_def split_beta Let_def)
  note st = the_client_start_evaluation [of s "fst ?c" "next_ref ?w2" "fst (new_promise (snd ?c))" ?d
      "eo_pprintOptions opts" ?w2]
  consider (debug) "req_op (fst ?c) = ''debug-input''" "the_client (snd ?c) = the_client w"
    | (plain) "req_id (fst ?c) = Some (toString (js_increment (cl_nextId (the_client w))))"
        "the_client (snd ?c) = (the_client w)\<lparr>cl_nextId := js_increment (cl_nextId (the_client w))\<rparr>"
    using createEvalOperationMessage_cases [of s code ns "spread_opts opts" dbg w] by blast
  then show ?thesis
  proof cases
    case debug
    from st show ?thesis
    proof
      assume "the_client ?w3 = the_client ?w2"
      then show ?thesis using debug by (intro ext_quiet) (simp_all add: c)
    next
      assume "the_client ?w3 = (the_client ?w2)\<lparr>cl_written := cl_written (the_client ?w2) @ [fst ?c]\<rparr>"
      then show ?thesis using debug
        by (intro ext_reuse [where rs = "[fst ?c]"]) (simp_all add: c fresh_def)
    qed
  next
    case plain
    have "draws_one w (snd (eval s code ns opts dbg w))"
      using st plain by (auto simp: draws_one_def c)
    then show ?thesis by (rule ext_draws) simp_all
  qed
qed

lemma ids_sendDebugInput [simp]:
  "cloneId (snd (sendDebugInput s input i k w)) = cloneId w"
  "describeId (snd (sendDebugInput s input i k w)) = describeId w"
  by (simp_all add: sendDebugInput_def split_beta Let_def)

lemma ext_sendDebugInput: "ext w (snd (sendDebugInput s input i k w))"
proof -
  let ?w1 = "snd (new_promise w)"
  let ?m = "the_request ''debug-input'' i s [(''input'', input), (''key'', arg_of k)] ?w1"
  have c: "the_client (snd (sendDebugInput s input i k w))
      = the_client (send_or_skip s ?m (ResultHandler (fst (new_promise w))) (fst (new_promise w)) ?w1)"
    by (simp add: sendDebugInput_def split_beta Let_def)
  from the_client_send_or_skip [of s ?m "ResultHandler (fst (new_promise w))" "fst (new_promise w)" ?w1]
  show ?thesis
  proof
    assume "the_client (send_or_skip s ?m (ResultHandler (fst (new_promise w))) (fst (new_promise w)) ?w1)
        = the_client ?w1"
    then show ?thesis by (intro ext_quiet) (simp_all add: c)
  next
    assume "the_client (send_or_skip s ?m (ResultHandler (fst (new_promise w))) (fst (new_promise w)) ?w1)
        = (the_client ?w1)\<lparr>cl_written := cl_written (the_client ?w1) @ [?m]\<rparr>"
    then show ?thesis
      by (intro ext_reuse [where rs = "[?m]"]) (simp_all add: c fresh_def the_request_def)
  qed
qed

text \<open>\<^verbatim>\<open>stdin\<close> and \<^verbatim>\<open>close\<close> write requests without an identifier.\<close>

lemma ext_stdin: "ext w (world_of (stdin s message w))"
proof (cases "supports w ''stdin''")
  case (Inl x)
  then show ?thesis by (simp add: stdin_def world_of_def ext_refl)
next
  case (Inr b)
  show ?thesis
  proof (cases "b = Some True")
    case True
    then show ?thesis using Inr
      by (intro ext_reuse [where rs = "[the_request ''stdin'' None s [(''stdin'', AStr message)] w]"])
        (simp_all add: stdin_def world_of_def Let_def fresh_def the_request_def)
  next
    case False
    then show ?thesis using Inr
      by (intro ext_quiet) (simp_all add: stdin_def world_of_def Let_def)
  qed
qed

lemma ext_close: "ext w (close s w)"
proof -
  let ?m = "the_request ''close'' None s [] w"
  have i: "cloneId (close s w) = cloneId w" "describeId (close s w) = describeId w"
    by (simp_all add: close_def Let_def split: sum.splits)
  have n: "cl_nextId (the_client (close s w)) = cl_nextId (the_client w)"
    by (simp add: close_def Let_def split: sum.splits)
  have "cl_written (the_client (close s w)) = cl_written (the_client w)
      \<or> cl_written (the_client (close s w)) = cl_written (the_client w) @ [?m]"
    by (simp add: close_def Let_def split: sum.splits)
  then show ?thesis
  proof
    assume "cl_written (the_client (close s w)) = cl_written (the_client w)"
    then show ?thesis using i n by (intro ext_quiet)
  next
    assume "cl_written (the_client (close s w)) = cl_written (the_client w) @ [?m]"
    then show ?thesis using i n
      by (intro ext_reuse [where rs = "[?m]"]) (simp_all add: fresh_def the_request_def)
  qed
qed

lemma ext_fold:
  assumes "\<And>x v. ext v (f x v)"
  shows "ext w (fold f xs w)"
proof (induction xs arbitrary: w)
  case Nil
  show ?case by (simp add: ext_refl)
next
  case (Cons x xs)
  show ?case using ext_trans [OF assms [of w x] Cons.IH [of "f x w"]] by simp
qed

lemma ext_client_close: "ext w (client_close w)"
proof -
  have "ext w (fold (\<lambda>kv. close (snd kv)) (for_in (cl_sessions (the_client w))) w)"
    by (rule ext_fold) (rule ext_close)
  then show ?thesis
    unfolding client_close_def by (rule ext_cong) simp_all
qed

text \<open>Interrupting.\<close>

lemma ext_interrupt: "ext w (snd (interrupt s i w))"
  by (rule ext_draws) (simp_all add: draws_one_interrupt)

lemma ext_evaluation_interrupt: "ext w (evaluation_interrupt e w)"
proof (cases "\<not> ev_interrupted (evaluation_of w e) \<and> ev_running (evaluation_of w e)")
  case False
  then show ?thesis by (auto simp: evaluation_interrupt_def Let_def ext_refl)
next
  case True
  let ?ev = "evaluation_of w e"
  let ?w2 = "update_evaluation e
                          (\<lambda>x. x\<lparr>ev_interrupted := True,
                                  ev_exception := Some ''Evaluation was interrupted'',
                                  ev_stacktrace := EmptyObj\<rparr>) (remove e w)"
  let ?w3 = "snd (interrupt (ev_session ?ev) (ev_id ?ev) ?w2)"
  have a: "ext w ?w2" by (intro ext_quiet) simp_all
  have b: "ext ?w2 ?w3" by (rule ext_interrupt)
  have "ext w (evaluation_interrupt e w)"
    using True
    by (intro ext_cong [OF ext_trans [OF a b]])
      (simp_all add: evaluation_interrupt_def Let_def split_beta)
  then show ?thesis .
qed

lemma ext_interruptAll: "ext w (snd (interruptAll s w))"
proof (cases "length (runningIds (session_of w s)) > 0")
  case False
  then show ?thesis by (simp add: interruptAll_def Let_def ext_refl)
next
  case True
  let ?w0 = "update_session s (\<lambda>x. x\<lparr>runningIds := []\<rparr>) w"
  have a: "ext w ?w0" by (intro ext_quiet) simp_all
  have step: "ext v (let (p, w2) = interrupt s (Some i) v in chain p (InterruptFailed i) w2)" for i v
    by (simp add: split_beta) (rule ext_cong [OF ext_interrupt], simp_all)
  have "ext ?w0 (fold (\<lambda>i w1. let (p, w2) = interrupt s (Some i) w1 in chain p (InterruptFailed i) w2)
      (runningIds (session_of w s)) ?w0)"
    by (rule ext_fold) (rule step)
  then show ?thesis using True ext_trans [OF a] by (simp add: interruptAll_def Let_def)
qed

lemma ext_evaluation_interruptAll: "ext w (snd (evaluation_interruptAll w))"
proof -
  have "ext w (snd (fold (\<lambda>item (num, w1).
             if \<not> ev_interrupted (evaluation_of w1 item) \<and> \<not> ev_finished (evaluation_of w1 item)
             then (Suc num, evaluation_interrupt item w1)
             else (num, w1)) xs (n, w)))" for xs n
  proof (induction xs arbitrary: n w)
    case Nil
    show ?case by (simp add: ext_refl)
  next
    case (Cons x xs)
    show ?case
      using ext_trans [OF ext_evaluation_interrupt [of w x]
          Cons.IH [where n = "Suc n" and w = "evaluation_interrupt x w"]]
        Cons.IH [where n = n and w = w]
      by simp
  qed
  then show ?thesis by (simp add: evaluation_interruptAll_def)
qed

subsection \<open>What the messages of the server do to the identifiers\<close>

lemma ids_receive_fields [simp]:
  "cloneId (receive_fields e m w) = cloneId w"
  "describeId (receive_fields e m w) = describeId w"
  by (simp_all add: receive_fields_def Let_def)

lemma ids_receive_causes [simp]:
  "cloneId (world_of (receive_causes e m w)) = cloneId w"
  "describeId (world_of (receive_causes e m w)) = describeId w"
  by (simp_all add: receive_causes_def world_of_def split: option.splits list.splits)

lemma ids_receive_value [simp]:
  "cloneId (receive_value e m w) = cloneId w"
  "describeId (receive_value e m w) = describeId w"
  by (simp_all add: receive_value_def Let_def)

lemma ids_receive_need_input [simp]:
  "cloneId (receive_need_input e m w) = cloneId w"
  "describeId (receive_need_input e m w) = describeId w"
  by (simp_all add: receive_need_input_def split: option.splits)

lemma ids_received [simp]:
  "cloneId (received e m w) = cloneId w"
  "describeId (received e m w) = describeId w"
  by (simp_all add: received_def)

lemma ids_resolve_value [simp]:
  "cloneId (resolve_value e pp w) = cloneId w"
  "describeId (resolve_value e pp w) = describeId w"
  "the_client (resolve_value e pp w) = the_client w"
  by (simp_all add: resolve_value_def Let_def)

lemma ext_gated_request: "ext w (snd (gated_request s op args h w))"
  by (rule ext_draws) (simp_all add: draws_one_gated)

lemma ext_fetch_stacktrace: "ext w (fetch_stacktrace e w)"
  unfolding fetch_stacktrace_def stacktrace_def split_beta Let_def
  by (rule ext_cong [OF ext_gated_request]) simp_all

lemma ext_receive_terminal: "ext w (world_of (receive_terminal e m pp w))"
proof (cases "terminal m")
  case False
  then show ?thesis by (simp add: receive_terminal_not_terminal world_of_def ext_refl)
next
  case True
  show ?thesis
  proof (cases "failing w e")
    case False
    show ?thesis
      unfolding receive_terminal_resolve [OF True False] world_of_def outcome.case
      by (rule ext_quiet) simp_all
  next
    case failing: True
    show ?thesis
    proof (cases "supports w ''stacktrace''")
      case (Inl x)
      then have "world_of (receive_terminal e m pp w) = remove e w"
        using True failing
        by (simp add: receive_terminal_def terminal_def failing_def world_of_def Let_def)
      then show ?thesis by (simp add: ext_quiet)
    next
      case (Inr b)
      show ?thesis
      proof (cases "b = Some True")
        case yes: True
        have "ext (remove e w) (fetch_stacktrace e (remove e w))" by (rule ext_fetch_stacktrace)
        then have "ext w (fetch_stacktrace e (remove e w))"
          using ext_trans [OF ext_quiet [of "remove e w" w]] by simp
        then show ?thesis
          using receive_terminal_fetch [OF True failing, of pp] Inr yes
          by (simp add: world_of_def)
      next
        case no: False
        show ?thesis
          unfolding receive_terminal_reject [OF True failing Inr no] world_of_def outcome.case
          by (rule ext_quiet) simp_all
      qed
    qed
  qed
qed

lemma ext_onMessage: "ext w (world_of (onMessage e m pp w))"
proof (cases "causes_ok m")
  case True
  have a: "ext w (received e m w)" by (rule ext_quiet) simp_all
  show ?thesis
    unfolding onMessage_received [OF True]
    using ext_trans [OF a ext_receive_terminal] .
next
  case False
  show ?thesis
    unfolding onMessage_throws [OF False] world_of_def outcome.case
    by (rule ext_quiet) simp_all
qed

lemma ids_prepared [simp]:
  "cloneId (prepared e p d w) = cloneId w"
  "describeId (prepared e p d w) = describeId w"
  by (simp_all add: prepared_def)

lemma ext_run_handler: "ext w (world_of (run_handler s h m w))"
proof (cases h)
  case (ResultHandler p)
  then show ?thesis
    by (intro ext_quiet) (simp_all add: resultHandler_def world_of_def)
next
  case (ResolveHandler p)
  then show ?thesis by (intro ext_quiet) (simp_all add: world_of_def)
next
  case (CloneHandler p)
  then show ?thesis
    by (intro ext_quiet) (simp_all add: world_of_def split_beta new_session_def Let_def)
next
  case (RefreshHandler p c)
  then show ?thesis by (intro ext_quiet) (simp_all add: world_of_def Let_def)
next
  case (EvalHandler e p d pp)
  have a: "ext w (prepared e p d w)" by (rule ext_quiet) simp_all
  show ?thesis
    unfolding EvalHandler run_handler_eval
    using ext_trans [OF a ext_onMessage] .
qed

lemma ids_defaultMessageHandler_2 [simp]:
  "cl_nextId (the_client (defaultMessageHandler s m w)) = cl_nextId (the_client w)"
  by simp

lemma ext_response: "ext w (world_of (response s m w))"
proof (cases "messageHandlers (session_of w s) (prop_key (msg_id m))")
  case None
  then show ?thesis
    by (intro ext_quiet) (simp_all add: response_def world_of_def)
next
  case (Some h)
  show ?thesis
  proof (cases "run_handler s h m w")
    case (Threw x w1)
    then have "world_of (response s m w) = world_of (run_handler s h m w)"
      by (simp add: response_def Some world_of_def)
    then show ?thesis using ext_run_handler [of w s h m] by simp
  next
    case (Returned res w1)
    have e: "ext w w1" using ext_run_handler [of w s h m] Returned by (simp add: world_of_def)
    have "world_of (response s m w) = (if res then delete_handler s (msg_id m) w1 else w1)"
      by (simp add: response_def Some Returned world_of_def)
    then show ?thesis
      using e ext_cong [OF e, of "delete_handler s (msg_id m) w1"] by (cases res) simp_all
  qed
qed


lemma ext_route: "ext w (world_of (route d w))"
proof -
  consider (describe) "cl_describe (the_client w) = None \<and> msg_id d = Some (describeId w)"
    | (ns) "\<not> (cl_describe (the_client w) = None \<and> msg_id d = Some (describeId w))"
        "msg_id d = Some (nsId w)"
    | (clone) "\<not> (cl_describe (the_client w) = None \<and> msg_id d = Some (describeId w))"
        "msg_id d \<noteq> Some (nsId w)" "msg_id d = Some (cloneId w)"
    | (session) "\<not> (cl_describe (the_client w) = None \<and> msg_id d = Some (describeId w))"
        "msg_id d \<noteq> Some (nsId w)" "msg_id d \<noteq> Some (cloneId w)"
    by blast
  then show ?thesis
  proof cases
    case describe
    then show ?thesis
      by (intro ext_quiet) (simp_all add: route_def world_of_def)
  next
    case ns
    let ?w1 = "if truthy (msg_ns d)
                      then update_client (\<lambda>c. c\<lparr>cl_ns := str_of (msg_ns d)\<rparr>) w else w"
    let ?m = "\<lparr> req_op = ''clone'', req_id = Some (cloneId w), req_session = None, req_args = [] \<rparr>"
    show ?thesis
    proof (cases "hasStatus d ''done''")
      case True
      then show ?thesis using ns
        by (intro ext_reuse [where rs = "[?m]"]) (simp_all add: route_def world_of_def Let_def fresh_def)
    next
      case False
      then show ?thesis using ns
        by (intro ext_quiet) (simp_all add: route_def world_of_def Let_def)
    qed
  next
    case clone
    let ?m = "\<lparr> req_op = ''describe'', req_id = Some (describeId w),
                        req_session = msg_new_session d,
                        req_args = [(''verbose'', ABool True)] \<rparr>"
    show ?thesis using clone
      by (intro ext_reuse [where rs = "[?m]"])
        (simp_all add: route_def world_of_def Let_def split_beta fresh_def new_session_def)
  next
    case session
    show ?thesis
    proof (cases "truthy (msg_session d)")
      case False
      then show ?thesis using session by (auto simp: route_def world_of_def ext_refl)
    next
      case True
      show ?thesis
      proof (cases "map_of (cl_sessions (the_client w)) (str_of (msg_session d))")
        case None
        then show ?thesis using session True by (auto simp: route_def world_of_def ext_refl)
      next
        case (Some s)
        then have "route d w = response s d w" using session True by (auto simp: route_def)
        then show ?thesis by (simp add: ext_response)
      qed
    qed
  qed
qed

lemma ext_on_data: "ext w (world_of (on_data d w))"
proof -
  let ?w0 = "emit (DebugOnMessage d) (log (LogMessage d) ServerToClient w)"
  have a: "ext w ?w0" by (rule ext_quiet) simp_all
  have b: "ext ?w0 (world_of (route d ?w0))" by (rule ext_route)
  show ?thesis
  proof (cases "route d ?w0")
    case (Threw x w1)
    then have "world_of (on_data d w) = world_of (route d ?w0)"
      by (simp add: on_data_def world_of_def)
    then show ?thesis using ext_trans [OF a b] by simp
  next
    case (Returned u w1)
    have w1: "world_of (route d ?w0) = w1" using Returned by (simp add: world_of_def)
    have c: "ext w w1" using ext_trans [OF a b] by (simp add: w1)
    have "world_of (on_data d w)
        = (if cl_session (the_client w1) \<noteq> None \<and> cl_describe (the_client w1) \<noteq> None
           then settle_promise (create_promise w1) (Resolve ClientObj) w1 else w1)"
      using Returned by (simp add: on_data_def world_of_def)
    then show ?thesis
      using c ext_cong [OF c, of "settle_promise (create_promise w1) (Resolve ClientObj) w1"]
      by (cases "cl_session (the_client w1) \<noteq> None \<and> cl_describe (the_client w1) \<noteq> None") simp_all
  qed
qed

text \<open>Every event.\<close>

lemma ext_happen: "ext w (happen ev w)"
  by (cases ev)
    (simp_all add: ext_perform ext_eval ext_sendDebugInput ext_on_data ext_stdin ext_close
      ext_client_close ext_evaluation_interrupt ext_interruptAll ext_evaluation_interruptAll)

lemma ext_happen_all: "ext w (happen_all es w)"
  unfolding happen_all_def by (rule ext_fold) (rule ext_happen)

lemma numbered_create: "numbered (create quit)"
  by (simp add: numbered_def drawn_def fresh_def id_number_def of_decimal_def digit_value_def
      world_defs toString.simps digit_char_def)

lemma ids_create:
  "cloneId (create quit) = ''2''" "describeId (create quit) = ''3''"
  "cl_nextId (the_client (create quit)) = 3"
  by (simp_all add: world_defs toString.simps digit_char_def)

subsection \<open>Interrupting an evaluation\<close>

lemma settle_promise_fresh:
  "promise_store w p = Some \<lparr>calls = [], reaction = None\<rparr> \<Longrightarrow>
     settle_promise p x w = call_settle p x w"
  by (simp add: settle_promise_def Let_def)

lemma chain_interrupt_failed:
  "evaluation_store (chain p InterruptEvaluationFailed w) = evaluation_store w"
  "q \<noteq> p \<Longrightarrow> promise_store (chain p InterruptEvaluationFailed w) q = promise_store w q"
proof -
  have r: "evaluation_store (react InterruptEvaluationFailed x w) = evaluation_store w
      \<and> promise_store (react InterruptEvaluationFailed x w) = promise_store w" for x
    by (cases x) simp_all
  show "evaluation_store (chain p InterruptEvaluationFailed w) = evaluation_store w"
    using r by (simp add: chain_def split: option.splits list.splits)
  show "q \<noteq> p \<Longrightarrow> promise_store (chain p InterruptEvaluationFailed w) q = promise_store w q"
    using r by (simp add: chain_def split: option.splits list.splits)
qed

text \<open>What \<^verbatim>\<open>session.interrupt\<close> leaves alone.\<close>

lemma interrupt_frame:
  "fst (interrupt s i w) = next_ref w"
  "evaluation_store (snd (interrupt s i w)) = evaluation_store w"
  "Evaluation_Instances (snd (interrupt s i w)) = Evaluation_Instances w"
  "q \<noteq> next_ref w \<Longrightarrow> promise_store (snd (interrupt s i w)) q = promise_store w q"
  "(session_store (snd (interrupt s i w)) t = None) = (session_store w t = None)"
  "cl_written (the_client (snd (interrupt s i w))) = cl_written (the_client w)
   \<or> (\<exists>r. cl_written (the_client (snd (interrupt s i w))) = cl_written (the_client w) @ [r]
          \<and> req_op r = ''interrupt'')"
proof -
  define index where "index = (case i of None \<Rightarrow> -1 | Some x \<Rightarrow> indexOf (runningIds (session_of w s)) x)"
  define w1 where "w1 = (if index > -1 then update_session s (\<lambda>x. x\<lparr>runningIds := splice1 (runningIds x) index\<rparr>) w else w)"
  define w3 where "w3 = snd (new_promise (snd (nextId w1)))"
  define m where "m = the_request ''interrupt'' (Some (fst (nextId w1))) s [(''interrupt-id'', arg_of i)] w3"
  let ?p = "next_ref w"
  have n: "next_ref w1 = next_ref w" by (simp add: w1_def)
  have f: "fst (new_promise (snd (nextId w1))) = ?p" by (simp add: new_promise_def n)
  have p3: "promise_store w3 ?p = Some \<lparr>calls = [], reaction = None\<rparr>"
    by (simp add: w3_def promise_store_new_promise n)
  have pn: "promise_store (not_supported m w3) ?p = Some \<lparr>calls = [], reaction = None\<rparr>"
    using p3 by simp
  have e: "interrupt s i w
      = (?p, if_supports ''interrupt'' ?p
               (\<lambda>w4. client_write m (set_handler s (Some (fst (nextId w1))) (ResultHandler ?p) w4))
               (\<lambda>w4. settle_promise ?p
                        (Reject (Str ''interrupt not supported by the nREPL server''))
                        (not_supported m w4)) w3)"
    unfolding interrupt_def Let_def split_beta index_def [symmetric] w1_def [symmetric]
      w3_def [symmetric] m_def [symmetric] f ..
  show "fst (interrupt s i w) = next_ref w" by (simp add: e)
  have st1: "(session_store w1 t = None) = (session_store w t = None)"
    by (simp add: w1_def session_store_update_session)
  have ps3: "q \<noteq> ?p \<Longrightarrow> promise_store w3 q = promise_store w q"
    by (simp add: w3_def promise_store_new_promise n w1_def)
  have es3: "evaluation_store w3 = evaluation_store w" "Evaluation_Instances w3 = Evaluation_Instances w"
    "(session_store w3 t = None) = (session_store w t = None)"
    "cl_written (the_client w3) = cl_written (the_client w)"
    using st1 by (simp_all add: w3_def w1_def)
  have om: "req_op m = ''interrupt''" by (simp add: m_def the_request_def)
  consider (thrown) x where "supports w3 ''interrupt'' = Inl x"
    | (yes) "supports w3 ''interrupt'' = Inr (Some True)"
    | (no) b where "supports w3 ''interrupt'' = Inr b" "b \<noteq> Some True"
    by (cases "supports w3 ''interrupt''") auto
  then have "evaluation_store (snd (interrupt s i w)) = evaluation_store w
      \<and> Evaluation_Instances (snd (interrupt s i w)) = Evaluation_Instances w
      \<and> (q \<noteq> next_ref w \<longrightarrow> promise_store (snd (interrupt s i w)) q = promise_store w q)
      \<and> (session_store (snd (interrupt s i w)) t = None) = (session_store w t = None)
      \<and> (cl_written (the_client (snd (interrupt s i w))) = cl_written (the_client w)
          \<or> (\<exists>r. cl_written (the_client (snd (interrupt s i w))) = cl_written (the_client w) @ [r]
                \<and> req_op r = ''interrupt''))"
  proof cases
    case thrown
    then have "snd (interrupt s i w) = call_settle ?p (Reject (Thrown x)) w3"
      by (simp add: e if_supports_def settle_promise_fresh [OF p3])
    then show ?thesis
      using es3 ps3 by (simp add: promise_store_call_settle)
  next
    case yes
    then have "snd (interrupt s i w)
        = client_write m (set_handler s (Some (fst (nextId w1))) (ResultHandler ?p) w3)"
      by (simp add: e if_supports_def)
    then show ?thesis
      using es3 ps3 om
      by (auto simp: set_handler_def session_store_update_session)
  next
    case no
    then have "snd (interrupt s i w)
        = call_settle ?p (Reject (Str ''interrupt not supported by the nREPL server''))
            (not_supported m w3)"
      by (simp add: e if_supports_def settle_promise_fresh [OF pn])
    then show ?thesis
      using es3 ps3 by (simp add: promise_store_call_settle)
  qed
  then show "evaluation_store (snd (interrupt s i w)) = evaluation_store w"
    and "Evaluation_Instances (snd (interrupt s i w)) = Evaluation_Instances w"
    and "q \<noteq> next_ref w \<Longrightarrow> promise_store (snd (interrupt s i w)) q = promise_store w q"
    and "(session_store (snd (interrupt s i w)) t = None) = (session_store w t = None)"
    and "cl_written (the_client (snd (interrupt s i w))) = cl_written (the_client w)
   \<or> (\<exists>r. cl_written (the_client (snd (interrupt s i w))) = cl_written (the_client w) @ [r]
          \<and> req_op r = ''interrupt'')"
    by simp_all
qed


lemma running_stored:
  "ev_running (evaluation_of w e) \<Longrightarrow> evaluation_store w e \<noteq> None"
  by (auto simp: evaluation_of_def no_evaluation_def split: option.splits)

lemma evaluation_of_cong:
  "evaluation_store w' = evaluation_store w \<Longrightarrow> evaluation_of w' = evaluation_of w"
  by (rule ext) (simp add: evaluation_of_def)

text \<open>\<^verbatim>\<open>NReplEvaluation.interrupt\<close> on an evaluation that is running and not interrupted.\<close>

lemma evaluation_interrupt_running:
  assumes r: "ev_running (evaluation_of w e)" and ni: "\<not> ev_interrupted (evaluation_of w e)"
  shows "evaluation_of (evaluation_interrupt e w) e
       = (evaluation_of w e)\<lparr>ev_interrupted := True,
            ev_exception := Some ''Evaluation was interrupted'', ev_stacktrace := EmptyObj,
            ev_running := False, ev_finished := True\<rparr>"
    and "messageHandlers (session_of (evaluation_interrupt e w) (ev_session (evaluation_of w e)))
           (prop_key (ev_id (evaluation_of w e))) = None"
    and "Evaluation_Instances (evaluation_interrupt e w) = Evaluation_Instances (remove e w)"
    and "p \<noteq> next_ref w \<Longrightarrow> calls_of (evaluation_interrupt e w) p
           = (if ev_reject (evaluation_of w e) = Some p \<and> \<not> ev_finished (evaluation_of w e)
                 \<and> promise_store w p \<noteq> None
              then calls_of w p @ [Reject (Str ''Evaluation was interrupted'')]
              else calls_of w p)"
proof -
  let ?ev = "evaluation_of w e"
  let ?s = "ev_session ?ev"
  let ?i = "ev_id ?ev"
  define w2 where "w2 = update_evaluation e
      (\<lambda>x. x\<lparr>ev_interrupted := True, ev_exception := Some ''Evaluation was interrupted'',
             ev_stacktrace := EmptyObj\<rparr>) (remove e w)"
  define w4 where "w4 = chain (fst (interrupt ?s ?i w2)) InterruptEvaluationFailed (snd (interrupt ?s ?i w2))"
  define w5 where "w5 = doReject e (js_of (exception_of w4 e)) w4"
  have u: "evaluation_interrupt e w = delete_handler ?s ?i w5"
    using r ni by (simp add: evaluation_interrupt_def Let_def split_beta w5_def w4_def w2_def)
  have st: "evaluation_store w e \<noteq> None" using running_stored [OF r] .
  have n2: "next_ref w2 = next_ref w" by (simp add: w2_def)
  have e2: "evaluation_of w2 e = ?ev\<lparr>ev_interrupted := True,
      ev_exception := Some ''Evaluation was interrupted'', ev_stacktrace := EmptyObj\<rparr>"
    using st by (simp add: w2_def evaluation_of_update_evaluation)
  have s2: "evaluation_store w2 e \<noteq> None" using st by (simp add: w2_def)
  have es4: "evaluation_store w4 = evaluation_store w2"
    by (simp add: w4_def chain_interrupt_failed(1) interrupt_frame(2))
  have e4: "evaluation_of w4 = evaluation_of w2" using evaluation_of_cong [OF es4] .
  have s4: "evaluation_store w4 e \<noteq> None" using s2 by (simp add: es4)
  have x4: "exception_of w4 e = Some ''Evaluation was interrupted''"
    by (simp add: exception_of_stored [OF s4] e4 e2)
  have i4: "Evaluation_Instances w4 = Evaluation_Instances (remove e w)"
    by (simp add: w4_def interrupt_frame(3) w2_def)
  show "evaluation_of (evaluation_interrupt e w) e
       = ?ev\<lparr>ev_interrupted := True,
            ev_exception := Some ''Evaluation was interrupted'', ev_stacktrace := EmptyObj,
            ev_running := False, ev_finished := True\<rparr>"
    using s4 by (simp add: u w5_def evaluation_of_doReject e4 e2)
  show "messageHandlers (session_of (evaluation_interrupt e w) ?s) (prop_key ?i) = None"
    by (cases "session_store w5 ?s")
      (simp_all add: u delete_handler_def session_of_def no_session_def update_session_def)
  show "Evaluation_Instances (evaluation_interrupt e w) = Evaluation_Instances (remove e w)"
    by (simp add: u w5_def i4)
  show "calls_of (evaluation_interrupt e w) p
           = (if ev_reject ?ev = Some p \<and> \<not> ev_finished ?ev \<and> promise_store w p \<noteq> None
              then calls_of w p @ [Reject (Str ''Evaluation was interrupted'')]
              else calls_of w p)" if ne: "p \<noteq> next_ref w"
  proof -
    have q: "fst (interrupt ?s ?i w2) = next_ref w" by (simp add: interrupt_frame(1) n2)
    have a: "promise_store (snd (interrupt ?s ?i w2)) p = promise_store w2 p"
      using ne by (simp add: interrupt_frame(4) n2)
    have b: "promise_store w2 p = promise_store w p" by (simp add: w2_def)
    have c: "promise_store w4 p = promise_store (snd (interrupt ?s ?i w2)) p"
      unfolding w4_def q using chain_interrupt_failed(2) [of p "next_ref w"] ne by simp
    have ps4: "promise_store w4 p = promise_store w p"
      by (simp only: c a b)
    have c4: "calls_of w4 p = calls_of w p" by (simp add: calls_of_def ps4)
    show ?thesis
      using s4 by (simp add: u w5_def calls_of_doReject e4 e2 x4 c4 ps4 js_of_def)
  qed
qed

lemma evaluation_interrupt_idem:
  "evaluation_interrupt e (evaluation_interrupt e w) = evaluation_interrupt e w"
proof (cases "\<not> ev_interrupted (evaluation_of w e) \<and> ev_running (evaluation_of w e)")
  case False
  then have "evaluation_interrupt e w = w" by (auto simp: evaluation_interrupt_def Let_def)
  then show ?thesis by simp
next
  case True
  then have "ev_interrupted (evaluation_of (evaluation_interrupt e w) e)"
    using evaluation_interrupt_running(1) [of w e] by simp
  then show ?thesis by (simp add: evaluation_interrupt_def [of e "evaluation_interrupt e w"] Let_def)
qed

text \<open>A message for which the session has no handler touches no promise and no evaluation.\<close>

lemma response_unhandled:
  assumes "messageHandlers (session_of w s) (prop_key (msg_id m)) = None"
  shows "promise_store (world_of (response s m w)) = promise_store w"
    and "evaluation_store (world_of (response s m w)) = evaluation_store w"
    and "Evaluation_Instances (world_of (response s m w)) = Evaluation_Instances w"
    and "cl_written (the_client (world_of (response s m w))) = cl_written (the_client w)"
  using assms
  by (simp_all add: response_def world_of_def defaultMessageHandler_def Let_def)


lemma evaluation_interrupt_written:
  "cl_written (the_client (evaluation_interrupt e w)) = cl_written (the_client w)
   \<or> (\<exists>r. cl_written (the_client (evaluation_interrupt e w)) = cl_written (the_client w) @ [r]
          \<and> req_op r = ''interrupt'')"
proof (cases "\<not> ev_interrupted (evaluation_of w e) \<and> ev_running (evaluation_of w e)")
  case False
  then have "evaluation_interrupt e w = w" by (auto simp: evaluation_interrupt_def Let_def)
  then show ?thesis by simp
next
  case True
  define w2 where "w2 = update_evaluation e
      (\<lambda>x. x\<lparr>ev_interrupted := True, ev_exception := Some ''Evaluation was interrupted'',
             ev_stacktrace := EmptyObj\<rparr>) (remove e w)"
  have c2: "the_client w2 = the_client w" by (simp add: w2_def)
  have "the_client (evaluation_interrupt e w)
      = the_client (snd (interrupt (ev_session (evaluation_of w e)) (ev_id (evaluation_of w e)) w2))"
    using True by (simp add: evaluation_interrupt_def Let_def split_beta w2_def)
  then show ?thesis
    using interrupt_frame(6) [of "ev_session (evaluation_of w e)" "ev_id (evaluation_of w e)" w2]
    by (simp add: c2)
qed

text \<open>A message that does not end the evaluation leaves it running.\<close>

lemma deliver_running:
  assumes t: "tracked w e p" and c: "causes_ok m" and nt: "\<not> terminal m"
  shows "tracked (deliver s e p d pp m w) e p"
    and "handled (deliver s e p d pp m w) e p"
    and "ev_running (evaluation_of (deliver s e p d pp m w) e)"
    and "ev_interrupted (evaluation_of (deliver s e p d pp m w) e) = ev_interrupted (evaluation_of w e)"
    and "ev_finished (evaluation_of (deliver s e p d pp m w) e) = ev_finished (evaluation_of w e)"
    and "ev_session (evaluation_of (deliver s e p d pp m w) e) = ev_session (evaluation_of w e)"
    and "ev_id (evaluation_of (deliver s e p d pp m w) e) = ev_id (evaluation_of w e)"
    and "next_ref (deliver s e p d pp m w) = next_ref w"
proof -
  let ?P = "prepared e p d w"
  have tp: "tracked ?P e p" and hp: "handled ?P e p" using tracked_prepared [OF t, of d] by simp_all
  have sp: "evaluation_store ?P e \<noteq> None" using tp by (simp add: tracked_def)
  have st: "evaluation_store w e \<noteq> None" using t by (simp add: tracked_def)
  have d: "deliver s e p d pp m w = received e m ?P"
    unfolding deliver_def run_handler_eval onMessage_received [OF c]
      receive_terminal_not_terminal [OF nt]
    by (simp add: world_of_def)
  note f = flags_received [of e m ?P e, unfolded flags_eq]
  have pe: "evaluation_of ?P e = (evaluation_of w e)\<lparr>ev_resolve := Some p, ev_reject := Some p\<rparr>"
    using st by (auto simp: prepared_def setHandlers_def evaluation_of_update_evaluation)
  show "tracked (deliver s e p d pp m w) e p" using tracked_received [OF tp] by (simp add: d)
  show "handled (deliver s e p d pp m w) e p" using handled_received [OF hp] by (simp add: d)
  show "ev_running (evaluation_of (deliver s e p d pp m w) e)"
    using f sp by (simp add: d evaluation_of_update_evaluation)
  show "ev_interrupted (evaluation_of (deliver s e p d pp m w) e) = ev_interrupted (evaluation_of w e)"
    using f sp by (simp add: d evaluation_of_update_evaluation pe)
  show "ev_finished (evaluation_of (deliver s e p d pp m w) e) = ev_finished (evaluation_of w e)"
    using f sp by (simp add: d evaluation_of_update_evaluation pe)
  show "ev_session (evaluation_of (deliver s e p d pp m w) e) = ev_session (evaluation_of w e)"
    using f sp by (simp add: d evaluation_of_update_evaluation pe)
  show "ev_id (evaluation_of (deliver s e p d pp m w) e) = ev_id (evaluation_of w e)"
    using f sp by (simp add: d evaluation_of_update_evaluation pe)
  show "next_ref (deliver s e p d pp m w) = next_ref w" by (simp add: d)
qed

section \<open>The claims\<close>

subsection \<open>C10: registering a close handler twice\<close>

text \<open>
  C10. \<^verbatim>\<open>addOnCloseHandler\<close> of the client and of a session is idempotent:
  registering a function that is already registered leaves the array of handlers as
  it is, and the array never holds a function twice. So when the socket closes, or
  the session is closed, every registered function is called exactly once: the
  number of its calls among the effects grows by one. The handlers are taken to
  return normally, and the session to stand once in the table of the client.
\<close>

theorem addOnCloseHandler_idempotent:
  assumes "distinct (cl_closeHandlers (the_client w))"
    and "distinct (onCloseHandlers (session_of w s))"
    and "session_store w s \<noteq> None"
    and "count_list (map snd (cl_sessions (the_client w))) s = 1"
  shows "client_addOnCloseHandler f (client_addOnCloseHandler f w) = client_addOnCloseHandler f w
    \<and> addOnCloseHandler s g (addOnCloseHandler s g w) = addOnCloseHandler s g w
    \<and> distinct (cl_closeHandlers (the_client (client_addOnCloseHandler f w)))
    \<and> distinct (onCloseHandlers (session_of (addOnCloseHandler s g w) s))
    \<and> (\<forall>h \<in> set (cl_closeHandlers (the_client (client_addOnCloseHandler f w))).
          count_list (effects (socket_closed (client_addOnCloseHandler f (client_addOnCloseHandler f w))))
            (CloseHandlerOfClient h) = count_list (effects w) (CloseHandlerOfClient h) + 1)
    \<and> (\<forall>h \<in> set (onCloseHandlers (session_of (addOnCloseHandler s g w) s)).
          count_list (effects (socket_closed (addOnCloseHandler s g (addOnCloseHandler s g w))))
            (CloseHandlerOfSession h s) = count_list (effects w) (CloseHandlerOfSession h s) + 1
        \<and> count_list (effects (close s (addOnCloseHandler s g (addOnCloseHandler s g w))))
            (CloseHandlerOfSession h s) = count_list (effects w) (CloseHandlerOfSession h s) + 1)"
proof -
  obtain x where x: "session_store w s = Some x" using assms(3) by auto
  have dx: "distinct (onCloseHandlers x)" using assms(2) x by (simp add: session_of_def)
  have i1: "client_addOnCloseHandler f (client_addOnCloseHandler f w) = client_addOnCloseHandler f w"
    by (simp add: client_addOnCloseHandler_def update_client_def add_handler_idem)
  have i2: "addOnCloseHandler s g (addOnCloseHandler s g w) = addOnCloseHandler s g w"
    using x by (simp add: addOnCloseHandler_def update_session_def add_handler_idem)
  have d1: "distinct (cl_closeHandlers (the_client (client_addOnCloseHandler f w)))"
    using assms(1) by (simp add: client_addOnCloseHandler_def update_client_def distinct_add_handler)
  have d2: "distinct (onCloseHandlers (session_of (addOnCloseHandler s g w) s))"
    using dx x by (simp add: addOnCloseHandler_def update_session_def session_of_def distinct_add_handler)
  have e1: "effects (client_addOnCloseHandler f w) = effects w"
    by (simp add: client_addOnCloseHandler_def update_client_def)
  have e2: "effects (addOnCloseHandler s g w) = effects w"
    by (simp add: addOnCloseHandler_def update_session_def split: option.splits)
  have t2: "cl_sessions (the_client (addOnCloseHandler s g w)) = cl_sessions (the_client w)"
    by (simp add: addOnCloseHandler_def update_session_def split: option.splits)
  have c1: "\<forall>h \<in> set (cl_closeHandlers (the_client (client_addOnCloseHandler f w))).
          count_list (effects (socket_closed (client_addOnCloseHandler f (client_addOnCloseHandler f w))))
            (CloseHandlerOfClient h) = count_list (effects w) (CloseHandlerOfClient h) + 1"
    using d1 by (simp add: i1 socket_closed_client_count e1 count_list_distinct)
  have c2: "\<forall>h \<in> set (onCloseHandlers (session_of (addOnCloseHandler s g w) s)).
          count_list (effects (socket_closed (addOnCloseHandler s g (addOnCloseHandler s g w))))
            (CloseHandlerOfSession h s) = count_list (effects w) (CloseHandlerOfSession h s) + 1
        \<and> count_list (effects (close s (addOnCloseHandler s g (addOnCloseHandler s g w))))
            (CloseHandlerOfSession h s) = count_list (effects w) (CloseHandlerOfSession h s) + 1"
    using d2 assms(4) by (simp add: i2 socket_closed_session_count close_count e2 t2 count_list_distinct)
  show ?thesis using i1 i2 d1 d2 c1 c2 by blast
qed

theorem addOnCloseHandler_idempotent_witness:
  "client_addOnCloseHandler 7 (client_addOnCloseHandler 7 (connected [])) = client_addOnCloseHandler 7 (connected [])
   \<and> cl_closeHandlers (the_client (client_addOnCloseHandler 7 (connected []))) = [7]
   \<and> count_list (effects (socket_closed (client_addOnCloseHandler 7 (client_addOnCloseHandler 7 (connected [])))))
        (CloseHandlerOfClient 7) = 1
   \<and> count_list (effects (close 1 (addOnCloseHandler 1 8 (addOnCloseHandler 1 8 (connected [])))))
        (CloseHandlerOfSession 8 1) = 1"
proof -
  have h1: "distinct (cl_closeHandlers (the_client (connected [])))" by (simp add: eval_defs)
  have h2: "distinct (onCloseHandlers (session_of (connected []) 1))"
    by (simp add: eval_defs session_of_def)
  have h3: "session_store (connected []) 1 \<noteq> None" by (simp add: eval_defs)
  have h4: "count_list (map snd (cl_sessions (the_client (connected [])))) 1 = 1"
    by (simp add: eval_defs)
  have a: "cl_closeHandlers (the_client (client_addOnCloseHandler 7 (connected []))) = [7]"
    by (simp add: eval_defs client_addOnCloseHandler_def add_handler_def)
  have b: "onCloseHandlers (session_of (addOnCloseHandler 1 8 (connected [])) 1) = [8]"
    by (simp add: eval_defs addOnCloseHandler_def add_handler_def session_of_def update_session_def)
  have e: "count_list (effects (connected [])) (CloseHandlerOfClient 7) = 0"
    by (simp add: eval_defs)
  have e': "count_list (effects (connected [])) (CloseHandlerOfSession 8 1) = 0"
    by (simp add: eval_defs)
  note t = addOnCloseHandler_idempotent [OF h1 h2 h3 h4, of 7 8]
  from t have p1: "client_addOnCloseHandler 7 (client_addOnCloseHandler 7 (connected []))
      = client_addOnCloseHandler 7 (connected [])"
    by blast
  from t have "\<forall>h \<in> set (cl_closeHandlers (the_client (client_addOnCloseHandler 7 (connected [])))).
      count_list (effects (socket_closed (client_addOnCloseHandler 7 (client_addOnCloseHandler 7 (connected [])))))
        (CloseHandlerOfClient h) = count_list (effects (connected [])) (CloseHandlerOfClient h) + 1"
    by blast
  then have p2: "count_list (effects (socket_closed (client_addOnCloseHandler 7 (client_addOnCloseHandler 7 (connected [])))))
        (CloseHandlerOfClient 7) = 1"
    using e by (simp add: a)
  from t have "\<forall>h \<in> set (onCloseHandlers (session_of (addOnCloseHandler 1 8 (connected [])) 1)).
      count_list (effects (close 1 (addOnCloseHandler 1 8 (addOnCloseHandler 1 8 (connected [])))))
        (CloseHandlerOfSession h 1) = count_list (effects (connected [])) (CloseHandlerOfSession h 1) + 1"
    by blast
  then have p3: "count_list (effects (close 1 (addOnCloseHandler 1 8 (addOnCloseHandler 1 8 (connected [])))))
        (CloseHandlerOfSession 8 1) = 1"
    using e' by (simp add: b del: One_nat_def)
  show ?thesis using p1 a p2 p3 by blast
qed

subsection \<open>C8: identifiers\<close>

text \<open>
  C8, amended. While the counter is below \<open>2 ^ 53\<close>, successive reads of
  \<^verbatim>\<open>nextId\<close> give the decimal strings of the numbers that follow the counter, one
  by one: strictly increasing, no string twice. And whatever happens on a connection
  after \<^verbatim>\<open>create\<close> (calls of the operations on any of its sessions, messages of
  the server, input, closing, interrupts), as long as the counter stays below
  \<open>2 ^ 53\<close>: the requests written under an identifier just read from \<^verbatim>\<open>nextId\<close>
  carry the decimal strings of strictly increasing numbers, so no two of them have the
  same identifier. These are all the requests with an identifier except the
  \<^verbatim>\<open>debug-input\<close> requests and the \<^verbatim>\<open>clone\<close> and \<^verbatim>\<open>describe\<close> requests of
  the bootstrap, which are written under the identifiers 2 and 3 as often as the
  server sends the message that triggers them.
\<close>

theorem nextId_strictly_increasing:
  assumes "cl_nextId (the_client w) + n \<le> MAX_EXACT"
    and "cl_nextId (the_client (happen_all es (create quit))) < MAX_EXACT"
  shows "draw n w = map toString [cl_nextId (the_client w) + 1 ..< cl_nextId (the_client w) + 1 + n]
    \<and> map of_decimal (draw n w) = [cl_nextId (the_client w) + 1 ..< cl_nextId (the_client w) + 1 + n]
    \<and> distinct (draw n w)
    \<and> numbered (happen_all es (create quit))
    \<and> sorted_wrt (<) (map id_number (drawn (happen_all es (create quit))))
    \<and> distinct (map req_id (drawn (happen_all es (create quit))))
    \<and> drawn (happen_all es (create quit))
        = filter (\<lambda>r. req_id r \<noteq> None \<and> req_op r \<noteq> ''debug-input''
                      \<and> req_id r \<noteq> Some ''2'' \<and> req_id r \<noteq> Some ''3'')
            (cl_written (the_client (happen_all es (create quit))))"
proof -
  let ?c = "cl_nextId (the_client w)"
  let ?W = "happen_all es (create quit)"
  have d: "draw n w = map toString [?c + 1 ..< ?c + 1 + n]"
    using draw_exact [OF assms(1)] .
  have m: "map of_decimal (draw n w) = [?c + 1 ..< ?c + 1 + n]"
    unfolding d by (simp add: comp_def of_decimal_toString)
  have "distinct (map of_decimal (draw n w))" unfolding m by simp
  then have dd: "distinct (draw n w)" by (metis distinct_map)
  note e = ext_happen_all [of "create quit" es]
  have np: "numbered ?W"
    using numbered_ext [OF numbered_create e assms(2)] .
  then have s: "sorted_wrt (<) (map id_number (drawn ?W))"
    by (simp add: numbered_def)
  have i: "cloneId ?W = ''2''" "describeId ?W = ''3''"
    using e by (simp_all add: ext_def ids_create)
  have f: "drawn ?W = filter (\<lambda>r. req_id r \<noteq> None \<and> req_op r \<noteq> ''debug-input''
                      \<and> req_id r \<noteq> Some ''2'' \<and> req_id r \<noteq> Some ''3'')
            (cl_written (the_client ?W))"
  proof -
    have "fresh ?W = (\<lambda>r. req_id r \<noteq> None \<and> req_op r \<noteq> ''debug-input''
                      \<and> req_id r \<noteq> Some ''2'' \<and> req_id r \<noteq> Some ''3'')"
      by (rule ext) (simp add: fresh_def i)
    then show ?thesis by (simp only: drawn_def)
  qed
  show ?thesis using d m dd np s numbered_distinct [OF np] f by blast
qed

theorem nextId_strictly_increasing_witness:
  "draw 2 (happen_all busy (create ''QUIT'')) = [''6'', ''7'']
   \<and> map req_id (cl_written (the_client (happen_all busy (create ''QUIT''))))
       = [Some ''1'', Some ''2'', Some ''2'', Some ''3'', Some ''4'', None]
   \<and> map req_id (drawn (happen_all busy (create ''QUIT''))) = [Some ''1'', Some ''4'']
   \<and> distinct (map req_id (drawn (happen_all busy (create ''QUIT''))))"
proof -
  have w: "map req_id (cl_written (the_client (happen_all busy (create ''QUIT''))))
       = [Some ''1'', Some ''2'', Some ''2'', Some ''3'', Some ''4'', None]"
    and c: "cl_nextId (the_client (happen_all busy (create ''QUIT''))) = 5"
    by (simp_all add: happen_all_def busy_def op_defs stdin_def)
  have h1: "cl_nextId (the_client (happen_all busy (create ''QUIT''))) + 2 \<le> MAX_EXACT"
    unfolding c by (simp add: MAX_EXACT_def)
  have h2: "cl_nextId (the_client (happen_all busy (create ''QUIT''))) < MAX_EXACT"
    unfolding c by (simp add: MAX_EXACT_def)
  note t = nextId_strictly_increasing [OF h1 h2]
  from t have a: "draw 2 (happen_all busy (create ''QUIT'')) = [''6'', ''7'']"
    unfolding c by (simp add: toString.simps digit_char_def upt_rec)
  from t have f: "drawn (happen_all busy (create ''QUIT''))
        = filter (\<lambda>r. req_id r \<noteq> None \<and> req_op r \<noteq> ''debug-input''
                      \<and> req_id r \<noteq> Some ''2'' \<and> req_id r \<noteq> Some ''3'')
            (cl_written (the_client (happen_all busy (create ''QUIT''))))"
    by blast
  have o: "map req_op (cl_written (the_client (happen_all busy (create ''QUIT''))))
       = [''eval'', ''clone'', ''clone'', ''describe'', ''info'', ''stdin'']"
    by (simp add: happen_all_def busy_def op_defs stdin_def)
  have b: "map req_id (drawn (happen_all busy (create ''QUIT''))) = [Some ''1'', Some ''4'']"
    unfolding f using w o
    by (cases "cl_written (the_client (happen_all busy (create ''QUIT'')))") (auto simp: Cons_eq_map_conv)
  from t a w b show ?thesis by blast
qed

text \<open>
  C8 as stated fails for the requests that do not read \<^verbatim>\<open>nextId\<close>:
  \<^verbatim>\<open>sendDebugInput\<close> writes its message under the identifier its caller hands in,
  the one of the pending debug response, which here is the identifier the
  \<^verbatim>\<open>init-debugger\<close> request was given.
\<close>

theorem nextId_reused_by_sendDebugInput:
  "map req_id (cl_written (the_client (snd (sendDebugInput 1 (AStr '':continue'') (Some ''4'') (Some ''key'')
       (world_of (initDebugger 1 (connected [''init-debugger'', ''debug-input''])))))))
     = [Some ''1'', Some ''2'', Some ''3'', Some ''4'', Some ''4'']
   \<and> map req_op (cl_written (the_client (snd (sendDebugInput 1 (AStr '':continue'') (Some ''4'') (Some ''key'')
       (world_of (initDebugger 1 (connected [''init-debugger'', ''debug-input''])))))))
     = [''eval'', ''clone'', ''describe'', ''init-debugger'', ''debug-input'']"
  by (simp add: op_defs)

subsection \<open>C7: the promise of create\<close>

lemma bootstrapping_create: "bootstrapping (create quit)"
  by (simp add: bootstrapping_def world_defs session_of_def)

lemma route_bootstrapping:
  assumes h: "\<And>s. messageHandlers (session_of w s) = Map.empty"
  shows "(\<exists>w'. route d w = Returned () w' \<and> routed d w w') \<or> (\<exists>x. route d w = Threw x w)"
proof -
  consider (describe) "cl_describe (the_client w) = None \<and> msg_id d = Some (describeId w)"
    | (ns) "\<not> (cl_describe (the_client w) = None \<and> msg_id d = Some (describeId w))"
        "msg_id d = Some (nsId w)"
    | (clone) "\<not> (cl_describe (the_client w) = None \<and> msg_id d = Some (describeId w))"
        "msg_id d \<noteq> Some (nsId w)" "msg_id d = Some (cloneId w)"
    | (session) "\<not> (cl_describe (the_client w) = None \<and> msg_id d = Some (describeId w))"
        "msg_id d \<noteq> Some (nsId w)" "msg_id d \<noteq> Some (cloneId w)"
    by blast
  then show ?thesis
  proof cases
    case describe
    then show ?thesis using h by (simp add: route_def routed_def)
  next
    case ns
    then show ?thesis using h by (auto simp: route_def routed_def Let_def)
  next
    case clone
    then show ?thesis using h
      by (auto simp: route_def routed_def Let_def split_beta session_of_new_session no_session_def)
  next
    case session
    then show ?thesis using h
      by (auto simp: route_def routed_def response_def handlers_defaultMessageHandler
          split: option.splits)
  qed
qed

lemma bootstrapping_logged:
  "bootstrapping (emit x (log y z w)) = bootstrapping w"
  by (simp add: bootstrapping_def session_of_def)

lemma on_data_bootstrapping:
  assumes b: "bootstrapping w"
  shows "bootstrapping (world_of (on_data d w))"
proof -
  let ?w0 = "emit (DebugOnMessage d) (log (LogMessage d) ServerToClient w)"
  have h0: "\<And>s. messageHandlers (session_of ?w0 s) = Map.empty"
    using b by (simp add: bootstrapping_def)
  from route_bootstrapping [OF h0, of d] show ?thesis
  proof
    assume "\<exists>x. route d ?w0 = Threw x ?w0"
    then obtain x where "route d ?w0 = Threw x ?w0" by blast
    then have "world_of (on_data d w) = ?w0" by (simp add: on_data_def world_of_def)
    then show ?thesis using b by (simp add: bootstrapping_logged)
  next
    assume "\<exists>w'. route d ?w0 = Returned () w' \<and> routed d ?w0 w'"
    then obtain w1 where r: "route d ?w0 = Returned () w1" and rt: "routed d ?w0 w1" by blast
    obtain cs where cs: "promise_store w (create_promise w) = Some \<lparr>calls = cs, reaction = None\<rparr>"
      and sub: "set cs \<subseteq> {Resolve ClientObj}"
      and iff: "cs \<noteq> [] \<longleftrightarrow> cl_session (the_client w) \<noteq> None \<and> cl_describe (the_client w) \<noteq> None"
      using b by (auto simp: bootstrapping_def)
    have p1: "promise_store w1 (create_promise w1) = Some \<lparr>calls = cs, reaction = None\<rparr>"
      using rt cs by (simp add: routed_def)
    have h1: "\<And>s. messageHandlers (session_of w1 s) = Map.empty"
      using rt by (simp add: routed_def)
    show ?thesis
    proof (cases "cl_session (the_client w1) \<noteq> None \<and> cl_describe (the_client w1) \<noteq> None")
      case True
      then have "world_of (on_data d w) = settle_promise (create_promise w1) (Resolve ClientObj) w1"
        using r by (simp add: on_data_def world_of_def)
      then show ?thesis using True p1 h1 sub
        by (simp add: bootstrapping_def settle_promise_def Let_def promise_store_call_settle)
    next
      case False
      then have w: "world_of (on_data d w) = w1"
        using r by (auto simp: on_data_def world_of_def)
      have "cs = []" using False iff rt by (auto simp: routed_def)
      then show ?thesis using False p1 h1 unfolding w by (auto simp: bootstrapping_def)
    qed
  qed
qed

lemma on_data_origin:
  assumes b: "bootstrapping w"
  shows "cloneId (world_of (on_data d w)) = cloneId w
    \<and> describeId (world_of (on_data d w)) = describeId w
    \<and> (cl_session (the_client (world_of (on_data d w))) \<noteq> None \<longrightarrow>
           cl_session (the_client w) \<noteq> None \<or> msg_id d = Some (cloneId w))
    \<and> (cl_describe (the_client (world_of (on_data d w))) \<noteq> None \<longrightarrow>
           cl_describe (the_client w) \<noteq> None \<or> msg_id d = Some (describeId w))"
proof -
  let ?w0 = "emit (DebugOnMessage d) (log (LogMessage d) ServerToClient w)"
  have h0: "\<And>s. messageHandlers (session_of ?w0 s) = Map.empty"
    using b by (simp add: bootstrapping_def)
  from route_bootstrapping [OF h0, of d] show ?thesis
  proof
    assume "\<exists>x. route d ?w0 = Threw x ?w0"
    then obtain x where "route d ?w0 = Threw x ?w0" by blast
    then have "world_of (on_data d w) = ?w0" by (simp add: on_data_def world_of_def)
    then show ?thesis by simp
  next
    assume "\<exists>w'. route d ?w0 = Returned () w' \<and> routed d ?w0 w'"
    then obtain w1 where r: "route d ?w0 = Returned () w1" and rt: "routed d ?w0 w1" by blast
    have "the_client (world_of (on_data d w)) = the_client w1
        \<and> cloneId (world_of (on_data d w)) = cloneId w1
        \<and> describeId (world_of (on_data d w)) = describeId w1"
      using r by (simp add: on_data_def world_of_def)
    then show ?thesis using rt by (simp add: routed_def)
  qed
qed

lemma on_all_data_bootstrapping:
  "bootstrapping w \<Longrightarrow>
     bootstrapping (on_all_data ds w)
     \<and> (cl_session (the_client (on_all_data ds w)) \<noteq> None \<longrightarrow>
           cl_session (the_client w) \<noteq> None \<or> Some (cloneId w) \<in> msg_id ` set ds)
     \<and> (cl_describe (the_client (on_all_data ds w)) \<noteq> None \<longrightarrow>
           cl_describe (the_client w) \<noteq> None \<or> Some (describeId w) \<in> msg_id ` set ds)"
proof (induction ds arbitrary: w)
  case Nil
  then show ?case by (simp add: on_all_data_def)
next
  case (Cons d ds)
  have step: "on_all_data (d # ds) w = on_all_data ds (world_of (on_data d w))"
    by (simp add: on_all_data_def)
  note o = on_data_origin [OF Cons.prems, of d]
  note ih = Cons.IH [OF on_data_bootstrapping [OF Cons.prems, of d]]
  show ?case unfolding step using ih o by auto
qed

text \<open>
  C7. Whatever messages arrive after the socket has connected, in whatever order, the
  promise of \<^verbatim>\<open>NReplClient.create\<close> is resolved (with the client) exactly when
  both \<^verbatim>\<open>client.session\<close> and \<^verbatim>\<open>client.describe\<close> are set, and pending
  otherwise: the listener tests both after every message. The session is only set
  by a message that carries the identifier of the clone request, the describe result
  only by one that carries the identifier of the describe request.
\<close>

theorem create_resolves_when_session_and_describe:
  "settled (on_all_data ds (create quit)) (create_promise (on_all_data ds (create quit)))
     = (if cl_session (the_client (on_all_data ds (create quit))) \<noteq> None
           \<and> cl_describe (the_client (on_all_data ds (create quit))) \<noteq> None
        then Some (Resolve ClientObj) else None)
   \<and> (cl_session (the_client (on_all_data ds (create quit))) \<noteq> None \<longrightarrow>
         Some (cloneId (create quit)) \<in> msg_id ` set ds)
   \<and> (cl_describe (the_client (on_all_data ds (create quit))) \<noteq> None \<longrightarrow>
         Some (describeId (create quit)) \<in> msg_id ` set ds)"
proof -
  let ?w = "on_all_data ds (create quit)"
  note inv = on_all_data_bootstrapping [OF bootstrapping_create, of ds quit]
  have none: "cl_session (the_client (create quit)) = None" "cl_describe (the_client (create quit)) = None"
    by (simp_all add: world_defs)
  from inv obtain cs where cs: "promise_store ?w (create_promise ?w) = Some \<lparr>calls = cs, reaction = None\<rparr>"
    and sub: "set cs \<subseteq> {Resolve ClientObj}"
    and iff: "cs \<noteq> [] \<longleftrightarrow> cl_session (the_client ?w) \<noteq> None \<and> cl_describe (the_client ?w) \<noteq> None"
    by (auto simp: bootstrapping_def)
  have first: "settled ?w (create_promise ?w)
     = (if cl_session (the_client ?w) \<noteq> None \<and> cl_describe (the_client ?w) \<noteq> None
        then Some (Resolve ClientObj) else None)"
  proof (cases cs)
    case Nil
    then show ?thesis using cs iff by (auto simp: settled_def)
  next
    case (Cons c rest)
    then have "c = Resolve ClientObj" using sub by simp
    then show ?thesis using Cons cs iff by (auto simp: settled_def)
  qed
  show ?thesis using first inv none by simp
qed

theorem create_resolves_when_session_and_describe_witness:
  "settled (on_all_data [ns_done, cloned] (create ''QUIT'')) (create_promise (on_all_data [ns_done, cloned] (create ''QUIT''))) = None
   \<and> settled (on_all_data [ns_done, described [], cloned] (create ''QUIT''))
        (create_promise (on_all_data [ns_done, described [], cloned] (create ''QUIT''))) = Some (Resolve ClientObj)
   \<and> Some (cloneId (create ''QUIT'')) \<in> msg_id ` set [ns_done, described [], cloned]
   \<and> Some (describeId (create ''QUIT'')) \<in> msg_id ` set [ns_done, described [], cloned]"
proof -
  have a: "cl_describe (the_client (on_all_data [ns_done, cloned] (create ''QUIT''))) = None"
    by (simp add: eval_defs)
  have b: "cl_session (the_client (on_all_data [ns_done, described [], cloned] (create ''QUIT''))) \<noteq> None"
    by (simp add: eval_defs)
  have c: "cl_describe (the_client (on_all_data [ns_done, described [], cloned] (create ''QUIT''))) \<noteq> None"
    by (simp add: eval_defs)
  show ?thesis
    using create_resolves_when_session_and_describe [of "[ns_done, cloned]" "''QUIT''"]
      create_resolves_when_session_and_describe [of "[ns_done, described [], cloned]" "''QUIT''"]
      a b c
    by simp
qed
subsection \<open>C9: supports before the describe result is stored\<close>

lemmas cloned_defs = eval_defs cloned_only_def

text \<open>
  C9, as the code has it. While no describe result is stored, \<^verbatim>\<open>supports\<close> returns
  \<^verbatim>\<open>undefined\<close> for every operation and does not throw; so every operation that
  asks \<^verbatim>\<open>supports\<close> writes nothing and resolves with \<^verbatim>\<open>undefined\<close>
  (\<^verbatim>\<open>stdin\<close> and \<^verbatim>\<open>initDebugger\<close> return), except \<^verbatim>\<open>interrupt\<close>, whose
  promise is rejected with the text that it is not supported.
\<close>

theorem supports_before_describe:
  "cl_describe (the_client w) = None \<longrightarrow>
      supports w op = Inr None
      \<and> skipped w (gated_request s op args h w)
      \<and> skipped w (clone s w)
      \<and> skipped w (clojureDocsLookup s ns symbol w)
      \<and> skipped w (sendDebugInput s input i k w)
      \<and> skipped_evaluation w (eval s code ns opts dbg w)
      \<and> skipped_evaluation w (loadFile s file opts w)
      \<and> (\<exists>w'. stdin s message w = Returned () w'
              \<and> cl_written (the_client w') = cl_written (the_client w))
      \<and> (\<exists>w'. initDebugger s w = Returned () w'
              \<and> cl_written (the_client w') = cl_written (the_client w))
      \<and> cl_written (the_client (close s w)) = cl_written (the_client w)
      \<and> cl_written (the_client (snd (interrupt s j w))) = cl_written (the_client w)
      \<and> calls_of (snd (interrupt s j w)) (fst (interrupt s j w))
          = [Reject (Str ''interrupt not supported by the nREPL server'')]"
proof -
  have first: "supports w op = Inr None
      \<and> skipped w (gated_request s op args h w)
      \<and> skipped w (clone s w)
      \<and> skipped w (clojureDocsLookup s ns symbol w)
      \<and> skipped w (sendDebugInput s input i k w)
      \<and> skipped_evaluation w (eval s code ns opts dbg w)
      \<and> skipped_evaluation w (loadFile s file opts w)
      \<and> (\<exists>w'. stdin s message w = Returned () w'
              \<and> cl_written (the_client w') = cl_written (the_client w))
      \<and> (\<exists>w'. initDebugger s w = Returned () w'
              \<and> cl_written (the_client w') = cl_written (the_client w))
      \<and> cl_written (the_client (close s w)) = cl_written (the_client w)
      \<and> cl_written (the_client (snd (interrupt s j w))) = cl_written (the_client w)
      \<and> calls_of (snd (interrupt s j w)) (fst (interrupt s j w))
          = [Reject (Str ''interrupt not supported by the nREPL server'')]"
    if none: "cl_describe (the_client w) = None"
  proof -
    have u: "supports w x = Inr None" for x using none by (simp add: supports_def)
    have n: "(None :: bool option) \<noteq> Some True" by simp
    show ?thesis
      using u gated_request_unsupported [OF u n] clone_unsupported [OF u n]
        clojureDocsLookup_unsupported [OF u n] sendDebugInput_unsupported [OF u n]
        eval_unsupported [OF u n u n] loadFile_unsupported [OF u n] stdin_unsupported [OF u n]
        initDebugger_unsupported [OF u n] close_unsupported [OF u n] interrupt_unsupported [OF u n]
      by simp
  qed
  show ?thesis using first by blast
qed

theorem supports_before_describe_witness:
  "supports cloned_only ''eval'' = Inr None
   \<and> skipped cloned_only (gated_request 1 ''complete'' [] ResultHandler cloned_only)
   \<and> skipped_evaluation cloned_only (eval 1 ''(+ 1 2)'' ''user'' plain_opts no_debug cloned_only)
   \<and> cl_written (the_client (close 1 cloned_only)) = cl_written (the_client cloned_only)"
proof -
  have a: "cl_describe (the_client cloned_only) = None"
    by (simp add: cloned_defs)
  show ?thesis
    using supports_before_describe [of cloned_only "''eval''" 1 "[]" ResultHandler]
      supports_before_describe [where w = cloned_only and op = "''complete''" and s = 1
        and args = "[]" and h = ResultHandler and code = "''(+ 1 2)''" and ns = "''user''"
        and opts = plain_opts and dbg = no_debug]
      a
    by simp
qed

text \<open>
  C9 as stated fails for \<^verbatim>\<open>interrupt\<close>, which asks \<^verbatim>\<open>supports\<close> like the other
  operations: between the clone response and the describe response its promise is
  rejected, not resolved with \<^verbatim>\<open>undefined\<close>.
\<close>

theorem interrupt_before_describe_rejects:
  "cl_describe (the_client cloned_only) = None
   \<and> cl_session (the_client cloned_only) = Some 1
   \<and> settled (snd (interrupt 1 (Some ''9'') cloned_only)) (fst (interrupt 1 (Some ''9'') cloned_only))
       = Some (Reject (Str ''interrupt not supported by the nREPL server''))"
  by (simp add: cloned_defs interrupt_def split_beta new_promise_def if_supports_def supports_def
      the_request_def not_supported_def settled_def session_of_def update_session_def)

subsection \<open>C2: operations that are not in the capability set\<close>

text \<open>
  C2. \<^verbatim>\<open>outSubscribe\<close> and \<^verbatim>\<open>describe\<close> never ask \<^verbatim>\<open>supports\<close>. On a
  connection whose describe result lists neither \<^verbatim>\<open>out-subscribe\<close> nor
  \<^verbatim>\<open>describe\<close>, each of them writes its message, and the promise stays pending. The
  other operations of the claim do what it says: the lemmas on unsupported operations
  above.
\<close>

theorem outSubscribe_written_when_unsupported:
  "supports (connected [''eval'', ''clone'', ''describe'']) ''out-subscribe'' = Inr (Some False)
   \<and> map req_op (cl_written (the_client (snd (outSubscribe 1 None (connected [''eval'', ''clone'', ''describe''])))))
       = [''eval'', ''clone'', ''describe'', ''out-subscribe'']
   \<and> settled (snd (outSubscribe 1 None (connected [''eval'', ''clone'', ''describe''])))
        (fst (outSubscribe 1 None (connected [''eval'', ''clone'', ''describe'']))) = None
   \<and> supports (connected [''eval'', ''clone'']) ''describe'' = Inr (Some False)
   \<and> map req_op (cl_written (the_client (snd (describe 1 None (connected [''eval'', ''clone''])))))
       = [''eval'', ''clone'', ''describe'', ''describe'']"
  by (simp add: op_defs outSubscribe_def describe_def settled_def arg_of_bool_def)
subsection \<open>C6: the default handler\<close>

text \<open>What the default handler does to the running identifiers.\<close>

lemma runningIds_defaultMessageHandler:
  assumes "session_store w s \<noteq> None"
  shows "runningIds (session_of (defaultMessageHandler s m w) s)
     = (if msg_status m \<noteq> Some [''done''] \<and> truthy (msg_id m)
           \<and> str_of (msg_id m) \<notin> set (runningIds (session_of w s))
        then runningIds (session_of w s) @ [str_of (msg_id m)]
        else runningIds (session_of w s))"
  using assms
  by (auto simp: defaultMessageHandler_def Let_def status_loosely_equals_done addRunningID_def
      session_of_update_session session_store_update_session truthy_def str_of_def
      split: option.splits)

lemma replType_defaultMessageHandler:
  assumes "session_store w s \<noteq> None"
  shows "replType (session_of (defaultMessageHandler s m w) s)
     = (if truthy (msg_repl_type m) then msg_repl_type m else replType (session_of w s))"
  using assms
  by (auto simp: defaultMessageHandler_def Let_def addRunningID_def session_of_update_session
      session_store_update_session split: option.splits)

lemma effects_defaultMessageHandler:
  "effects (defaultMessageHandler s m w)
     = effects w
       @ (if (truthy (msg_out m) \<or> truthy (msg_err m))
             \<and> truthy (replType (session_of (defaultMessageHandler s m w) s))
          then [if truthy (msg_out m) then OutputAppend (str_of (msg_out m))
                else OutputAppendLine (str_of (msg_err m))]
          else [])"
  by (auto simp: defaultMessageHandler_def Let_def)

text \<open>
  C6. The default handler stores the REPL flavour of the message and forwards
  \<^verbatim>\<open>out\<close> and \<^verbatim>\<open>err\<close> only when a flavour is known, as the three lemmas above
  say. But it compares the status with \<^verbatim>\<open>'done'\<close> by \<^verbatim>\<open>==\<close>, which holds for
  the one-element status \<^verbatim>\<open>['done']\<close> only: a terminal message whose status
  contains \<^verbatim>\<open>done\<close> next to another tag has its identifier added to the running
  identifiers.
\<close>

theorem defaultMessageHandler_adds_terminal_message:
  "hasStatus late_done ''done''
   \<and> messageHandlers (session_of (connected []) 1) (prop_key (msg_id late_done)) = None
   \<and> runningIds (session_of (connected []) 1) = []
   \<and> runningIds (session_of (world_of (response 1 late_done (connected []))) 1) = [''9'']"
  by (simp add: op_defs late_done_def defaultMessageHandler_def addRunningID_def
      status_loosely_equals_def session_of_update_session)
subsection \<open>C1: an evaluation is settled once\<close>




subsection \<open>C4: value and debug value\<close>

text \<open>
  C4, amended. \<^verbatim>\<open>onMessage\<close> stores \<^verbatim>\<open>msg.value || msg['debug-value']\<close>: of a
  message that carries one of the two fields it stores the value when that is defined
  and not empty, and the debug value otherwise. So when both are there and not empty
  the value takes precedence, and it is the value that the promise of a quiet
  evaluation is resolved with when the message is also the last one.
\<close>

theorem onMessage_stores_value_first:
  assumes t: "tracked w e p" and c: "causes_ok m"
    and v: "msg_value m \<noteq> None \<or> msg_debug_value m \<noteq> None"
  shows "ev_msgValue (evaluation_of (deliver s e p d pp m w) e)
       = (if truthy (msg_value m) then msg_value m else msg_debug_value m)
    \<and> (hasStatus m ''done'' \<and> quiet w e m \<and> \<not> ev_finished (evaluation_of w e)
         \<and> \<not> pp_enabled pp \<longrightarrow>
       calls_of (deliver s e p d pp m w) p
         = [Resolve (Str (if truthy (msg_value m) then str_of (msg_value m)
                          else if truthy (msg_debug_value m) then str_of (msg_debug_value m)
                          else []))])"
proof -
  have s: "evaluation_store w e \<noteq> None" using t by (simp add: tracked_def)
  have a: "ev_msgValue (evaluation_of (deliver s e p d pp m w) e)
       = (if truthy (msg_value m) then msg_value m else msg_debug_value m)"
    using v by (simp add: deliver_value [OF s c])
  have b: "calls_of (deliver s e p d pp m w) p
         = [Resolve (Str (if truthy (msg_value m) then str_of (msg_value m)
                          else if truthy (msg_debug_value m) then str_of (msg_debug_value m)
                          else []))]"
    if "hasStatus m ''done''" "quiet w e m" "\<not> ev_finished (evaluation_of w e)" "\<not> pp_enabled pp"
  proof -
    have tm: "terminal m" using that(1) by (simp add: terminal_def)
    have np: "\<not> (pp_enabled pp \<and> pp_printEngine pp = ''calva'')" using that(4) by simp
    show ?thesis
      using deliver_resolves [OF t c tm that(2) that(3) np, of s d]
      by (simp add: msgValue_def a)
  qed
  show ?thesis using a b by blast
qed

theorem onMessage_stores_value_first_witness:
  "ev_msgValue (evaluation_of (deliver 1 3 2 False plain_printing both_values_done (evaluating [''eval''])) 3)
       = msg_value both_values_done
   \<and> calls_of (deliver 1 3 2 False plain_printing both_values_done (evaluating [''eval''])) 2
       = [Resolve (Str ''3'')]"
proof -
  have t: "tracked (evaluating [''eval'']) 3 2" by (simp add: evaluating_facts)
  have c: "causes_ok both_values_done"
    by (simp add: causes_ok_def both_values_done_def both_values_def hasStatus_def no_message_def)
  have v: "msg_value both_values_done \<noteq> None \<or> msg_debug_value both_values_done \<noteq> None"
    by (simp add: both_values_done_def both_values_def)
  have m: "truthy (msg_value both_values_done)" "str_of (msg_value both_values_done) = ''3''"
    "hasStatus both_values_done ''done''"
    by (simp_all add: both_values_done_def both_values_def truthy_def str_of_def hasStatus_def)
  have q: "quiet (evaluating [''eval'']) 3 both_values_done"
    by (simp add: quiet_def evaluating_facts new_evaluation_def no_evaluation_def truthy_def
        both_values_done_def both_values_def no_message_def hasStatus_def)
  have f: "\<not> ev_finished (evaluation_of (evaluating [''eval'']) 3)"
    by (simp add: evaluating_facts new_evaluation_def no_evaluation_def)
  have p: "\<not> pp_enabled plain_printing" by (simp add: plain_printing_def)
  show ?thesis
    using onMessage_stores_value_first [OF t c v, of 1 False plain_printing] m q f p
    by simp
qed

text \<open>
  C4 as stated fails. A message with the value \<^verbatim>\<open>"3"\<close> and the debug value
  \<^verbatim>\<open>"debug"\<close> leaves the value in the evaluation, and as the last message of the
  evaluation it resolves the promise with the value.
\<close>

theorem onMessage_value_hides_debug_value:
  "msg_value both_values = Some ''3'' \<and> msg_debug_value both_values = Some ''debug''
   \<and> ev_msgValue (evaluation_of (deliver 1 3 2 False plain_printing both_values (evaluating [''eval''])) 3)
       = Some ''3''
   \<and> calls_of (deliver 1 3 2 False plain_printing both_values_done (evaluating [''eval''])) 2
       = [Resolve (Str ''3'')]"
proof -
  have t: "tracked (evaluating [''eval'']) 3 2" by (simp add: evaluating_facts)
  have s: "evaluation_store (evaluating [''eval'']) 3 \<noteq> None" using t by (simp add: tracked_def)
  have c: "causes_ok both_values" "causes_ok both_values_done"
    by (simp_all add: causes_ok_def both_values_done_def both_values_def hasStatus_def no_message_def)
  have m: "msg_value both_values = Some ''3''" "msg_debug_value both_values = Some ''debug''"
    "msg_value both_values_done = Some ''3''"
    by (simp_all add: both_values_done_def both_values_def)
  have q: "quiet (evaluating [''eval'']) 3 both_values_done"
    by (simp add: quiet_def evaluating_facts new_evaluation_def no_evaluation_def truthy_def
        both_values_done_def both_values_def no_message_def hasStatus_def)
  have f: "\<not> ev_finished (evaluation_of (evaluating [''eval'']) 3)"
    by (simp add: evaluating_facts new_evaluation_def no_evaluation_def)
  have tm: "terminal both_values_done"
    by (simp add: terminal_def both_values_done_def hasStatus_def)
  have p: "\<not> (pp_enabled plain_printing \<and> pp_printEngine plain_printing = ''calva'')"
    by (simp add: plain_printing_def)
  have a: "ev_msgValue (evaluation_of (deliver 1 3 2 False plain_printing both_values (evaluating [''eval''])) 3)
       = Some ''3''"
    by (simp add: deliver_value [OF s c(1)] m truthy_def)
  have b: "ev_msgValue (evaluation_of (deliver 1 3 2 False plain_printing both_values_done (evaluating [''eval''])) 3)
       = Some ''3''"
    by (simp add: deliver_value [OF s c(2)] m truthy_def)
  have "calls_of (deliver 1 3 2 False plain_printing both_values_done (evaluating [''eval''])) 2
       = [Resolve (Str ''3'')]"
    using deliver_resolves [OF t c(2) tm q f p, of 1 False]
    by (simp add: msgValue_def b truthy_def str_of_def del: One_nat_def)
  then show ?thesis using a m by simp
qed

subsection \<open>C5: the stack trace is requested before the rejection\<close>

text \<open>
  C5, amended. Take a pending evaluation (stored with its promise and its session, no
  call made yet to the functions of its promise) whose handler is registered under
  the identifier of the message \<open>m\<close>, on a server whose operations include
  \<^verbatim>\<open>stacktrace\<close>. Let \<open>m\<close> have a status that contains \<^verbatim>\<open>done\<close>, not combine the
  status \<^verbatim>\<open>eval-error\<close> with an empty list of causes, and carry another identifier
  than the one \<^verbatim>\<open>nextId\<close> returns next; and let the evaluation, at the terminal test
  of \<^verbatim>\<open>onMessage\<close>, have an exception and a value other than the debug quit value.
  Then \<^verbatim>\<open>_response\<close> writes a \<^verbatim>\<open>stacktrace\<close> request and leaves the promise of
  the evaluation pending; the reply to that request, whether it brings the stack
  trace or says \<^verbatim>\<open>unknown-op\<close>, rejects the promise, once, with the exception text.
\<close>

theorem stacktrace_requested_then_rejected:
  fixes w :: world and e p :: ref and d :: bool and pp :: pprint_options and m :: message
  assumes t: "tracked w e p" and nf: "\<not> ev_finished (evaluation_of w e)"
    and reg: "messageHandlers (session_of w (ev_session (evaluation_of w e))) (prop_key (msg_id m))
                = Some (EvalHandler e p d pp)"
    and c: "causes_ok m" and dn: "hasStatus m ''done''"
    and x: "failing (received e m (prepared e p d w)) e"
    and y: "supports w ''stacktrace'' = Inr (Some True)"
    and fresh: "prop_key (msg_id m) \<noteq> toString (js_increment (cl_nextId (the_client w)))"
  defines "s \<equiv> ev_session (evaluation_of w e)"
  defines "w' \<equiv> world_of (response s m w)"
  shows "cl_written (the_client w') = cl_written (the_client w) @ [stacktrace_request w s]
    \<and> calls_of w' p = []
    \<and> ev_exception (evaluation_of w' e)
        = (if truthy (msg_ex m) then msg_ex m else ev_exception (evaluation_of w e))
    \<and> (\<forall>r. msg_id r = Some (toString (js_increment (cl_nextId (the_client w)))) \<longrightarrow>
          calls_of (world_of (response s r w')) p
            = [Reject (js_of (ev_exception (evaluation_of w' e)))])"
proof -
  let ?i = "toString (js_increment (cl_nextId (the_client w)))"
  let ?D = "deliver s e p d pp m w"
  have tm: "terminal m" using dn by (simp add: terminal_def)
  note f = deliver_fetches [OF t c tm x y, of s pp]
  have r: "response s m w = Returned () (delete_handler s (msg_id m) ?D)"
    using response_eval [OF reg [folded s_def] t c] tm by simp
  have w': "w' = delete_handler s (msg_id m) ?D"
    by (simp only: w'_def r world_of_def outcome.case)
  have t': "tracked w' e p" using f(2) by (simp add: w' tracked_delete_handler)
  have h': "handled w' e p" using f(3) by (simp add: w')
  have c': "calls_of w' p = []"
    using f(4) tracked_finished(2) [OF t] nf by (simp add: w')
  have e': "evaluation_of w' = evaluation_of ?D" by (simp add: w')
  have f': "fetching w' e (next_ref w) ?i"
    using f(5) by (simp add: w' fetching_delete_handler [OF fresh])
  have ne: "next_ref w \<noteq> p" using t by (simp add: tracked_def)
  have s': "ev_session (evaluation_of w' e) = s" using f(8) by (simp add: e' s_def)
  have nf': "\<not> ev_finished (evaluation_of w' e)" using f(9) nf by (simp add: e')
  have written: "cl_written (the_client w') = cl_written (the_client w) @ [stacktrace_request w s]"
    using f(6) by (simp add: w' s_def)
  have ex: "ev_exception (evaluation_of w' e)
        = (if truthy (msg_ex m) then msg_ex m else ev_exception (evaluation_of w e))"
    using f(7) by (simp add: e')
  have reply: "calls_of (world_of (response s r w')) p
            = [Reject (js_of (ev_exception (evaluation_of w' e)))]"
    if "msg_id r = Some ?i" for r
  proof -
    from response_fetching [OF t' h' f' ne that] obtain w'' where
      a: "response s r w' = Returned () w''"
      and k: "calls_of w'' p = (if ev_finished (evaluation_of w' e) then calls_of w' p
           else [Reject (js_of (ev_exception (evaluation_of w' e)))])"
      unfolding s' by blast
    have "world_of (response s r w') = w''"
      by (simp only: a world_of_def outcome.case)
    then show ?thesis using k nf' by simp
  qed
  show ?thesis using written c' ex reply by blast
qed

theorem stacktrace_requested_then_rejected_witness:
  "map req_op (cl_written (the_client (world_of (response 1 failed_4 (evaluating [''eval'', ''stacktrace''])))))
       = map req_op (cl_written (the_client (evaluating [''eval'', ''stacktrace'']))) @ [''stacktrace'']
   \<and> calls_of (world_of (response 1 failed_4 (evaluating [''eval'', ''stacktrace'']))) 2 = []
   \<and> calls_of (world_of (response 1 trace_5
         (world_of (response 1 failed_4 (evaluating [''eval'', ''stacktrace'']))))) 2
       = [Reject (Str ''Exception'')]
   \<and> calls_of (world_of (response 1 no_trace_5
         (world_of (response 1 failed_4 (evaluating [''eval'', ''stacktrace'']))))) 2
       = [Reject (Str ''Exception'')]"
proof -
  let ?w = "evaluating [''eval'', ''stacktrace'']"
  have mem: "''eval'' \<in> set [''eval'', ''stacktrace'']" by simp
  note ev = evaluating_facts [OF mem]
  have s: "ev_session (evaluation_of ?w 3) = 1" "\<not> ev_finished (evaluation_of ?w 3)"
    "ev_exception (evaluation_of ?w 3) = None" "ev_msgValue (evaluation_of ?w 3) = None"
    by (simp_all add: ev del: One_nat_def)
  have m: "prop_key (msg_id failed_4) = ''4''" "causes_ok failed_4" "hasStatus failed_4 ''done''"
    "msg_ex failed_4 = Some ''Exception''" "msg_value failed_4 = None" "msg_debug_value failed_4 = None"
    by (simp_all add: failed_4_def prop_key_def str_of_def no_message_def causes_ok_def hasStatus_def)
  have st: "evaluation_store (prepared 3 2 False ?w) 3 \<noteq> None"
    using ev(1) by (simp add: tracked_def)
  have x: "failing (received 3 failed_4 (prepared 3 2 False ?w)) 3"
    by (simp add: failing_def fields_received [OF st] msgValue_def m truthy_def ev)
  have y: "supports ?w ''stacktrace'' = Inr (Some True)"
    by (simp add: supports_def ev described_def)
  have i: "toString (js_increment (cl_nextId (the_client ?w))) = ''5''"
    by (simp add: ev js_increment_def MAX_EXACT_def toString.simps digit_char_def)
  have reg: "messageHandlers (session_of ?w (ev_session (evaluation_of ?w 3))) (prop_key (msg_id failed_4))
                = Some (EvalHandler 3 2 False plain_printing)"
    by (simp only: m ev new_evaluation_fields)
  have fresh: "prop_key (msg_id failed_4) \<noteq> toString (js_increment (cl_nextId (the_client ?w)))"
    by (simp add: m i)
  have r: "msg_id trace_5 = Some ''5''" "msg_id no_trace_5 = Some ''5''"
    by (simp_all add: trace_5_def no_trace_5_def)
  note th = stacktrace_requested_then_rejected [OF ev(1) s(2) reg m(2) m(3) x y fresh, unfolded s(1) i]
  have a: "req_op (stacktrace_request ?w 1) = ''stacktrace''"
    by (simp add: stacktrace_request_def the_request_def)
  show ?thesis
    using th r a by (simp add: m truthy_def js_of_def del: One_nat_def)
qed

text \<open>
  C5 as stated fails for a terminal message whose status also contains
  \<^verbatim>\<open>eval-error\<close> and whose list of causes is empty: \<^verbatim>\<open>onMessage\<close> stores the
  exception and then throws on \<^verbatim>\<open>msg.causes[0].class\<close>, before its terminal test.
  No \<^verbatim>\<open>stacktrace\<close> request is written and the promise is not rejected, although the
  server supports \<^verbatim>\<open>stacktrace\<close>.
\<close>

theorem done_with_empty_causes_requests_nothing:
  "hasStatus no_causes_ex_4 ''done''
   \<and> supports (evaluating [''eval'', ''stacktrace'']) ''stacktrace'' = Inr (Some True)
   \<and> messageHandlers (session_of (evaluating [''eval'', ''stacktrace'']) 1) (prop_key (msg_id no_causes_ex_4))
       = Some (EvalHandler 3 2 False plain_printing)
   \<and> response 1 no_causes_ex_4 (evaluating [''eval'', ''stacktrace''])
       = Threw (TypeError ''Cannot read properties of undefined'')
           (world_of (response 1 no_causes_ex_4 (evaluating [''eval'', ''stacktrace''])))
   \<and> ev_exception (evaluation_of (world_of (response 1 no_causes_ex_4 (evaluating [''eval'', ''stacktrace'']))) 3)
       = Some ''Exception''
   \<and> cl_written (the_client (world_of (response 1 no_causes_ex_4 (evaluating [''eval'', ''stacktrace'']))))
       = cl_written (the_client (evaluating [''eval'', ''stacktrace'']))
   \<and> calls_of (world_of (response 1 no_causes_ex_4 (evaluating [''eval'', ''stacktrace'']))) 2 = []"
proof -
  let ?w = "evaluating [''eval'', ''stacktrace'']"
  let ?m = "no_causes_ex_4"
  let ?T = "receive_fields 3 ?m
          (add 3 (update_evaluation 3 (\<lambda>x. x\<lparr>ev_running := True\<rparr>) (prepared 3 2 False ?w)))"
  have mem: "''eval'' \<in> set [''eval'', ''stacktrace'']" by simp
  note ev = evaluating_facts [OF mem]
  have m: "\<not> causes_ok ?m" "hasStatus ?m ''done''" "prop_key (msg_id ?m) = ''4''"
    "truthy (msg_ex ?m)" "msg_ex ?m = Some ''Exception''"
    by (simp_all add: no_causes_ex_4_def no_causes_4_def no_message_def causes_ok_def hasStatus_def
        prop_key_def str_of_def truthy_def)
  have y: "supports ?w ''stacktrace'' = Inr (Some True)"
    by (simp add: supports_def ev described_def)
  have reg: "messageHandlers (session_of ?w 1) (prop_key (msg_id ?m)) = Some (EvalHandler 3 2 False plain_printing)"
    by (simp only: m ev)
  have r: "response 1 ?m ?w = Threw (TypeError ''Cannot read properties of undefined'') ?T"
    by (simp only: response_def reg option.case run_handler_eval onMessage_throws [OF m(1)] outcome.case)
  have wo: "world_of (response 1 ?m ?w) = ?T"
    by (simp only: r world_of_def outcome.case)
  have st: "evaluation_store (add 3 (update_evaluation 3 (\<lambda>x. x\<lparr>ev_running := True\<rparr>) (prepared 3 2 False ?w))) 3 \<noteq> None"
    using ev(1) by (simp add: tracked_def)
  have x: "ev_exception (evaluation_of ?T 3) = Some ''Exception''"
    by (simp add: fields_receive_fields(1) [OF st] m truthy_def)
  have wr: "cl_written (the_client ?T) = cl_written (the_client ?w)"
    by simp
  have cw: "calls_of ?w 2 = []"
    using tracked_finished(2) [OF ev(1)] by (simp add: ev)
  have k: "calls_of ?T 2 = calls_of ?w 2"
    by (simp add: calls_of_def prepared_def setHandlers_def)
  have r': "response 1 ?m ?w = Threw (TypeError ''Cannot read properties of undefined'')
           (world_of (response 1 ?m ?w))"
    by (simp only: r world_of_def outcome.case)
  have x': "ev_exception (evaluation_of (world_of (response 1 ?m ?w)) 3) = Some ''Exception''"
    by (simp only: wo x)
  have wr': "cl_written (the_client (world_of (response 1 ?m ?w))) = cl_written (the_client ?w)"
    by (simp only: wo wr)
  have k': "calls_of (world_of (response 1 ?m ?w)) 2 = []"
    by (simp only: wo k cw)
  show ?thesis
    using m(2) y reg r' x' wr' k' by blast
qed

subsection \<open>C3: interrupting twice\<close>

text \<open>
  C3. \<^verbatim>\<open>NReplEvaluation.interrupt\<close> called twice does what one call does: the world
  after the second call is the world after the first, for every evaluation; at most
  one \<^verbatim>\<open>interrupt\<close> request is written. For an evaluation that is running and not
  yet interrupted, the call sets the \<^verbatim>\<open>interrupted\<close> flag and removes the handler
  registered under the identifier of the evaluation, so a later message with that
  identifier, terminal or not, reaches no handler of the evaluation: it changes no
  promise and no evaluation. When the evaluation is pending and settles its own
  promise (as every evaluation does whose handler has run), the call rejects the
  promise with the text that the evaluation was interrupted and removes the
  evaluation from the live instances, and the late message leaves that outcome as it is.
\<close>

theorem interrupt_twice_is_once:
  fixes w :: world and e p :: ref
  defines "w1 \<equiv> evaluation_interrupt e w"
  shows "evaluation_interrupt e w1 = w1
    \<and> (cl_written (the_client w1) = cl_written (the_client w)
        \<or> (\<exists>r. cl_written (the_client w1) = cl_written (the_client w) @ [r]
              \<and> req_op r = ''interrupt''))
    \<and> (ev_running (evaluation_of w e) \<and> \<not> ev_interrupted (evaluation_of w e) \<longrightarrow>
          ev_interrupted (evaluation_of w1 e)
          \<and> messageHandlers (session_of w1 (ev_session (evaluation_of w e)))
               (prop_key (ev_id (evaluation_of w e))) = None
          \<and> (\<forall>m. prop_key (msg_id m) = prop_key (ev_id (evaluation_of w e)) \<longrightarrow>
                promise_store (world_of (response (ev_session (evaluation_of w e)) m w1))
                  = promise_store w1
                \<and> evaluation_store (world_of (response (ev_session (evaluation_of w e)) m w1))
                  = evaluation_store w1)
          \<and> (tracked w e p \<and> handled w e p \<and> \<not> ev_finished (evaluation_of w e) \<longrightarrow>
                calls_of w1 p = [Reject (Str ''Evaluation was interrupted'')]
                \<and> e \<notin> set (Evaluation_Instances w1)
                \<and> (\<forall>m. prop_key (msg_id m) = prop_key (ev_id (evaluation_of w e)) \<longrightarrow>
                      calls_of (world_of (response (ev_session (evaluation_of w e)) m w1)) p
                        = [Reject (Str ''Evaluation was interrupted'')])))"
proof -
  let ?s = "ev_session (evaluation_of w e)"
  let ?i = "ev_id (evaluation_of w e)"
  have idem: "evaluation_interrupt e w1 = w1"
    unfolding w1_def by (rule evaluation_interrupt_idem)
  have written: "cl_written (the_client w1) = cl_written (the_client w)
        \<or> (\<exists>r. cl_written (the_client w1) = cl_written (the_client w) @ [r]
              \<and> req_op r = ''interrupt'')"
    unfolding w1_def by (rule evaluation_interrupt_written)
  have main: "ev_interrupted (evaluation_of w1 e)
          \<and> messageHandlers (session_of w1 ?s) (prop_key ?i) = None
          \<and> (\<forall>m. prop_key (msg_id m) = prop_key ?i \<longrightarrow>
                promise_store (world_of (response ?s m w1)) = promise_store w1
                \<and> evaluation_store (world_of (response ?s m w1)) = evaluation_store w1)
          \<and> (tracked w e p \<and> handled w e p \<and> \<not> ev_finished (evaluation_of w e) \<longrightarrow>
                calls_of w1 p = [Reject (Str ''Evaluation was interrupted'')]
                \<and> e \<notin> set (Evaluation_Instances w1)
                \<and> (\<forall>m. prop_key (msg_id m) = prop_key ?i \<longrightarrow>
                      calls_of (world_of (response ?s m w1)) p
                        = [Reject (Str ''Evaluation was interrupted'')]))"
    if r: "ev_running (evaluation_of w e)" and ni: "\<not> ev_interrupted (evaluation_of w e)"
  proof -
    note k = evaluation_interrupt_running [OF r ni, folded w1_def]
    have a: "ev_interrupted (evaluation_of w1 e)" by (simp add: k(1))
    have b: "messageHandlers (session_of w1 ?s) (prop_key ?i) = None" using k(2) .
    have c: "promise_store (world_of (response ?s m w1)) = promise_store w1
                \<and> evaluation_store (world_of (response ?s m w1)) = evaluation_store w1"
      if "prop_key (msg_id m) = prop_key ?i" for m
      using response_unhandled(1,2) [of w1 ?s m] b that by simp
    have d: "calls_of w1 p = [Reject (Str ''Evaluation was interrupted'')]
                \<and> e \<notin> set (Evaluation_Instances w1)
                \<and> (\<forall>m. prop_key (msg_id m) = prop_key ?i \<longrightarrow>
                      calls_of (world_of (response ?s m w1)) p
                        = [Reject (Str ''Evaluation was interrupted'')])"
      if t: "tracked w e p" and h: "handled w e p" and nf: "\<not> ev_finished (evaluation_of w e)"
    proof -
      have ne: "p \<noteq> next_ref w" and ps: "promise_store w p \<noteq> None"
        and ds: "distinct (Evaluation_Instances w)"
        using t by (simp_all add: tracked_def)
      have er: "ev_reject (evaluation_of w e) = Some p" using h by (simp add: handled_def)
      have c0: "calls_of w p = []" using tracked_finished(2) [OF t] nf by simp
      have c1: "calls_of w1 p = [Reject (Str ''Evaluation was interrupted'')]"
        using k(4) [OF ne] er nf ps c0 by simp
      have g: "e \<notin> set (Evaluation_Instances w1)"
        using removed [OF ds, of e] by (simp add: k(3))
      have l: "calls_of (world_of (response ?s m w1)) p = [Reject (Str ''Evaluation was interrupted'')]"
        if "prop_key (msg_id m) = prop_key ?i" for m
        using c [OF that] c1 by (simp add: calls_of_def)
      show ?thesis using c1 g l by blast
    qed
    show ?thesis using a b c d by blast
  qed
  show ?thesis using idem written main by blast
qed

theorem interrupt_twice_is_once_witness:
  "evaluation_interrupt 3 (evaluation_interrupt 3 running_evaluation)
       = evaluation_interrupt 3 running_evaluation
   \<and> calls_of (evaluation_interrupt 3 running_evaluation) 2
       = [Reject (Str ''Evaluation was interrupted'')]
   \<and> 3 \<notin> set (Evaluation_Instances (evaluation_interrupt 3 running_evaluation))
   \<and> calls_of (world_of (response 1 done_4 (evaluation_interrupt 3 running_evaluation))) 2
       = [Reject (Str ''Evaluation was interrupted'')]"
proof -
  let ?v = "evaluating [''eval'', ''interrupt'']"
  have mem: "''eval'' \<in> set [''eval'', ''interrupt'']" by simp
  note ev = evaluating_facts [OF mem]
  have c: "causes_ok value_3" "\<not> terminal value_3"
    by (simp_all add: causes_ok_def terminal_def value_3_def hasStatus_def no_message_def)
  note dr = deliver_running [OF ev(1) c, of 1 False plain_printing, folded running_evaluation_def]
  have r: "ev_running (evaluation_of running_evaluation 3)" using dr(3) .
  have ni: "\<not> ev_interrupted (evaluation_of running_evaluation 3)"
    by (simp add: dr(4) ev(2))
  have nf: "\<not> ev_finished (evaluation_of running_evaluation 3)"
    by (simp add: dr(5) ev(2))
  have s: "ev_session (evaluation_of running_evaluation 3) = 1"
    by (simp add: dr(6) ev(2) del: One_nat_def)
  have i: "ev_id (evaluation_of running_evaluation 3) = Some ''4''"
    by (simp add: dr(7) ev(2))
  have k: "prop_key (msg_id done_4) = prop_key (Some ''4'')"
    by (simp add: done_4_def)
  note th = interrupt_twice_is_once [where w = running_evaluation and e = 3 and p = 2,
      unfolded s i]
  show ?thesis
    using th r ni nf dr(1) dr(2) k by blast
qed

end
